theory Spec2Isabelle
  imports
    Complex_Main
    "HOL-Library.Char_ord"
    "HOL-Library.List_Lexorder"
    "HOL-Library.Product_Lexorder"
    "HOL-Library.Multiset"
begin

section \<open>Values of a pandas table\<close>

text \<open>
  The audit scripts compute on pandas DataFrames. A numeric cell is a float64; the model keeps
  the finite values exact (a rational) and keeps the three special values of IEEE arithmetic,
  because the scripts' zero-handling is precisely about them: \<open>x / 0\<close> is \<open>inf\<close> or
  \<open>-inf\<close>, \<open>0 / 0\<close> is \<open>NaN\<close>, and a blank spreadsheet cell is read as \<open>NaN\<close>.
  Rounding error of finite float arithmetic and the sign of zero are not modelled.
\<close>

datatype num = Fin rat | PInf | NInf | NaN

fun ndiv :: "num \<Rightarrow> num \<Rightarrow> num" where
  "ndiv NaN y = NaN"
| "ndiv x NaN = NaN"
| "ndiv (Fin a) (Fin b) =
     (if b = 0 then (if a = 0 then NaN else if 0 < a then PInf else NInf) else Fin (a / b))"
| "ndiv (Fin a) PInf = Fin 0"
| "ndiv (Fin a) NInf = Fin 0"
| "ndiv PInf (Fin b) = (if 0 \<le> b then PInf else NInf)"
| "ndiv NInf (Fin b) = (if 0 \<le> b then NInf else PInf)"
| "ndiv PInf PInf = NaN"
| "ndiv PInf NInf = NaN"
| "ndiv NInf PInf = NaN"
| "ndiv NInf NInf = NaN"

fun nmul :: "num \<Rightarrow> num \<Rightarrow> num" where
  "nmul NaN y = NaN"
| "nmul x NaN = NaN"
| "nmul (Fin a) (Fin b) = Fin (a * b)"
| "nmul (Fin a) PInf = (if a = 0 then NaN else if 0 < a then PInf else NInf)"
| "nmul (Fin a) NInf = (if a = 0 then NaN else if 0 < a then NInf else PInf)"
| "nmul PInf (Fin b) = (if b = 0 then NaN else if 0 < b then PInf else NInf)"
| "nmul NInf (Fin b) = (if b = 0 then NaN else if 0 < b then NInf else PInf)"
| "nmul PInf PInf = PInf"
| "nmul PInf NInf = NInf"
| "nmul NInf PInf = NInf"
| "nmul NInf NInf = PInf"

fun nadd :: "num \<Rightarrow> num \<Rightarrow> num" where
  "nadd NaN y = NaN"
| "nadd x NaN = NaN"
| "nadd (Fin a) (Fin b) = Fin (a + b)"
| "nadd (Fin a) PInf = PInf"
| "nadd (Fin a) NInf = NInf"
| "nadd PInf (Fin b) = PInf"
| "nadd NInf (Fin b) = NInf"
| "nadd PInf PInf = PInf"
| "nadd PInf NInf = NaN"
| "nadd NInf PInf = NaN"
| "nadd NInf NInf = NInf"

text \<open>Comparison: every comparison with \<open>NaN\<close> is false.\<close>

fun nlt :: "num \<Rightarrow> num \<Rightarrow> bool" where
  "nlt NaN y = False"
| "nlt x NaN = False"
| "nlt (Fin a) (Fin b) = (a < b)"
| "nlt (Fin a) PInf = True"
| "nlt (Fin a) NInf = False"
| "nlt PInf y = False"
| "nlt NInf (Fin b) = True"
| "nlt NInf PInf = True"
| "nlt NInf NInf = False"

definition nle :: "num \<Rightarrow> num \<Rightarrow> bool" where
  "nle x y = (x \<noteq> NaN \<and> y \<noteq> NaN \<and> (x = y \<or> nlt x y))"

text \<open>
  \<open>.round(2)\<close> and Python's \<open>round(x, n)\<close>: to \<open>n\<close> decimals, a tie going to the even
  neighbour; the special values are left as they are.
\<close>

definition round_half_even :: "rat \<Rightarrow> int" where
  "round_half_even x =
     (let f = \<lfloor>x\<rfloor>; d = x - of_int f
      in if d < 1 / 2 then f else if 1 / 2 < d then f + 1 else if even f then f else f + 1)"

fun nround :: "nat \<Rightarrow> num \<Rightarrow> num" where
  "nround n (Fin a) = Fin (of_int (round_half_even (a * 10 ^ n)) / 10 ^ n)"
| "nround n x = x"

text \<open>A cell is a number or a text; a missing value is the number \<open>NaN\<close>.\<close>

datatype cell = Num num | Str string

datatype error = KeyError string | TypeError | AttributeError | ValueError | OverflowError

text \<open>A computation that may raise: \<open>Inl\<close> is the exception raised, \<open>Inr\<close> the value.\<close>

definition bindE :: "error + 'a \<Rightarrow> ('a \<Rightarrow> error + 'b) \<Rightarrow> error + 'b" where
  "bindE m f = (case m of Inl e \<Rightarrow> Inl e | Inr x \<Rightarrow> f x)"

fun sequenceE :: "(error + 'a) list \<Rightarrow> error + 'a list" where
  "sequenceE [] = Inr []"
| "sequenceE (m # ms) = bindE m (\<lambda>x. bindE (sequenceE ms) (\<lambda>xs. Inr (x # xs)))"

text \<open>
  Python's \<open><\<close> on two cells: numbers by value, texts lexicographically, a number against a
  text raises \<open>TypeError\<close>. \<open>a > b\<close> is \<open>py_lt b a\<close>, \<open>a >= b\<close> is \<open>py_le b a\<close>.
  \<open>==\<close> never raises, and \<open>NaN == NaN\<close> is false.
\<close>

fun py_lt :: "cell \<Rightarrow> cell \<Rightarrow> error + bool" where
  "py_lt (Num a) (Num b) = Inr (nlt a b)"
| "py_lt (Str a) (Str b) = Inr (a < b)"
| "py_lt (Num a) (Str b) = Inl TypeError"
| "py_lt (Str a) (Num b) = Inl TypeError"

fun py_le :: "cell \<Rightarrow> cell \<Rightarrow> error + bool" where
  "py_le (Num a) (Num b) = Inr (nle a b)"
| "py_le (Str a) (Str b) = Inr (a \<le> b)"
| "py_le (Num a) (Str b) = Inl TypeError"
| "py_le (Str a) (Num b) = Inl TypeError"

definition py_eq :: "cell \<Rightarrow> cell \<Rightarrow> bool" where
  "py_eq a b = (a = b \<and> a \<noteq> Num NaN)"

text \<open>Python's \<open>a and b\<close> on conditions that may raise: \<open>b\<close> is evaluated only when \<open>a\<close> holds.\<close>

definition andE :: "error + bool \<Rightarrow> error + bool \<Rightarrow> error + bool" where
  "andE a b = bindE a (\<lambda>x. if x then b else Inr False)"

section \<open>Rows, columns and tables\<close>

text \<open>
  A row (a pandas Series indexed by column name) maps a column name to its cell; a table is
  the list of its column names and the list of its rows.
\<close>

type_synonym row = "string \<Rightarrow> cell option"

record frame =
  cols :: "string list"
  rws :: "row list"

definition empty_frame :: frame where
  "empty_frame = \<lparr>cols = [], rws = []\<rparr>"

text \<open>\<open>row[c]\<close> inside a row-wise \<open>apply\<close>.\<close>

definition row_get :: "row \<Rightarrow> string \<Rightarrow> error + cell" where
  "row_get r c = (case r c of None \<Rightarrow> Inl (KeyError c) | Some v \<Rightarrow> Inr v)"

definition cell_of :: "row \<Rightarrow> string \<Rightarrow> cell" where
  "cell_of r c = (case r c of None \<Rightarrow> Num NaN | Some v \<Rightarrow> v)"

text \<open>\<open>df[c]\<close>: the column as a list of cells, \<open>KeyError\<close> when the table has no such column.\<close>

definition column :: "frame \<Rightarrow> string \<Rightarrow> error + cell list" where
  "column df c = (if c \<in> set (cols df) then Inr (map (\<lambda>r. cell_of r c) (rws df)) else Inl (KeyError c))"

text \<open>\<open>df[c] = series\<close> and \<open>df[c] = 0\<close>: a new column goes to the end.\<close>

definition set_column :: "frame \<Rightarrow> string \<Rightarrow> cell list \<Rightarrow> frame" where
  "set_column df c vs =
     \<lparr>cols = (if c \<in> set (cols df) then cols df else cols df @ [c]),
      rws = map (\<lambda>(r, v). r(c \<mapsto> v)) (zip (rws df) vs)\<rparr>"

definition set_const :: "frame \<Rightarrow> string \<Rightarrow> cell \<Rightarrow> frame" where
  "set_const df c v = set_column df c (replicate (length (rws df)) v)"

text \<open>\<open>df[mask]\<close>: the rows whose mask entry is true.\<close>

definition boolean_index :: "frame \<Rightarrow> bool list \<Rightarrow> frame" where
  "boolean_index df bs = df\<lparr>rws := map fst (filter snd (zip (rws df) bs))\<rparr>"

text \<open>
  Arithmetic on columns, element by element. Arithmetic on a text cell is reported as
  \<open>TypeError\<close>.
\<close>

definition num_cell :: "cell \<Rightarrow> error + num" where
  "num_cell v = (case v of Num x \<Rightarrow> Inr x | Str s \<Rightarrow> Inl TypeError)"

definition div_s :: "cell list \<Rightarrow> cell list \<Rightarrow> error + cell list" where
  "div_s xs ys =
     sequenceE (map (\<lambda>(x, y). bindE (num_cell x) (\<lambda>a. bindE (num_cell y) (\<lambda>b. Inr (Num (ndiv a b)))))
                    (zip xs ys))"

definition mul_s :: "cell list \<Rightarrow> rat \<Rightarrow> error + cell list" where
  "mul_s xs k = sequenceE (map (\<lambda>x. bindE (num_cell x) (\<lambda>a. Inr (Num (nmul a (Fin k))))) xs)"

definition round_s :: "cell list \<Rightarrow> nat \<Rightarrow> error + cell list" where
  "round_s xs n = sequenceE (map (\<lambda>x. bindE (num_cell x) (\<lambda>a. Inr (Num (nround n a)))) xs)"

text \<open>\<open>.replace(a, b)\<close>, \<open>.replace([a1, a2], b)\<close> and \<open>.fillna(b)\<close> never raise.\<close>

definition replace_s :: "cell list \<Rightarrow> num list \<Rightarrow> num \<Rightarrow> cell list" where
  "replace_s xs olds new =
     map (\<lambda>x. case x of Num a \<Rightarrow> if a \<noteq> NaN \<and> a \<in> set olds then Num new else x | Str s \<Rightarrow> x) xs"

definition fillna_s :: "cell list \<Rightarrow> num \<Rightarrow> cell list" where
  "fillna_s xs new = map (\<lambda>x. if x = Num NaN then Num new else x) xs"

text \<open>\<open>df.apply(f, axis=1)\<close>: \<open>f\<close> on every row, in order; the first exception ends it.\<close>

definition apply_rows :: "(row \<Rightarrow> error + string) \<Rightarrow> frame \<Rightarrow> error + cell list" where
  "apply_rows f df = sequenceE (map (\<lambda>r. bindE (f r) (\<lambda>s. Inr (Str s))) (rws df))"

text \<open>
  Masks: \<open>df[c] == v\<close> and \<open>df[c].isin(vals)\<close>. \<open>isin\<close> counts a missing value as a member
  when the list has one, \<open>==\<close> never does.
\<close>

definition eq_s :: "cell list \<Rightarrow> cell \<Rightarrow> bool list" where
  "eq_s xs v = map (\<lambda>x. py_eq x v) xs"

definition isin_s :: "cell list \<Rightarrow> cell list \<Rightarrow> bool list" where
  "isin_s xs vals = map (\<lambda>x. x \<in> set vals) xs"

text \<open>\<open>df[df[c] == v]\<close> and \<open>df[df[c].isin(vals)]\<close>.\<close>

definition select_eq :: "frame \<Rightarrow> string \<Rightarrow> cell \<Rightarrow> error + frame" where
  "select_eq df c v = bindE (column df c) (\<lambda>s. Inr (boolean_index df (eq_s s v)))"

definition select_isin :: "frame \<Rightarrow> string \<Rightarrow> cell list \<Rightarrow> error + frame" where
  "select_isin df c vals = bindE (column df c) (\<lambda>s. Inr (boolean_index df (isin_s s vals)))"

text \<open>\<open>series.unique()\<close>: the distinct values in the order of their first occurrence.\<close>

definition unique_s :: "cell list \<Rightarrow> cell list" where
  "unique_s xs = rev (remdups (rev xs))"

text \<open>
  \<open>df.dropna(subset=cs)\<close>: the rows with no missing value in the columns \<open>cs\<close>;
  \<open>KeyError\<close> when one of them is not a column.
\<close>

definition dropna :: "frame \<Rightarrow> string list \<Rightarrow> error + frame" where
  "dropna df cs =
     (case filter (\<lambda>c. c \<notin> set (cols df)) cs of
        c # rest \<Rightarrow> Inl (KeyError c)
      | [] \<Rightarrow> Inr (df\<lparr>rws := filter (\<lambda>r. list_all (\<lambda>c. cell_of r c \<noteq> Num NaN) cs) (rws df)\<rparr>))"

text \<open>The dictionary of tables that the functions pass on.\<close>

record tables =
  bulk_data_tbl :: frame
  campaigns_tbl :: frame
  ad_groups_tbl :: frame
  keywords_tbl :: frame
  placements_tbl :: frame
  search_terms_tbl :: frame

text \<open>
  \<open>if col not in df.columns: df[col] = 0\<close>, for each column of the list in turn.
\<close>

definition ensure_columns :: "frame \<Rightarrow> string list \<Rightarrow> frame" where
  "ensure_columns df cs =
     foldl (\<lambda>d c. if c \<in> set (cols d) then d else set_const d c (Num (Fin 0))) df cs"

section \<open>dash\_audit.py\<close>

text \<open>
  \<open>load_and_clean_data\<close> (lines 9--25), on the two sheets as parsed; \<open>reset_index\<close>
  renumbers the rows and changes no cell.
\<close>

definition dash_load_and_clean_data :: "frame \<Rightarrow> frame \<Rightarrow> error + tables" where
  "dash_load_and_clean_data bulk_data0 str_data0 =
     bindE (dropna bulk_data0 [''Entity'']) (\<lambda>bulk_data.
     bindE (dropna str_data0 [''Campaign Name'', ''Customer Search Term'']) (\<lambda>str_data.
     bindE (select_eq bulk_data ''Entity'' (Str ''Campaign'')) (\<lambda>campaigns.
     bindE (select_eq bulk_data ''Entity'' (Str ''Ad group'')) (\<lambda>ad_groups.
     bindE (select_eq bulk_data ''Entity'' (Str ''Keyword'')) (\<lambda>keywords.
     bindE (select_eq bulk_data ''Entity'' (Str ''Placement'')) (\<lambda>placements.
     Inr \<lparr>bulk_data_tbl = bulk_data, campaigns_tbl = campaigns, ad_groups_tbl = ad_groups,
          keywords_tbl = keywords, placements_tbl = placements, search_terms_tbl = str_data\<rparr>))))))"

text \<open>The two row-wise classifiers of \<open>calculate_metrics\<close> (lines 54--59 and 63--67).\<close>

definition keyword_action_spend :: "row \<Rightarrow> error + string" where
  "keyword_action_spend r =
     bindE (row_get r ''Max Bid'') (\<lambda>mb. bindE (row_get r ''Spend'') (\<lambda>sp. bindE (py_lt sp mb) (\<lambda>inc.
       if inc then Inr ''Increase Bid''
       else bindE (row_get r ''Max Bid'') (\<lambda>mb. bindE (row_get r ''Spend'') (\<lambda>sp. bindE (py_lt mb sp) (\<lambda>red.
         if red then Inr ''Reduce Bid''
         else bindE (andE (bindE (row_get r ''Clicks'') (\<lambda>c. py_lt (Num (Fin 4)) c))
                          (bindE (row_get r ''Orders'') (\<lambda>c. Inr (py_eq c (Num (Fin 0))))))
                (\<lambda>p. Inr (if p then ''Pause'' else ''Do Nothing''))))))))"

definition search_term_action_gt2 :: "rat \<Rightarrow> row \<Rightarrow> error + string" where
  "search_term_action_gt2 target_acos r =
     bindE (andE (bindE (row_get r ''ACOS'') (\<lambda>c. py_lt c (Num (Fin target_acos))))
                 (bindE (row_get r ''Orders'') (\<lambda>c. py_lt (Num (Fin 2)) c)))
       (\<lambda>g. if g then Inr ''Graduate''
            else bindE (andE (bindE (row_get r ''Clicks'') (\<lambda>c. py_lt (Num (Fin 3)) c))
                             (bindE (row_get r ''Orders'') (\<lambda>c. Inr (py_eq c (Num (Fin 0))))))
                   (\<lambda>n. Inr (if n then ''Negate'' else ''Do Nothing'')))"

definition dash_required_campaigns :: "string list" where
  "dash_required_campaigns = [''Sales'', ''Clicks'', ''Impressions'', ''Spend'', ''Orders'']"

definition dash_required_keywords :: "string list" where
  "dash_required_keywords =
     [''Sales'', ''Clicks'', ''Spend'', ''Orders'', ''Ad Group Name'', ''Campaign Name'']"

definition dash_required_search_terms :: "string list" where
  "dash_required_search_terms =
     [''Sales'', ''Clicks'', ''Spend'', ''Orders'', ''Ad Group Name'', ''Campaign Name'']"

text \<open>The three blocks of \<open>calculate_metrics\<close>: lines 47--50, 52--59 and 61--67.\<close>

definition dash_campaign_metrics :: "frame \<Rightarrow> error + frame" where
  "dash_campaign_metrics campaigns0 =
     bindE (column campaigns0 ''Clicks'') (\<lambda>cl. bindE (column campaigns0 ''Impressions'') (\<lambda>im.
     bindE (div_s cl im) (\<lambda>ctr.
     let campaigns1 = set_column campaigns0 ''CTR'' (fillna_s ctr (Fin 0)) in
     bindE (column campaigns1 ''Spend'') (\<lambda>sp. bindE (column campaigns1 ''Clicks'') (\<lambda>cl.
     bindE (div_s sp (replace_s cl [Fin 0] (Fin 1))) (\<lambda>cpc.
     let campaigns2 = set_column campaigns1 ''CPC'' cpc in
     bindE (column campaigns2 ''Spend'') (\<lambda>sp. bindE (column campaigns2 ''Sales'') (\<lambda>sa.
     bindE (div_s sp (replace_s sa [Fin 0] (Fin 1))) (\<lambda>acos.
     Inr (set_column campaigns2 ''ACOS'' acos))))))))))"

definition dash_keyword_metrics :: "frame \<Rightarrow> rat \<Rightarrow> error + frame" where
  "dash_keyword_metrics keywords0 target_acos =
     bindE (column keywords0 ''Sales'') (\<lambda>sa. bindE (column keywords0 ''Clicks'') (\<lambda>cl.
     bindE (div_s sa (replace_s cl [Fin 0] (Fin 1))) (\<lambda>rpc. bindE (mul_s rpc target_acos) (\<lambda>mb.
     let keywords1 = set_column keywords0 ''Max Bid'' mb in
     bindE (apply_rows keyword_action_spend keywords1) (\<lambda>act.
     Inr (set_column keywords1 ''Action'' act))))))"

definition dash_search_term_metrics :: "frame \<Rightarrow> rat \<Rightarrow> error + frame" where
  "dash_search_term_metrics search_terms0 target_acos =
     bindE (column search_terms0 ''Spend'') (\<lambda>sp. bindE (column search_terms0 ''Sales'') (\<lambda>sa.
     bindE (div_s sp (replace_s sa [Fin 0] (Fin 1))) (\<lambda>acos.
     let search_terms1 = set_column search_terms0 ''ACOS'' acos in
     bindE (apply_rows (search_term_action_gt2 target_acos) search_terms1) (\<lambda>act.
     Inr (set_column search_terms1 ''Action'' act)))))"

definition dash_calculate_metrics :: "tables \<Rightarrow> rat \<Rightarrow> error + tables" where
  "dash_calculate_metrics data target_acos =
    (let campaigns0 = ensure_columns (campaigns_tbl data) dash_required_campaigns;
         keywords0 = ensure_columns (keywords_tbl data) dash_required_keywords;
         search_terms0 = ensure_columns (search_terms_tbl data) dash_required_search_terms
     in
     bindE (dash_campaign_metrics campaigns0) (\<lambda>campaigns1.
     bindE (dash_keyword_metrics keywords0 target_acos) (\<lambda>keywords1.
     bindE (dash_search_term_metrics search_terms0 target_acos) (\<lambda>search_terms1.
     Inr (data\<lparr>campaigns_tbl := campaigns1, keywords_tbl := keywords1,
                 search_terms_tbl := search_terms1\<rparr>)))))"

text \<open>
  \<open>update_output\<close>, lines 127--132: the tables of one run, from the two parsed sheets and the
  target ACOS entered as a percentage.
\<close>

definition dash_metrics :: "frame \<Rightarrow> frame \<Rightarrow> rat \<Rightarrow> error + tables" where
  "dash_metrics bulk_data str_data target_acos =
     bindE (dash_load_and_clean_data bulk_data str_data) (\<lambda>data.
     dash_calculate_metrics data (target_acos / 100))"

section \<open>More of pandas and Python\<close>

text \<open>
  \<open>series.sum()\<close> and \<open>series.mean()\<close> skip the missing values; the sum of no value is 0, the
  mean of no value is \<open>NaN\<close>.
\<close>

definition sum_s :: "cell list \<Rightarrow> error + num" where
  "sum_s xs =
     bindE (sequenceE (map num_cell xs)) (\<lambda>ns. Inr (foldl nadd (Fin 0) (filter (\<lambda>a. a \<noteq> NaN) ns)))"

definition mean_s :: "cell list \<Rightarrow> error + num" where
  "mean_s xs =
     bindE (sequenceE (map num_cell xs)) (\<lambda>ns.
       let vs = filter (\<lambda>a. a \<noteq> NaN) ns
       in Inr (if vs = [] then NaN else ndiv (foldl nadd (Fin 0) vs) (Fin (of_nat (length vs)))))"

text \<open>\<open>int(x)\<close> truncates towards zero; it raises on \<open>NaN\<close> and on an infinity.\<close>

definition py_int :: "num \<Rightarrow> error + int" where
  "py_int x =
     (case x of Fin a \<Rightarrow> Inr (if 0 \<le> a then \<lfloor>a\<rfloor> else \<lceil>a\<rceil>)
      | NaN \<Rightarrow> Inl ValueError | PInf \<Rightarrow> Inl OverflowError | NInf \<Rightarrow> Inl OverflowError)"

text \<open>
  \<open>series.astype(float)\<close>: a number stays; a text that is not a numeral raises
  \<open>ValueError\<close> (a text that spells a number is not modelled apart).
\<close>

definition astype_float_s :: "cell list \<Rightarrow> error + cell list" where
  "astype_float_s xs =
     sequenceE (map (\<lambda>x. case x of Num a \<Rightarrow> Inr (Num a) | Str s \<Rightarrow> Inl ValueError) xs)"

text \<open>\<open>df[[c1, c2, ...]]\<close>: the listed columns, in the listed order.\<close>

definition project :: "frame \<Rightarrow> string list \<Rightarrow> error + frame" where
  "project df cs =
     (case filter (\<lambda>c. c \<notin> set (cols df)) cs of
        c # rest \<Rightarrow> Inl (KeyError c)
      | [] \<Rightarrow> Inr \<lparr>cols = cs, rws = map (\<lambda>r. r |` set cs) (rws df)\<rparr>)"

text \<open>\<open>df.duplicated(subset=[c], keep=False)\<close>: the mask of the rows whose value occurs twice or more.\<close>

definition duplicated_s :: "cell list \<Rightarrow> bool list" where
  "duplicated_s xs = map (\<lambda>x. 2 \<le> count_list xs x) xs"

text \<open>
  \<open>df.sort_values(by=c, ascending=True)\<close>: the rows in the order of their value in \<open>c\<close>, the
  rows with a missing value last. Texts compare with texts and numbers with numbers; a column
  that holds both raises \<open>TypeError\<close>. The model keeps rows of equal value in their order;
  pandas' default sort does not promise that, and nothing below uses it.
\<close>

fun num_key :: "num \<Rightarrow> nat \<times> rat" where
  "num_key NInf = (0, 0)"
| "num_key (Fin a) = (1, a)"
| "num_key PInf = (2, 0)"
| "num_key NaN = (3, 0)"

fun is_Str :: "cell \<Rightarrow> bool" where
  "is_Str (Str s) = True"
| "is_Str (Num a) = False"

fun str_of :: "cell \<Rightarrow> string" where
  "str_of (Str s) = s"
| "str_of (Num a) = []"

fun num_of :: "cell \<Rightarrow> num" where
  "num_of (Num a) = a"
| "num_of (Str s) = NaN"

definition sort_values :: "frame \<Rightarrow> string \<Rightarrow> error + frame" where
  "sort_values df c =
     bindE (column df c) (\<lambda>s.
       let present = filter (\<lambda>r. cell_of r c \<noteq> Num NaN) (rws df);
           missing = filter (\<lambda>r. cell_of r c = Num NaN) (rws df)
       in if list_all (\<lambda>r. is_Str (cell_of r c)) present
          then Inr (df\<lparr>rws := sort_key (\<lambda>r. str_of (cell_of r c)) present @ missing\<rparr>)
          else if list_all (\<lambda>r. \<not> is_Str (cell_of r c)) present
          then Inr (df\<lparr>rws := sort_key (\<lambda>r. num_key (num_of (cell_of r c))) present @ missing\<rparr>)
          else Inl TypeError)"

text \<open>
  \<open>s.strip()\<close> and \<open>s.lower()\<close> on ASCII text (bytes above 127 are left as they are), and a
  string method called on a cell: a number has none.
\<close>

definition is_space :: "char \<Rightarrow> bool" where
  "is_space c = (let n = (of_char c :: nat) in (9 \<le> n \<and> n \<le> 13) \<or> (28 \<le> n \<and> n \<le> 32))"

definition py_strip :: "string \<Rightarrow> string" where
  "py_strip s = rev (dropWhile is_space (rev (dropWhile is_space s)))"

definition py_lower :: "string \<Rightarrow> string" where
  "py_lower s =
     map (\<lambda>c. let n = (of_char c :: nat) in if 65 \<le> n \<and> n \<le> 90 then char_of (n + 32) else c) s"

definition str_method :: "cell \<Rightarrow> error + string" where
  "str_method v = (case v of Str s \<Rightarrow> Inr s | Num a \<Rightarrow> Inl AttributeError)"

text \<open>
  Three statements that recur: \<open>df[c] = (df[c] * 100).round(2)\<close>, \<open>df[c] = df[c].round(2)\<close>,
  and a statement under \<open>if c in df.columns\<close>.
\<close>

definition percent_column :: "frame \<Rightarrow> string \<Rightarrow> error + frame" where
  "percent_column df c =
     bindE (column df c) (\<lambda>s. bindE (mul_s s 100) (\<lambda>m. bindE (round_s m 2) (\<lambda>r.
     Inr (set_column df c r))))"

definition round_column :: "frame \<Rightarrow> string \<Rightarrow> error + frame" where
  "round_column df c =
     bindE (column df c) (\<lambda>s. bindE (round_s s 2) (\<lambda>r. Inr (set_column df c r)))"

definition if_column :: "string \<Rightarrow> (frame \<Rightarrow> string \<Rightarrow> error + frame) \<Rightarrow> frame \<Rightarrow> error + frame" where
  "if_column c f df = (if c \<in> set (cols df) then f df c else Inr df)"

text \<open>\<open>len(df[df[c] == v])\<close>.\<close>

definition count_eq :: "frame \<Rightarrow> string \<Rightarrow> string \<Rightarrow> error + nat" where
  "count_eq df c v = bindE (select_eq df c (Str v)) (\<lambda>d. Inr (length (rws d)))"

section \<open>amazon\_ads\_audit.py\<close>

text \<open>
  \<open>load_and_clean_data\<close> (lines 5--45) reads the two sheets and then runs the statements of
  dash\_audit.py's; \<open>dash_load_and_clean_data\<close> stands for both.

  The keyword classifier of lines 85--90, also that of amazon\_ads\_audit\_Server.py lines
  149--154: the baseline is the row's cost per click.
\<close>

definition keyword_action_cpc :: "row \<Rightarrow> error + string" where
  "keyword_action_cpc r =
     bindE (row_get r ''Max Bid'') (\<lambda>mb. bindE (row_get r ''CPC'') (\<lambda>cpc. bindE (py_lt cpc mb) (\<lambda>inc.
       if inc then Inr ''Increase Bid''
       else bindE (row_get r ''Max Bid'') (\<lambda>mb. bindE (row_get r ''CPC'') (\<lambda>cpc. bindE (py_lt mb cpc) (\<lambda>red.
         if red then Inr ''Reduce Bid''
         else bindE (andE (bindE (row_get r ''Clicks'') (\<lambda>c. py_lt (Num (Fin 4)) c))
                          (bindE (row_get r ''Orders'') (\<lambda>c. Inr (py_eq c (Num (Fin 0))))))
                (\<lambda>p. Inr (if p then ''Pause'' else ''Do Nothing''))))))))"

text \<open>The placement classifier of lines 77--81.\<close>

definition placement_action :: "rat \<Rightarrow> row \<Rightarrow> error + string" where
  "placement_action target_acos r =
     bindE (andE (bindE (row_get r ''ACOS'') (\<lambda>c. py_lt c (Num (Fin target_acos))))
                 (bindE (row_get r ''Percentage'') (\<lambda>c. py_lt (Num (Fin 0)) c)))
       (\<lambda>inc. if inc then Inr ''Increase Placement Percentage''
            else bindE (andE (bindE (row_get r ''ACOS'') (\<lambda>c. py_lt (Num (Fin target_acos)) c))
                             (bindE (row_get r ''Percentage'') (\<lambda>c. py_lt (Num (Fin 0)) c)))
                   (\<lambda>dec. Inr (if dec then ''Decrease Placement Percentage'' else ''Do Nothing'')))"

definition amazon_placement_metrics :: "frame \<Rightarrow> rat \<Rightarrow> error + frame" where
  "amazon_placement_metrics placements0 target_acos =
     bindE (column placements0 ''Percentage'') (\<lambda>pc.
     bindE (astype_float_s (fillna_s pc (Fin 0))) (\<lambda>pcf.
     let placements1 = set_column placements0 ''Percentage'' pcf in
     bindE (column placements1 ''ACOS'') (\<lambda>ac.
     bindE (astype_float_s (fillna_s ac (Fin 0))) (\<lambda>acf.
     let placements2 = set_column placements1 ''ACOS'' acf in
     bindE (apply_rows (placement_action target_acos) placements2) (\<lambda>act.
     Inr (set_column placements2 ''Action'' act))))))"

definition amazon_keyword_metrics :: "frame \<Rightarrow> rat \<Rightarrow> error + frame" where
  "amazon_keyword_metrics keywords0 target_acos =
     bindE (column keywords0 ''Sales'') (\<lambda>sa.
     bindE (column keywords0 ''Clicks'') (\<lambda>cl.
     bindE (div_s sa (replace_s cl [Fin 0] (Fin 1))) (\<lambda>rpc.
     bindE (mul_s rpc target_acos) (\<lambda>mb.
     let keywords1 = set_column keywords0 ''Max Bid'' mb in
     bindE (apply_rows keyword_action_cpc keywords1) (\<lambda>act.
     Inr (set_column keywords1 ''Action'' act))))))"

text \<open>
  \<open>calculate_metrics\<close> (lines 48--105). Only \<open>Sales\<close> (and \<open>Orders\<close> of the search terms) are
  inserted when absent. The campaign statements (lines 70--72) and the search-term statements
  (lines 93--98) are those of dash\_audit.py.
\<close>

definition amazon_calculate_metrics :: "tables \<Rightarrow> rat \<Rightarrow> error + tables" where
  "amazon_calculate_metrics data target_acos =
   (let campaigns0 = ensure_columns (campaigns_tbl data) [''Sales''] in
    let keywords0 = ensure_columns (keywords_tbl data) [''Sales''] in
    let search_terms0 = ensure_columns (search_terms_tbl data) [''Sales'', ''Orders''] in
    bindE (dash_campaign_metrics campaigns0) (\<lambda>campaigns1.
    bindE (amazon_placement_metrics (placements_tbl data) target_acos) (\<lambda>placements1.
    bindE (amazon_keyword_metrics keywords0 target_acos) (\<lambda>keywords1.
    bindE (dash_search_term_metrics search_terms0 target_acos) (\<lambda>search_terms1.
    Inr (data\<lparr>campaigns_tbl := campaigns1, keywords_tbl := keywords1,
                 search_terms_tbl := search_terms1, placements_tbl := placements1\<rparr>))))))"

text \<open>
  \<open>generate_audit_summary\<close> (lines 108--141). The percentages and amounts are kept as the
  numbers that the summary formats.
\<close>

record audit_summary =
  am_total_campaigns :: nat
  am_total_keywords :: nat
  am_total_search_terms :: nat
  am_acos :: num
  am_total_revenue :: num
  am_total_spend :: num
  am_total_clicks :: int
  am_total_orders :: int
  am_conversion_rate :: num
  am_increase_placement :: nat
  am_decrease_placement :: nat
  am_increase_bid :: nat
  am_reduce_bid :: nat
  am_pause_keyword :: nat
  am_graduate :: nat
  am_negate :: nat

definition generate_audit_summary :: "tables \<Rightarrow> error + audit_summary" where
  "generate_audit_summary metrics =
   (let campaigns = campaigns_tbl metrics in
    let keywords = keywords_tbl metrics in
    let search_terms = search_terms_tbl metrics in
    let placements = placements_tbl metrics in
    bindE (column campaigns ''ACOS'') (\<lambda>ac.
    bindE (mean_s ac) (\<lambda>mean_acos.
    bindE (column campaigns ''Sales'') (\<lambda>sa.
    bindE (sum_s sa) (\<lambda>revenue.
    bindE (column campaigns ''Spend'') (\<lambda>sp.
    bindE (sum_s sp) (\<lambda>spend.
    bindE (column campaigns ''Clicks'') (\<lambda>cl.
    bindE (sum_s cl) (\<lambda>clicks.
    bindE (py_int clicks) (\<lambda>clicks_int.
    bindE (column campaigns ''Orders'') (\<lambda>od.
    bindE (sum_s od) (\<lambda>orders.
    bindE (py_int orders) (\<lambda>orders_int.
    let conversion = (if nlt (Fin 0) clicks then nround 1 (nmul (ndiv orders clicks) (Fin 100)) else Fin 0) in
    bindE (count_eq placements ''Action'' ''Increase Placement Percentage'') (\<lambda>n_inc_pl.
    bindE (count_eq placements ''Action'' ''Decrease Placement Percentage'') (\<lambda>n_dec_pl.
    bindE (count_eq keywords ''Action'' ''Increase Bid'') (\<lambda>n_inc.
    bindE (count_eq keywords ''Action'' ''Reduce Bid'') (\<lambda>n_red.
    bindE (count_eq keywords ''Action'' ''Pause'') (\<lambda>n_pause.
    bindE (count_eq search_terms ''Action'' ''Graduate'') (\<lambda>n_grad.
    bindE (count_eq search_terms ''Action'' ''Negate'') (\<lambda>n_neg.
    Inr \<lparr>am_total_campaigns = length (rws campaigns), am_total_keywords = length (rws keywords),
          am_total_search_terms = length (rws search_terms),
          am_acos = nround 1 (nmul mean_acos (Fin 100)),
          am_total_revenue = nround 2 revenue, am_total_spend = nround 2 spend,
          am_total_clicks = clicks_int, am_total_orders = orders_int,
          am_conversion_rate = conversion,
          am_increase_placement = n_inc_pl, am_decrease_placement = n_dec_pl,
          am_increase_bid = n_inc, am_reduce_bid = n_red, am_pause_keyword = n_pause,
          am_graduate = n_grad, am_negate = n_neg\<rparr>))))))))))))))))))))"

text \<open>
  The script's run (lines 149--154): the target ACOS is entered as a percentage, the sheets are
  loaded, the metrics computed and summarised.
\<close>

definition amazon_audit :: "frame \<Rightarrow> frame \<Rightarrow> rat \<Rightarrow> error + audit_summary" where
  "amazon_audit bulk_file str_file target_percent =
     bindE (dash_load_and_clean_data bulk_file str_file) (\<lambda>data.
     bindE (amazon_calculate_metrics data (target_percent / 100)) (\<lambda>metrics.
     generate_audit_summary metrics))"

section \<open>amazon\_ads\_audit\_Server.py and Back\_up\_Final.py: the metrics\<close>

text \<open>
  The campaign statements of amazon\_ads\_audit\_Server.py lines 140--144, which are also
  Back\_up\_Final.py lines 78--82. Every ratio, the cost per click too, is multiplied by 100
  and rounded to 2 decimals.
\<close>

definition server_campaign_metrics :: "frame \<Rightarrow> error + frame" where
  "server_campaign_metrics campaigns0 =
     bindE (column campaigns0 ''Clicks'') (\<lambda>cl.
     bindE (column campaigns0 ''Impressions'') (\<lambda>im.
     bindE (div_s cl im) (\<lambda>q1.
     bindE (mul_s (fillna_s q1 (Fin 0)) 100) (\<lambda>m1.
     bindE (round_s m1 2) (\<lambda>ctr.
     let campaigns1 = set_column campaigns0 ''CTR'' ctr in
     bindE (column campaigns1 ''Spend'') (\<lambda>sp.
     bindE (column campaigns1 ''Clicks'') (\<lambda>cl.
     bindE (div_s sp (replace_s cl [Fin 0] (Fin 1))) (\<lambda>q2.
     bindE (mul_s q2 100) (\<lambda>m2.
     bindE (round_s m2 2) (\<lambda>cpc.
     let campaigns2 = set_column campaigns1 ''CPC'' cpc in
     bindE (column campaigns2 ''Spend'') (\<lambda>sp.
     bindE (column campaigns2 ''Sales'') (\<lambda>sa.
     bindE (div_s sp (replace_s sa [Fin 0] (Fin 1))) (\<lambda>q3.
     bindE (mul_s q3 100) (\<lambda>m3.
     bindE (round_s m3 2) (\<lambda>acos.
     let campaigns3 = set_column campaigns2 ''ACOS'' acos in
     bindE (column campaigns3 ''Orders'') (\<lambda>od.
     bindE (column campaigns3 ''Clicks'') (\<lambda>cl.
     bindE (div_s od cl) (\<lambda>q4.
     bindE (mul_s (fillna_s q4 (Fin 0)) 100) (\<lambda>m4.
     bindE (round_s m4 2) (\<lambda>cvr.
     let campaigns4 = set_column campaigns3 ''Conversion Rate'' cvr in
     round_column campaigns4 ''Spend''))))))))))))))))))))"

definition server_required_campaigns :: "string list" where
  "server_required_campaigns =
     [''Sales'', ''Clicks'', ''Impressions'', ''Spend'', ''Orders'', ''Daily Budget'', ''Bidding Strategy'']"

definition server_required_keywords :: "string list" where
  "server_required_keywords =
     [''Sales'', ''Clicks'', ''Spend'', ''Orders'', ''Ad Group Name'', ''Campaign Name'']"

definition server_required_search_terms :: "string list" where
  "server_required_search_terms =
     [''Sales'', ''Clicks'', ''Spend'', ''Orders'', ''Ad Group Name'', ''Campaign Name'']"

subsection \<open>Back\_up\_Final.py, \<open>calculate_metrics\<close> (lines 38--114)\<close>

text \<open>The search-term classifier of lines 103--107.\<close>

definition search_term_action_backup :: "rat \<Rightarrow> row \<Rightarrow> error + string" where
  "search_term_action_backup target_acos r =
     bindE (andE (bindE (row_get r ''ACOS'') (\<lambda>c. py_lt c (Num (Fin target_acos))))
                 (bindE (row_get r ''7 Day Total Orders (#)'') (\<lambda>c. py_le (Num (Fin 2)) c)))
       (\<lambda>g. if g then Inr ''Graduate''
            else bindE (andE (bindE (row_get r ''Clicks'') (\<lambda>c. py_lt (Num (Fin 3)) c))
                             (bindE (row_get r ''7 Day Total Orders (#)'') (\<lambda>c. Inr (py_eq c (Num (Fin 0))))))
                   (\<lambda>n. Inr (if n then ''Negate'' else ''Do Nothing'')))"

text \<open>Lines 44--62: the search-term columns that are scaled or rounded when present.\<close>

definition backup_scale_search_terms :: "frame \<Rightarrow> error + frame" where
  "backup_scale_search_terms search_terms0 =
     bindE (if_column ''Click-Thru Rate (CTR)'' percent_column search_terms0) (\<lambda>s1.
     bindE (if_column ''Total Advertising Cost of Sales (ACOS) '' percent_column s1) (\<lambda>s2.
     bindE (if_column ''7 Day Conversion Rate'' percent_column s2) (\<lambda>s3.
     bindE (if_column ''Cost Per Click (CPC)'' round_column s3) (\<lambda>s4.
     bindE (if_column ''Spend'' round_column s4) (\<lambda>s5.
     if_column ''7 Day Total Sales '' round_column s5)))))"

text \<open>Lines 84--98: Max Bid, the label, the three percentages, Max Bid rounded.\<close>

definition backup_keyword_metrics :: "frame \<Rightarrow> rat \<Rightarrow> error + frame" where
  "backup_keyword_metrics keywords0 target_acos =
     bindE (column keywords0 ''Sales'') (\<lambda>sa.
     bindE (column keywords0 ''Clicks'') (\<lambda>cl.
     bindE (div_s sa (replace_s cl [Fin 0] (Fin 1))) (\<lambda>rpc.
     bindE (mul_s rpc target_acos) (\<lambda>mb.
     let keywords1 = set_column keywords0 ''Max Bid'' mb in
     bindE (apply_rows keyword_action_spend keywords1) (\<lambda>act.
     let keywords2 = set_column keywords1 ''Action'' act in
     bindE (percent_column keywords2 ''Click-through Rate'') (\<lambda>keywords3.
     bindE (percent_column keywords3 ''Conversion Rate'') (\<lambda>keywords4.
     bindE (percent_column keywords4 ''ACOS'') (\<lambda>keywords5.
     round_column keywords5 ''Max Bid''))))))))"

text \<open>Lines 101--107: the search-term ACOS is the plain quotient, then the label.\<close>

definition backup_search_term_metrics :: "frame \<Rightarrow> rat \<Rightarrow> error + frame" where
  "backup_search_term_metrics search_terms0 target_acos =
     bindE (column search_terms0 ''Spend'') (\<lambda>sp.
     bindE (column search_terms0 ''7 Day Total Sales '') (\<lambda>sa.
     bindE (div_s sp sa) (\<lambda>acos.
     let search_terms1 = set_column search_terms0 ''ACOS'' acos in
     bindE (apply_rows (search_term_action_backup target_acos) search_terms1) (\<lambda>act.
     Inr (set_column search_terms1 ''Action'' act)))))"

definition backup_calculate_metrics :: "tables \<Rightarrow> rat \<Rightarrow> error + tables" where
  "backup_calculate_metrics data target_acos =
     bindE (backup_scale_search_terms (search_terms_tbl data)) (\<lambda>search_terms1.
     let campaigns0 = ensure_columns (campaigns_tbl data) server_required_campaigns in
     let keywords0 = ensure_columns (keywords_tbl data) server_required_keywords in
     let search_terms2 = ensure_columns search_terms1 server_required_search_terms in
     bindE (server_campaign_metrics campaigns0) (\<lambda>campaigns1.
     bindE (backup_keyword_metrics keywords0 target_acos) (\<lambda>keywords1.
     bindE (backup_search_term_metrics search_terms2 target_acos) (\<lambda>search_terms3.
     Inr (data\<lparr>campaigns_tbl := campaigns1, keywords_tbl := keywords1,
                 search_terms_tbl := search_terms3\<rparr>)))))"

subsection \<open>amazon\_ads\_audit\_Server.py, \<open>calculate_metrics\<close> (lines 85--173)\<close>

text \<open>The search-term classifier of lines 162--166.\<close>

definition search_term_action_server :: "rat \<Rightarrow> row \<Rightarrow> error + string" where
  "search_term_action_server target_acos r =
     bindE (andE (andE (bindE (row_get r ''ACOS'') (\<lambda>c. py_lt c (Num (Fin (target_acos * 100)))))
                       (bindE (row_get r ''Orders'') (\<lambda>c. py_le (Num (Fin 2)) c)))
                 (bindE (row_get r ''Match Type'') (\<lambda>c. bindE (str_method c) (\<lambda>s.
                    Inr (py_lower (py_strip s) \<noteq> ''exact'')))))
       (\<lambda>g. if g then Inr ''Graduate''
            else bindE (andE (bindE (row_get r ''Clicks'') (\<lambda>c. py_lt (Num (Fin 3)) c))
                             (bindE (row_get r ''Orders'') (\<lambda>c. Inr (py_eq c (Num (Fin 0))))))
                   (\<lambda>n. Inr (if n then ''Negate'' else ''Do Nothing'')))"

text \<open>Lines 91--124, in the order of the statements, on the keywords and the search terms.\<close>

definition server_search_term_acos :: "frame \<Rightarrow> error + frame" where
  "server_search_term_acos st =
     (if ''Sales'' \<in> set (cols st) \<and> ''Spend'' \<in> set (cols st)
      then bindE (column st ''Spend'') (\<lambda>sp. bindE (column st ''Sales'') (\<lambda>sa.
           bindE (div_s sp sa) (\<lambda>q. bindE (mul_s (replace_s q [PInf, NInf] (Fin 0)) 100) (\<lambda>m.
           bindE (round_s m 2) (\<lambda>r. Inr (set_column st ''ACOS'' r))))))
      else Inr (set_const st ''ACOS'' (Num (Fin 0))))"

definition server_scale_columns :: "frame \<Rightarrow> frame \<Rightarrow> error + frame \<times> frame" where
  "server_scale_columns keywords0 search_terms0 =
     bindE (if_column ''CTR'' percent_column keywords0) (\<lambda>k1.
     bindE (if_column ''CVR'' percent_column k1) (\<lambda>k2.
     bindE (if_column ''ACOS'' percent_column k2) (\<lambda>k3.
     bindE (if_column ''CTR'' percent_column search_terms0) (\<lambda>s1.
     bindE (server_search_term_acos s1) (\<lambda>s2.
     bindE (if_column ''CVR'' percent_column s2) (\<lambda>s3.
     bindE (if_column ''CPC'' round_column s3) (\<lambda>s4.
     bindE (if_column ''Spend'' round_column s4) (\<lambda>s5.
     bindE (if_column ''Sales'' round_column s5) (\<lambda>s6.
     bindE (if_column ''Max Bid'' round_column k3) (\<lambda>k4.
     Inr (k4, s6)))))))))))"

text \<open>Lines 146--158: revenue per click, Max Bid, the label, then the two roundings.\<close>

definition server_keyword_metrics :: "frame \<Rightarrow> rat \<Rightarrow> error + frame" where
  "server_keyword_metrics keywords0 target_acos =
     bindE (column keywords0 ''Sales'') (\<lambda>sa.
     bindE (column keywords0 ''Clicks'') (\<lambda>cl.
     bindE (div_s sa (replace_s cl [Fin 0] (Fin 1))) (\<lambda>rpc.
     let keywords1 = set_column keywords0 ''RPC'' rpc in
     bindE (column keywords1 ''RPC'') (\<lambda>rp.
     bindE (mul_s rp target_acos) (\<lambda>mb.
     let keywords2 = set_column keywords1 ''Max Bid'' mb in
     bindE (apply_rows keyword_action_cpc keywords2) (\<lambda>act.
     let keywords3 = set_column keywords2 ''Action'' act in
     bindE (round_column keywords3 ''Max Bid'') (\<lambda>keywords4.
     round_column keywords4 ''RPC'')))))))"

definition server_search_term_metrics :: "frame \<Rightarrow> rat \<Rightarrow> error + frame" where
  "server_search_term_metrics search_terms0 target_acos =
     bindE (apply_rows (search_term_action_server target_acos) search_terms0) (\<lambda>act.
     Inr (set_column search_terms0 ''Action'' act))"

definition server_calculate_metrics :: "tables \<Rightarrow> rat \<Rightarrow> error + tables" where
  "server_calculate_metrics data target_acos =
     bindE (server_scale_columns (keywords_tbl data) (search_terms_tbl data)) (\<lambda>ks.
     let campaigns0 = ensure_columns (campaigns_tbl data) server_required_campaigns in
     let keywords0 = ensure_columns (fst ks) server_required_keywords in
     let search_terms0 = ensure_columns (snd ks) server_required_search_terms in
     bindE (server_campaign_metrics campaigns0) (\<lambda>campaigns1.
     bindE (server_keyword_metrics keywords0 target_acos) (\<lambda>keywords1.
     bindE (server_search_term_metrics search_terms0 target_acos) (\<lambda>search_terms1.
     Inr (data\<lparr>campaigns_tbl := campaigns1, keywords_tbl := keywords1,
                 search_terms_tbl := search_terms1\<rparr>)))))"

section \<open>amazon\_ads\_audit\_Server.py: \<open>update_output\<close> (lines 269--462)\<close>

text \<open>
  The callback is modelled from line 284 on, as a function of \<open>metrics\<close> (the tables that
  \<open>calculate_metrics\<close> returned at line 282), of the component that triggered the callback
  (\<open>None\<close> when \<open>ctx.triggered\<close> is empty) and of the three dropdown values (the empty
  list when nothing is selected). The local variables \<open>campaigns\<close>, \<open>keywords\<close> and
  \<open>search_terms\<close> are the three fields of the \<open>tables\<close> value that the blocks pass on.

  Lines 288--303 and 338--354: what the triggering button selects.
\<close>

definition action_filter_of :: "string option \<Rightarrow> string option" where
  "action_filter_of triggered =
     (case triggered of
        None \<Rightarrow> None
      | Some button_id \<Rightarrow>
          if button_id = ''increase-bid-btn'' then Some ''Increase Bid''
          else if button_id = ''reduce-bid-btn'' then Some ''Reduce Bid''
          else if button_id = ''pause-btn'' then Some ''Pause''
          else if button_id = ''do-nothing-btn'' then Some ''Do Nothing''
          else if button_id = ''reset-btn'' then None
          else None)"

definition search_term_filter_of :: "string option \<Rightarrow> string option" where
  "search_term_filter_of triggered =
     (case triggered of
        None \<Rightarrow> None
      | Some button_id \<Rightarrow>
          if button_id = ''graduate-btn'' then Some ''Graduate''
          else if button_id = ''negate-btn'' then Some ''Negate''
          else if button_id = ''do-nothing-search-btn'' then Some ''Do Nothing''
          else None)"

definition find_duplicates_of :: "string option \<Rightarrow> bool" where
  "find_duplicates_of triggered =
     (case triggered of
        None \<Rightarrow> False
      | Some button_id \<Rightarrow>
          if button_id = ''graduate-btn'' then False
          else if button_id = ''negate-btn'' then False
          else if button_id = ''do-nothing-search-btn'' then False
          else if button_id = ''duplicate-btn'' then True
          else False)"

text \<open>
  Two runs of statements recur. The campaigns are cut to those that the current keywords name
  (lines 314--315, 334--335, 364--365, 377--378, 393--394); before that, where the search terms
  lead, the keywords are cut to those that the current search terms name (lines 330--331,
  361--362, 374--375).
\<close>

definition campaigns_of_keywords :: "tables \<Rightarrow> error + tables" where
  "campaigns_of_keywords t =
     bindE (column (keywords_tbl t) ''Campaign_1'') (\<lambda>c1.
     let filtered_campaigns = unique_s c1 in
     bindE (select_isin (campaigns_tbl t) ''Campaign_1'' filtered_campaigns) (\<lambda>campaigns.
     Inr (t\<lparr>campaigns_tbl := campaigns\<rparr>)))"

definition keywords_of_search_terms :: "tables \<Rightarrow> error + tables" where
  "keywords_of_search_terms t =
     bindE (column (search_terms_tbl t) ''Keyword'') (\<lambda>kw.
     let filtered_keywords = unique_s kw in
     bindE (select_isin (keywords_tbl t) ''Keyword'' filtered_keywords) (\<lambda>keywords.
     campaigns_of_keywords (t\<lparr>keywords_tbl := keywords\<rparr>)))"

text \<open>Lines 305--320: the keyword action filter; without one the three tables are those of \<open>metrics\<close>.\<close>

definition filter_keyword_action :: "tables \<Rightarrow> string option \<Rightarrow> error + tables" where
  "filter_keyword_action metrics action_filter =
     (case action_filter of
        None \<Rightarrow> Inr metrics
      | Some a \<Rightarrow>
          bindE (select_eq (keywords_tbl metrics) ''Action'' (Str a)) (\<lambda>keywords.
          bindE (column keywords ''Keyword'') (\<lambda>kw.
          let filtered_keywords = unique_s kw in
          bindE (select_isin (search_terms_tbl metrics) ''Keyword'' filtered_keywords) (\<lambda>search_terms.
          campaigns_of_keywords (metrics\<lparr>keywords_tbl := keywords, search_terms_tbl := search_terms\<rparr>)))))"

text \<open>Lines 326--335: the search terms chosen in the dropdown.\<close>

definition filter_selected_search_terms :: "cell list \<Rightarrow> tables \<Rightarrow> error + tables" where
  "filter_selected_search_terms selected_search_terms t =
     (if selected_search_terms = [] then Inr t
      else bindE (select_isin (search_terms_tbl t) ''CST'' selected_search_terms) (\<lambda>search_terms.
           keywords_of_search_terms (t\<lparr>search_terms_tbl := search_terms\<rparr>)))"

text \<open>Lines 356--365: the search-term action filter.\<close>

definition filter_search_term_action :: "string option \<Rightarrow> tables \<Rightarrow> error + tables" where
  "filter_search_term_action search_term_filter t =
     (case search_term_filter of
        None \<Rightarrow> Inr t
      | Some a \<Rightarrow>
          bindE (select_eq (search_terms_tbl t) ''Action'' (Str a)) (\<lambda>search_terms.
          keywords_of_search_terms (t\<lparr>search_terms_tbl := search_terms\<rparr>)))"

text \<open>Lines 367--378: the duplicated search terms, sorted by their text.\<close>

definition filter_duplicates :: "bool \<Rightarrow> tables \<Rightarrow> error + tables" where
  "filter_duplicates find_duplicates t =
     (if find_duplicates
      then bindE (column (search_terms_tbl t) ''CST'') (\<lambda>cst.
           let duplicate_terms = boolean_index (search_terms_tbl t) (duplicated_s cst) in
           bindE (sort_values duplicate_terms ''CST'') (\<lambda>search_terms.
           keywords_of_search_terms (t\<lparr>search_terms_tbl := search_terms\<rparr>)))
      else Inr t)"

text \<open>Lines 383--386: the campaigns chosen in the dropdown cut each table by its own campaign column.\<close>

definition filter_selected_campaigns :: "cell list \<Rightarrow> tables \<Rightarrow> error + tables" where
  "filter_selected_campaigns selected_campaigns t =
     (if selected_campaigns = [] then Inr t
      else bindE (select_isin (campaigns_tbl t) ''Campaign_1'' selected_campaigns) (\<lambda>campaigns.
           bindE (select_isin (keywords_tbl t) ''Campaign_1'' selected_campaigns) (\<lambda>keywords.
           bindE (select_isin (search_terms_tbl t) ''Campaign'' selected_campaigns) (\<lambda>search_terms.
           Inr (t\<lparr>campaigns_tbl := campaigns, keywords_tbl := keywords,
                  search_terms_tbl := search_terms\<rparr>)))))"

text \<open>Lines 390--394: the keywords chosen in the dropdown.\<close>

definition filter_selected_keywords :: "cell list \<Rightarrow> tables \<Rightarrow> error + tables" where
  "filter_selected_keywords selected_keywords t =
     (if selected_keywords = [] then Inr t
      else bindE (select_isin (keywords_tbl t) ''Keyword'' selected_keywords) (\<lambda>keywords.
           bindE (select_isin (search_terms_tbl t) ''Keyword'' selected_keywords) (\<lambda>search_terms.
           campaigns_of_keywords (t\<lparr>keywords_tbl := keywords, search_terms_tbl := search_terms\<rparr>))))"

text \<open>Lines 408--428: the columns shown.\<close>

definition campaign_columns_to_show :: "string list" where
  "campaign_columns_to_show =
     [''Campaign'', ''Daily Budget'', ''Bidding Strategy'', ''Imp'', ''Clicks'', ''CTR'', ''Spend'',
      ''CPC'', ''Sales'', ''ACOS'', ''Orders'', ''CVR'']"

definition search_term_columns_to_show :: "string list" where
  "search_term_columns_to_show =
     [''Campaign'', ''Ad Group'', ''Keyword'', ''Match Type'', ''CST'', ''Imp'', ''Clicks'', ''CTR'',
      ''CPC'', ''Spend'', ''Sales'', ''ACOS'', ''Orders'', ''CVR'', ''Action'']"

definition keyword_columns_to_show :: "string list" where
  "keyword_columns_to_show =
     [''Campaign_1'', ''Ad Group_1'', ''Bid'', ''Keyword'', ''Match Type'', ''Imp'', ''Clicks'', ''CTR'',
      ''Spend'', ''Sales'', ''Orders'', ''Units'', ''CVR'', ''ACOS'', ''CPC'', ''Max Bid'', ''RPC'',
      ''Action'']"

text \<open>
  Lines 429--444: the summary, over the campaigns shown. The ACOS and the revenue are kept as
  the numbers that the summary formats.
\<close>

record summary =
  total_campaigns :: nat
  total_keywords :: nat
  total_search_terms :: nat
  acos :: num
  total_revenue :: num
  total_clicks :: int

definition audit_summary_of :: "frame \<Rightarrow> frame \<Rightarrow> frame \<Rightarrow> error + summary" where
  "audit_summary_of campaigns keywords search_terms =
     bindE (column campaigns ''Spend'') (\<lambda>sp.
     bindE (sum_s sp) (\<lambda>total_spend.
     bindE (column campaigns ''Sales'') (\<lambda>sa.
     bindE (sum_s sa) (\<lambda>total_sales.
     let average_acos = (if nlt (Fin 0) total_sales then nmul (ndiv total_spend total_sales) (Fin 100) else Fin 0) in
     bindE (column campaigns ''Sales'') (\<lambda>sa2.
     bindE (sum_s sa2) (\<lambda>revenue.
     bindE (column campaigns ''Clicks'') (\<lambda>cl.
     bindE (sum_s cl) (\<lambda>clicks.
     bindE (py_int clicks) (\<lambda>clicks_int.
     Inr \<lparr>total_campaigns = length (rws campaigns), total_keywords = length (rws keywords),
          total_search_terms = length (rws search_terms),
          acos = nround 2 average_acos, total_revenue = nround 2 revenue,
          total_clicks = clicks_int\<rparr>)))))))))"

text \<open>
  What the callback returns; the column lists of the three tables are their \<open>cols\<close>.
  \<open>hierarchy_filter\<close> is lines 288--394: the three tables after every selection, and the
  three option lists read on the way. \<open>update_output\<close> then cuts the tables to the columns
  shown and adds the summary (lines 408--462).
\<close>

record callback_output =
  audit_summary :: summary
  campaign_options :: "cell list"
  campaign_table :: frame
  keyword_options :: "cell list"
  keyword_table :: frame
  search_term_options :: "cell list"
  search_term_table :: frame

definition hierarchy_filter ::
  "tables \<Rightarrow> string option \<Rightarrow> cell list \<Rightarrow> cell list \<Rightarrow> cell list \<Rightarrow>
     error + tables \<times> cell list \<times> cell list \<times> cell list" where
  "hierarchy_filter metrics triggered selected_campaigns selected_keywords selected_search_terms =
     bindE (filter_keyword_action metrics (action_filter_of triggered)) (\<lambda>t1.
     bindE (column (search_terms_tbl t1) ''CST'') (\<lambda>cst.
     let st_options = unique_s cst in
     bindE (filter_selected_search_terms selected_search_terms t1) (\<lambda>t2.
     bindE (filter_search_term_action (search_term_filter_of triggered) t2) (\<lambda>t3.
     bindE (filter_duplicates (find_duplicates_of triggered) t3) (\<lambda>t4.
     bindE (column (campaigns_tbl t4) ''Campaign_1'') (\<lambda>c1.
     let c_options = unique_s c1 in
     bindE (filter_selected_campaigns selected_campaigns t4) (\<lambda>t5.
     bindE (column (keywords_tbl t5) ''Keyword'') (\<lambda>kw.
     let k_options = unique_s kw in
     bindE (filter_selected_keywords selected_keywords t5) (\<lambda>t6.
     Inr (t6, c_options, k_options, st_options))))))))))"

definition update_output ::
  "tables \<Rightarrow> string option \<Rightarrow> cell list \<Rightarrow> cell list \<Rightarrow> cell list \<Rightarrow> error + callback_output" where
  "update_output metrics triggered selected_campaigns selected_keywords selected_search_terms =
     bindE (hierarchy_filter metrics triggered selected_campaigns selected_keywords selected_search_terms) (\<lambda>res.
     let t6 = fst res in
     bindE (project (campaigns_tbl t6) campaign_columns_to_show) (\<lambda>campaigns.
     bindE (project (search_terms_tbl t6) search_term_columns_to_show) (\<lambda>search_terms.
     bindE (project (keywords_tbl t6) keyword_columns_to_show) (\<lambda>keywords.
     bindE (audit_summary_of campaigns keywords search_terms) (\<lambda>sm.
     Inr \<lparr>audit_summary = sm, campaign_options = fst (snd res), campaign_table = campaigns,
          keyword_options = fst (snd (snd res)), keyword_table = keywords,
          search_term_options = snd (snd (snd res)), search_term_table = search_terms\<rparr>)))))"

section \<open>Example sheets\<close>

text \<open>
  A bulk sheet with one campaign and one keyword of it, the keyword with 5 clicks, no order
  and no sales; the two sheets differ in the keyword's spend only.
\<close>

definition bulk_row :: "string \<Rightarrow> string \<Rightarrow> rat \<Rightarrow> rat \<Rightarrow> rat \<Rightarrow> rat \<Rightarrow> rat \<Rightarrow> row" where
  "bulk_row entity campaign impressions clicks spend sales orders =
     [''Entity'' \<mapsto> Str entity, ''Campaign Name'' \<mapsto> Str campaign,
      ''Impressions'' \<mapsto> Num (Fin impressions), ''Clicks'' \<mapsto> Num (Fin clicks),
      ''Spend'' \<mapsto> Num (Fin spend), ''Sales'' \<mapsto> Num (Fin sales), ''Orders'' \<mapsto> Num (Fin orders)]"

definition bulk_cols :: "string list" where
  "bulk_cols = [''Entity'', ''Campaign Name'', ''Impressions'', ''Clicks'', ''Spend'', ''Sales'', ''Orders'']"

definition str_cols :: "string list" where
  "str_cols =
     [''Campaign Name'', ''Customer Search Term'', ''Match Type'', ''Clicks'', ''Spend'', ''Sales'',
      ''Orders'']"

definition str_row :: "string \<Rightarrow> string \<Rightarrow> string \<Rightarrow> rat \<Rightarrow> rat \<Rightarrow> rat \<Rightarrow> rat \<Rightarrow> row" where
  "str_row campaign term match_type clicks spend sales orders =
     [''Campaign Name'' \<mapsto> Str campaign, ''Customer Search Term'' \<mapsto> Str term,
      ''Match Type'' \<mapsto> Str match_type, ''Clicks'' \<mapsto> Num (Fin clicks),
      ''Spend'' \<mapsto> Num (Fin spend), ''Sales'' \<mapsto> Num (Fin sales), ''Orders'' \<mapsto> Num (Fin orders)]"

definition bulk_spend_10 :: frame where
  "bulk_spend_10 =
     \<lparr>cols = bulk_cols,
      rws = [bulk_row ''Campaign'' ''A'' 100 5 10 0 0, bulk_row ''Keyword'' ''A'' 100 5 10 0 0]\<rparr>"

definition bulk_spend_0 :: frame where
  "bulk_spend_0 =
     \<lparr>cols = bulk_cols,
      rws = [bulk_row ''Campaign'' ''A'' 100 5 0 0 0, bulk_row ''Keyword'' ''A'' 100 5 0 0 0]\<rparr>"

text \<open>The same sheet with the keyword's spend left blank.\<close>

definition bulk_spend_blank :: frame where
  "bulk_spend_blank =
     \<lparr>cols = bulk_cols,
      rws = [bulk_row ''Campaign'' ''A'' 100 5 10 0 0,
             (bulk_row ''Keyword'' ''A'' 100 5 10 0 0)(''Spend'' \<mapsto> Num NaN)]\<rparr>"

text \<open>
  A search-term sheet with one broad-match term: 1 click, a spend of 10, sales of 100
  (an ACOS of 10%) and 2 orders.
\<close>

definition str_one :: frame where
  "str_one = \<lparr>cols = str_cols, rws = [str_row ''A'' ''shoes'' ''broad'' 1 10 100 2]\<rparr>"

definition sv_campaign :: "string \<Rightarrow> rat \<Rightarrow> rat \<Rightarrow> rat \<Rightarrow> rat \<Rightarrow> row" where
  "sv_campaign name clicks spend sales orders =
     [''Entity'' \<mapsto> Str ''Campaign'',
      ''Campaign'' \<mapsto> Str name,
      ''Campaign_1'' \<mapsto> Str name,
      ''Daily Budget'' \<mapsto> Num (Fin 20),
      ''Bidding Strategy'' \<mapsto> Str ''Fixed bid'',
      ''Imp'' \<mapsto> Num (Fin 1000),
      ''Clicks'' \<mapsto> Num (Fin clicks),
      ''CTR'' \<mapsto> Num (Fin (clicks / 1000)),
      ''Spend'' \<mapsto> Num (Fin spend),
      ''Sales'' \<mapsto> Num (Fin sales),
      ''Orders'' \<mapsto> Num (Fin orders),
      ''CVR'' \<mapsto> Num (Fin (orders / 100)),
      ''CPC'' \<mapsto> Num (Fin 2),
      ''ACOS'' \<mapsto> Num (Fin (1 / 4))]"

definition sv_campaign_cols :: "string list" where
  "sv_campaign_cols =
     [''Entity'', ''Campaign'', ''Campaign_1'', ''Daily Budget'', ''Bidding Strategy'', ''Imp'', ''Clicks'', ''CTR'', ''Spend'', ''Sales'', ''Orders'', ''CVR'', ''CPC'', ''ACOS'']"

definition sv_keyword :: "string \<Rightarrow> string \<Rightarrow> rat \<Rightarrow> rat \<Rightarrow> rat \<Rightarrow> rat \<Rightarrow> row" where
  "sv_keyword campaign keyword clicks spend sales orders =
     [''Entity'' \<mapsto> Str ''Keyword'',
      ''Campaign_1'' \<mapsto> Str campaign,
      ''Ad Group_1'' \<mapsto> Str ''G'',
      ''Bid'' \<mapsto> Num (Fin 1),
      ''Keyword'' \<mapsto> Str keyword,
      ''Match Type'' \<mapsto> Str ''broad'',
      ''Imp'' \<mapsto> Num (Fin 1000),
      ''Clicks'' \<mapsto> Num (Fin clicks),
      ''CTR'' \<mapsto> Num (Fin (clicks / 1000)),
      ''Spend'' \<mapsto> Num (Fin spend),
      ''Sales'' \<mapsto> Num (Fin sales),
      ''Orders'' \<mapsto> Num (Fin orders),
      ''Units'' \<mapsto> Num (Fin orders),
      ''CVR'' \<mapsto> Num (Fin (orders / 100)),
      ''ACOS'' \<mapsto> Num (Fin (1 / 4)),
      ''CPC'' \<mapsto> Num (Fin 2)]"

definition sv_keyword_cols :: "string list" where
  "sv_keyword_cols =
     [''Entity'', ''Campaign_1'', ''Ad Group_1'', ''Bid'', ''Keyword'', ''Match Type'', ''Imp'', ''Clicks'', ''CTR'', ''Spend'', ''Sales'', ''Orders'', ''Units'', ''CVR'', ''ACOS'', ''CPC'']"

definition sv_search_term :: "string \<Rightarrow> string \<Rightarrow> string \<Rightarrow> rat \<Rightarrow> rat \<Rightarrow> rat \<Rightarrow> rat \<Rightarrow> row" where
  "sv_search_term campaign keyword term clicks spend sales orders =
     [''Campaign'' \<mapsto> Str campaign,
      ''Ad Group'' \<mapsto> Str ''G'',
      ''Keyword'' \<mapsto> Str keyword,
      ''Match Type'' \<mapsto> Str ''broad'',
      ''CST'' \<mapsto> Str term,
      ''Imp'' \<mapsto> Num (Fin 100),
      ''Clicks'' \<mapsto> Num (Fin clicks),
      ''CTR'' \<mapsto> Num (Fin (clicks / 100)),
      ''CPC'' \<mapsto> Num (Fin 1),
      ''Spend'' \<mapsto> Num (Fin spend),
      ''Sales'' \<mapsto> Num (Fin sales),
      ''Orders'' \<mapsto> Num (Fin orders),
      ''Units'' \<mapsto> Num (Fin orders),
      ''CVR'' \<mapsto> Num (Fin (orders / 100))]"

definition sv_search_term_cols :: "string list" where
  "sv_search_term_cols =
     [''Campaign'', ''Ad Group'', ''Keyword'', ''Match Type'', ''CST'', ''Imp'', ''Clicks'', ''CTR'', ''CPC'', ''Spend'', ''Sales'', ''Orders'', ''Units'', ''CVR'']"

text \<open>
  Tables as \<open>load_and_clean_data\<close> of amazon\_ads\_audit\_Server.py hands them on, under its
  column names: two campaigns, three keywords (\<open>shoes\<close> in both campaigns, \<open>hat\<close> in B), five
  search terms of which two texts occur twice.
\<close>

definition sv_data :: tables where
  "sv_data =
     \<lparr>bulk_data_tbl = empty_frame,
      campaigns_tbl = \<lparr>cols = sv_campaign_cols,
        rws = [sv_campaign ''A'' 20 50 200 4, sv_campaign ''B'' 10 10 90 3]\<rparr>,
      ad_groups_tbl = empty_frame,
      keywords_tbl = \<lparr>cols = sv_keyword_cols,
        rws = [sv_keyword ''A'' ''shoes'' 5 10 0 0, sv_keyword ''B'' ''shoes'' 5 10 100 3,
               sv_keyword ''B'' ''hat'' 5 10 0 0]\<rparr>,
      placements_tbl = empty_frame,
      search_terms_tbl = \<lparr>cols = sv_search_term_cols,
        rws = [sv_search_term ''B'' ''shoes'' ''red shoes'' 4 5 50 3,
               sv_search_term ''B'' ''hat'' ''blue hat'' 5 5 0 0,
               sv_search_term ''A'' ''shoes'' ''red shoes'' 1 0 0 0,
               sv_search_term ''B'' ''hat'' ''blue hat'' 2 1 0 0,
               sv_search_term ''A'' ''shoes'' ''green sock'' 1 1 0 0]\<rparr>\<rparr>"

definition bk_campaign :: "string \<Rightarrow> rat \<Rightarrow> rat \<Rightarrow> rat \<Rightarrow> rat \<Rightarrow> row" where
  "bk_campaign name clicks spend sales orders =
     [''Entity'' \<mapsto> Str ''Campaign'',
      ''Campaign Name'' \<mapsto> Str name,
      ''Campaign Name (Informational only)'' \<mapsto> Str name,
      ''Impressions'' \<mapsto> Num (Fin 1000),
      ''Clicks'' \<mapsto> Num (Fin clicks),
      ''Spend'' \<mapsto> Num (Fin spend),
      ''Sales'' \<mapsto> Num (Fin sales),
      ''Orders'' \<mapsto> Num (Fin orders)]"

definition bk_campaign_cols :: "string list" where
  "bk_campaign_cols =
     [''Entity'', ''Campaign Name'', ''Campaign Name (Informational only)'', ''Impressions'', ''Clicks'', ''Spend'', ''Sales'', ''Orders'']"

definition bk_keyword :: "string \<Rightarrow> string \<Rightarrow> rat \<Rightarrow> rat \<Rightarrow> rat \<Rightarrow> rat \<Rightarrow> row" where
  "bk_keyword campaign keyword clicks spend sales orders =
     [''Entity'' \<mapsto> Str ''Keyword'',
      ''Campaign Name (Informational only)'' \<mapsto> Str campaign,
      ''Keyword Text'' \<mapsto> Str keyword,
      ''Impressions'' \<mapsto> Num (Fin 1000),
      ''Clicks'' \<mapsto> Num (Fin clicks),
      ''Click-through Rate'' \<mapsto> Num (Fin (clicks / 1000)),
      ''Spend'' \<mapsto> Num (Fin spend),
      ''Sales'' \<mapsto> Num (Fin sales),
      ''Orders'' \<mapsto> Num (Fin orders),
      ''Conversion Rate'' \<mapsto> Num (Fin (orders / 100)),
      ''ACOS'' \<mapsto> Num (Fin (1 / 4)),
      ''CPC'' \<mapsto> Num (Fin 2)]"

definition bk_keyword_cols :: "string list" where
  "bk_keyword_cols =
     [''Entity'', ''Campaign Name (Informational only)'', ''Keyword Text'', ''Impressions'', ''Clicks'', ''Click-through Rate'', ''Spend'', ''Sales'', ''Orders'', ''Conversion Rate'', ''ACOS'', ''CPC'']"

definition bk_search_term :: "string \<Rightarrow> string \<Rightarrow> string \<Rightarrow> rat \<Rightarrow> rat \<Rightarrow> rat \<Rightarrow> rat \<Rightarrow> row" where
  "bk_search_term campaign keyword term clicks spend sales orders =
     [''Campaign Name'' \<mapsto> Str campaign,
      ''Targeting'' \<mapsto> Str keyword,
      ''Match Type'' \<mapsto> Str ''broad'',
      ''Customer Search Term'' \<mapsto> Str term,
      ''Impressions'' \<mapsto> Num (Fin 100),
      ''Clicks'' \<mapsto> Num (Fin clicks),
      ''Spend'' \<mapsto> Num (Fin spend),
      ''7 Day Total Sales '' \<mapsto> Num (Fin sales),
      ''7 Day Total Orders (#)'' \<mapsto> Num (Fin orders)]"

definition bk_search_term_cols :: "string list" where
  "bk_search_term_cols =
     [''Campaign Name'', ''Targeting'', ''Match Type'', ''Customer Search Term'', ''Impressions'', ''Clicks'', ''Spend'', ''7 Day Total Sales '', ''7 Day Total Orders (#)'']"

text \<open>
  Tables as \<open>load_and_clean_data\<close> of Back\_up\_Final.py hands them on: one campaign, one
  keyword, and one search term with 3 clicks, a spend of 5 and no sale.
\<close>

definition bk_data :: tables where
  "bk_data =
     \<lparr>bulk_data_tbl = empty_frame,
      campaigns_tbl = \<lparr>cols = bk_campaign_cols, rws = [bk_campaign ''A'' 20 50 200 4]\<rparr>,
      ad_groups_tbl = empty_frame,
      keywords_tbl = \<lparr>cols = bk_keyword_cols, rws = [bk_keyword ''A'' ''shoes'' 5 10 100 3]\<rparr>,
      placements_tbl = empty_frame,
      search_terms_tbl = \<lparr>cols = bk_search_term_cols,
        rws = [bk_search_term ''A'' ''shoes'' ''red shoes'' 3 5 0 0]\<rparr>\<rparr>"

definition am_bulk :: "string \<Rightarrow> string \<Rightarrow> rat \<Rightarrow> rat \<Rightarrow> rat \<Rightarrow> rat \<Rightarrow> row" where
  "am_bulk entity campaign clicks spend sales orders =
     [''Entity'' \<mapsto> Str entity,
      ''Campaign Name'' \<mapsto> Str campaign,
      ''Impressions'' \<mapsto> Num (Fin 1000),
      ''Clicks'' \<mapsto> Num (Fin clicks),
      ''Spend'' \<mapsto> Num (Fin spend),
      ''Sales'' \<mapsto> Num (Fin sales),
      ''Orders'' \<mapsto> Num (Fin orders),
      ''CPC'' \<mapsto> Num (Fin 2),
      ''ACOS'' \<mapsto> Num (Fin (1 / 4)),
      ''Percentage'' \<mapsto> Num (Fin 10)]"

definition am_bulk_cols :: "string list" where
  "am_bulk_cols =
     [''Entity'', ''Campaign Name'', ''Impressions'', ''Clicks'', ''Spend'', ''Sales'', ''Orders'', ''CPC'', ''ACOS'', ''Percentage'']"

text \<open>
  A bulk sheet for amazon\_ads\_audit.py: two campaigns (spend 10 on sales 10, spend 10 on sales
  90), a keyword and a placement; and the same sheet without its \<open>Percentage\<close> column.
\<close>

definition am_rows :: "row list" where
  "am_rows =
     [am_bulk ''Campaign'' ''A'' 5 10 10 1, am_bulk ''Campaign'' ''B'' 5 10 90 3,
      am_bulk ''Keyword'' ''A'' 5 10 0 0, am_bulk ''Placement'' ''A'' 5 10 100 2]"

definition am_sheet :: frame where
  "am_sheet = \<lparr>cols = am_bulk_cols, rws = am_rows\<rparr>"

definition am_sheet_no_percentage :: frame where
  "am_sheet_no_percentage =
     \<lparr>cols = filter (\<lambda>c. c \<noteq> ''Percentage'') am_bulk_cols,
      rws = map (\<lambda>r. r(''Percentage'' := None)) am_rows\<rparr>"

text \<open>
  A keyword row as the classifier reads it: Max Bid 0 with 5 clicks and no order, a spend of 2
  and a cost per click of 0.40.
\<close>

definition kw_row_reduce :: row where
  "kw_row_reduce =
     [''Max Bid'' \<mapsto> Num (Fin 0), ''Spend'' \<mapsto> Num (Fin 2), ''CPC'' \<mapsto> Num (Fin (2 / 5)),
      ''Clicks'' \<mapsto> Num (Fin 5), ''Orders'' \<mapsto> Num (Fin 0)]"

text \<open>
  Two search-term rows as the classifiers read them: 3 orders, broad match, and an ACOS of 10%
  (stored as the percentage 10 in amazon\_ads\_audit\_Server.py, as the ratio 0.1 in
  dash\_audit.py).
\<close>

definition st_row_server :: row where
  "st_row_server =
     [''ACOS'' \<mapsto> Num (Fin 10), ''Orders'' \<mapsto> Num (Fin 3), ''Match Type'' \<mapsto> Str ''broad'',
      ''Clicks'' \<mapsto> Num (Fin 8)]"

definition st_row_dash :: row where
  "st_row_dash =
     [''ACOS'' \<mapsto> Num (Fin (1 / 10)), ''Orders'' \<mapsto> Num (Fin 3), ''Match Type'' \<mapsto> Str ''broad'',
      ''Clicks'' \<mapsto> Num (Fin 8)]"

section \<open>Notions used in the proofs\<close>

text \<open>The values of a column, as a set.\<close>

definition values_of :: "frame \<Rightarrow> string \<Rightarrow> cell set" where
  "values_of df c = (\<lambda>r. cell_of r c) ` set (rws df)"

text \<open>
  The two facts that the blocks keep. \<open>campaigns_kept\<close>: every campaign row of the list
  \<open>C0\<close> that a current keyword names is a current campaign. \<open>keywords_kept\<close>: every
  current search term whose targeting value is that of a keyword row of the list \<open>K0\<close> has a
  current keyword of that value.
\<close>

definition campaigns_kept :: "row list \<Rightarrow> tables \<Rightarrow> bool" where
  "campaigns_kept C0 t =
     (\<forall>k\<in>set (rws (keywords_tbl t)). \<forall>c\<in>set C0.
        cell_of c ''Campaign_1'' = cell_of k ''Campaign_1'' \<longrightarrow> c \<in> set (rws (campaigns_tbl t)))"

definition keywords_kept :: "row list \<Rightarrow> tables \<Rightarrow> bool" where
  "keywords_kept K0 t =
     (\<forall>s\<in>set (rws (search_terms_tbl t)). \<forall>k0\<in>set K0.
        cell_of k0 ''Keyword'' = cell_of s ''Keyword'' \<longrightarrow>
        (\<exists>k\<in>set (rws (keywords_tbl t)). cell_of k ''Keyword'' = cell_of s ''Keyword''))"

text \<open>A cell that a sum can count and \<open>int\<close> can convert: a finite number, or missing.\<close>

fun finite_cell :: "cell \<Rightarrow> bool" where
  "finite_cell (Num (Fin a)) = True"
| "finite_cell (Num NaN) = True"
| "finite_cell (Num PInf) = False"
| "finite_cell (Num NInf) = False"
| "finite_cell (Str s) = False"

section \<open>Reasoning about tables\<close>

lemma bindE_Inr [simp]: "bindE (Inr x) f = f x" by (simp add: bindE_def)
lemma bindE_Inl [simp]: "bindE (Inl e) f = Inl e" by (simp add: bindE_def)

lemma bindE_eq_Inr: "bindE m f = Inr y \<longleftrightarrow> (\<exists>x. m = Inr x \<and> f x = Inr y)"
  by (cases m) auto

lemma sequenceE_Inr: "sequenceE ms = Inr xs \<longleftrightarrow> ms = map Inr xs"
proof (induction ms arbitrary: xs)
  case Nil
  show ?case by auto
next
  case (Cons m ms)
  show ?case
  proof (cases m)
    case (Inl e)
    then show ?thesis by (cases xs) auto
  next
    case (Inr x)
    show ?thesis
    proof (cases "sequenceE ms")
      case (Inl e)
      with Cons[of "tl xs"] Inr show ?thesis by (cases xs) auto
    next
      case r: (Inr ys)
      with Cons[of ys] Inr show ?thesis by (cases xs) auto
    qed
  qed
qed

lemma column_Inr:
  "column df c = Inr xs \<longleftrightarrow> c \<in> set (cols df) \<and> xs = map (\<lambda>r. cell_of r c) (rws df)"
  by (auto simp: column_def)

lemma num_cell_Inr: "num_cell v = Inr a \<longleftrightarrow> v = Num a"
  by (cases v) (auto simp: num_cell_def)

lemma div_s_Inr:
  assumes "div_s xs ys = Inr zs"
  shows "length zs = min (length xs) (length ys)"
    and "i < length zs \<Longrightarrow> \<exists>a b. xs ! i = Num a \<and> ys ! i = Num b \<and> zs ! i = Num (ndiv a b)"
proof -
  let ?f = "\<lambda>(x, y). bindE (num_cell x) (\<lambda>a. bindE (num_cell y) (\<lambda>b. Inr (Num (ndiv a b))))"
  from assms have eq: "map ?f (zip xs ys) = map Inr zs"
    by (simp add: div_s_def sequenceE_Inr)
  from arg_cong[OF eq, of length] show len: "length zs = min (length xs) (length ys)"
    by simp
  assume i: "i < length zs"
  with len have "?f (zip xs ys ! i) = Inr (zs ! i)"
    using arg_cong[OF eq, of "\<lambda>l. l ! i"] by simp
  with i len show "\<exists>a b. xs ! i = Num a \<and> ys ! i = Num b \<and> zs ! i = Num (ndiv a b)"
    by (auto simp: bindE_eq_Inr num_cell_Inr)
qed

lemma mul_s_Inr:
  assumes "mul_s xs k = Inr zs"
  shows "length zs = length xs"
    and "i < length zs \<Longrightarrow> \<exists>a. xs ! i = Num a \<and> zs ! i = Num (nmul a (Fin k))"
proof -
  let ?f = "\<lambda>x. bindE (num_cell x) (\<lambda>a. Inr (Num (nmul a (Fin k))))"
  from assms have eq: "map ?f xs = map Inr zs"
    by (simp add: mul_s_def sequenceE_Inr)
  from arg_cong[OF eq, of length] show len: "length zs = length xs"
    by simp
  assume i: "i < length zs"
  with len have "?f (xs ! i) = Inr (zs ! i)"
    using arg_cong[OF eq, of "\<lambda>l. l ! i"] by simp
  then show "\<exists>a. xs ! i = Num a \<and> zs ! i = Num (nmul a (Fin k))"
    by (auto simp: bindE_eq_Inr num_cell_Inr)
qed

lemma round_s_Inr:
  assumes "round_s xs n = Inr zs"
  shows "length zs = length xs"
    and "i < length zs \<Longrightarrow> \<exists>a. xs ! i = Num a \<and> zs ! i = Num (nround n a)"
proof -
  let ?f = "\<lambda>x. bindE (num_cell x) (\<lambda>a. Inr (Num (nround n a)))"
  from assms have eq: "map ?f xs = map Inr zs"
    by (simp add: round_s_def sequenceE_Inr)
  from arg_cong[OF eq, of length] show len: "length zs = length xs"
    by simp
  assume i: "i < length zs"
  with len have "?f (xs ! i) = Inr (zs ! i)"
    using arg_cong[OF eq, of "\<lambda>l. l ! i"] by simp
  then show "\<exists>a. xs ! i = Num a \<and> zs ! i = Num (nround n a)"
    by (auto simp: bindE_eq_Inr num_cell_Inr)
qed

lemma apply_rows_Inr:
  assumes "apply_rows f df = Inr act"
  shows "length act = length (rws df)"
    and "i < length act \<Longrightarrow> \<exists>s. f (rws df ! i) = Inr s \<and> act ! i = Str s"
proof -
  let ?f = "\<lambda>r. bindE (f r) (\<lambda>s. Inr (Str s))"
  from assms have eq: "map ?f (rws df) = map Inr act"
    by (simp add: apply_rows_def sequenceE_Inr)
  from arg_cong[OF eq, of length] show len: "length act = length (rws df)"
    by simp
  assume i: "i < length act"
  with len have "?f (rws df ! i) = Inr (act ! i)"
    using arg_cong[OF eq, of "\<lambda>l. l ! i"] by simp
  then show "\<exists>s. f (rws df ! i) = Inr s \<and> act ! i = Str s"
    by (auto simp: bindE_eq_Inr)
qed

lemma length_replace_s [simp]: "length (replace_s xs olds new) = length xs"
  by (simp add: replace_s_def)

lemma length_fillna_s [simp]: "length (fillna_s xs new) = length xs"
  by (simp add: fillna_s_def)

lemma cols_set_column: "set (cols (set_column df c vs)) = insert c (set (cols df))"
  by (auto simp: set_column_def)

lemma length_set_column: "length (rws (set_column df c vs)) = min (length (rws df)) (length vs)"
  by (simp add: set_column_def)

lemma nth_set_column:
  "i < length (rws df) \<Longrightarrow> i < length vs \<Longrightarrow> rws (set_column df c vs) ! i = (rws df ! i)(c \<mapsto> vs ! i)"
  by (simp add: set_column_def)

lemma length_set_const [simp]: "length (rws (set_const df c v)) = length (rws df)"
  by (simp add: set_const_def length_set_column)

lemma nth_set_const:
  "i < length (rws df) \<Longrightarrow> rws (set_const df c v) ! i = (rws df ! i)(c \<mapsto> v)"
  by (simp add: set_const_def nth_set_column)

lemma cols_set_const: "set (cols (set_const df c v)) = insert c (set (cols df))"
  by (simp add: set_const_def cols_set_column)

lemma length_ensure_columns [simp]: "length (rws (ensure_columns df cs)) = length (rws df)"
  unfolding ensure_columns_def by (induction cs arbitrary: df) auto

lemma cols_ensure_columns: "set (cols (ensure_columns df cs)) = set (cols df) \<union> set cs"
  unfolding ensure_columns_def by (induction cs arbitrary: df) (auto simp: cols_set_const)

lemma nth_ensure_columns:
  "c \<in> set (cols df) \<Longrightarrow> i < length (rws df) \<Longrightarrow> (rws (ensure_columns df cs) ! i) c = (rws df ! i) c"
  unfolding ensure_columns_def
proof (induction cs arbitrary: df)
  case Nil
  then show ?case by simp
next
  case (Cons a cs)
  show ?case
  proof (cases "a \<in> set (cols df)")
    case True
    with Cons show ?thesis by simp
  next
    case False
    with Cons.prems have ne: "a \<noteq> c" by auto
    have "(rws (foldl (\<lambda>d c. if c \<in> set (cols d) then d else set_const d c (Num (Fin 0))) (set_const df a (Num (Fin 0))) cs) ! i) c
        = (rws (set_const df a (Num (Fin 0))) ! i) c"
      using Cons.prems by (intro Cons.IH) (auto simp: cols_set_const)
    with False ne Cons.prems show ?thesis by (simp add: nth_set_const)
  qed
qed

section \<open>dash\_audit.py: what the keyword block computes\<close>

lemma nth_replace_s:
  "i < length xs \<Longrightarrow> xs ! i = Num a \<Longrightarrow> replace_s xs olds new ! i = Num (if a \<noteq> NaN \<and> a \<in> set olds then new else a)"
  by (simp add: replace_s_def)

lemma cell_of_Some: "r c = Some v \<Longrightarrow> cell_of r c = v"
  by (simp add: cell_of_def)

lemma dash_keyword_metrics_row:
  assumes ok: "dash_keyword_metrics k t = Inr k'" and i: "i < length (rws k)"
  shows "\<exists>a b s. cell_of (rws k ! i) ''Sales'' = Num a \<and> cell_of (rws k ! i) ''Clicks'' = Num b \<and>
           keyword_action_spend ((rws k ! i)(''Max Bid'' \<mapsto> Num (nmul (ndiv a (if b = Fin 0 then Fin 1 else b)) (Fin t)))) = Inr s \<and>
           rws k' ! i = (rws k ! i)(''Max Bid'' \<mapsto> Num (nmul (ndiv a (if b = Fin 0 then Fin 1 else b)) (Fin t)),
                                    ''Action'' \<mapsto> Str s)"
proof -
  from ok obtain sa cl rpc mb act where
    sa: "column k ''Sales'' = Inr sa" and cl: "column k ''Clicks'' = Inr cl"
    and rpc: "div_s sa (replace_s cl [Fin 0] (Fin 1)) = Inr rpc"
    and mb: "mul_s rpc t = Inr mb"
    and act: "apply_rows keyword_action_spend (set_column k ''Max Bid'' mb) = Inr act"
    and k': "k' = set_column (set_column k ''Max Bid'' mb) ''Action'' act"
    unfolding dash_keyword_metrics_def Let_def bindE_eq_Inr by blast
  from sa cl have lsa: "length sa = length (rws k)" and lcl: "length cl = length (rws k)"
    and sai: "sa ! i = cell_of (rws k ! i) ''Sales''" and cli: "cl ! i = cell_of (rws k ! i) ''Clicks''"
    using i by (auto simp: column_Inr)
  from div_s_Inr(1)[OF rpc] lsa lcl have lrpc: "length rpc = length (rws k)" by simp
  from mul_s_Inr(1)[OF mb] lrpc have lmb: "length mb = length (rws k)" by simp
  from apply_rows_Inr(1)[OF act] lmb have lact: "length act = length (rws k)"
    by (simp add: length_set_column)
  from div_s_Inr(2)[OF rpc, of i] i lrpc obtain a b' where
    a: "sa ! i = Num a" and b': "replace_s cl [Fin 0] (Fin 1) ! i = Num b'" and r: "rpc ! i = Num (ndiv a b')"
    by auto
  from b' i lcl obtain b where b: "cl ! i = Num b"
    by (cases "cl ! i") (auto simp: replace_s_def)
  with b' i lcl have b'_eq: "b' = (if b = Fin 0 then Fin 1 else b)"
    by (auto simp: nth_replace_s)
  from mul_s_Inr(2)[OF mb, of i] i lmb r have mbi: "mb ! i = Num (nmul (ndiv a b') (Fin t))"
    by auto
  have r1: "rws (set_column k ''Max Bid'' mb) ! i = (rws k ! i)(''Max Bid'' \<mapsto> mb ! i)"
    using i lmb by (simp add: nth_set_column)
  from apply_rows_Inr(2)[OF act, of i] i lact obtain s where
    s: "keyword_action_spend (rws (set_column k ''Max Bid'' mb) ! i) = Inr s" and acti: "act ! i = Str s"
    by auto
  have "rws k' ! i = (rws (set_column k ''Max Bid'' mb) ! i)(''Action'' \<mapsto> act ! i)"
    unfolding k' using i lmb lact by (simp add: nth_set_column length_set_column)
  with r1 s acti mbi b'_eq a b sai cli show ?thesis
    by auto
qed

lemma dash_calculate_metrics_keywords:
  assumes "dash_calculate_metrics data t = Inr m"
  shows "dash_keyword_metrics (ensure_columns (keywords_tbl data) dash_required_keywords) t = Inr (keywords_tbl m)"
  using assms unfolding dash_calculate_metrics_def Let_def bindE_eq_Inr by auto

lemma keyword_action_spend_eval:
  assumes "r ''Max Bid'' = Some (Num mb)" and "r ''Spend'' = Some (Num sp)"
    and "r ''Clicks'' = Some (Num cl)" and "r ''Orders'' = Some od"
  shows "keyword_action_spend r =
     Inr (if nlt sp mb then ''Increase Bid'' else if nlt mb sp then ''Reduce Bid''
          else if nlt (Fin 4) cl \<and> py_eq od (Num (Fin 0)) then ''Pause'' else ''Do Nothing'')"
  using assms by (simp add: keyword_action_spend_def row_get_def andE_def)

lemma bindE_weak_cong: "m = m' \<Longrightarrow> bindE m f = bindE m' f"
  by simp

lemma bulk_row_simps:
  "bulk_row e c i cl sp sa od ''Entity'' = Some (Str e)"
  "bulk_row e c i cl sp sa od ''Campaign Name'' = Some (Str c)"
  "bulk_row e c i cl sp sa od ''Impressions'' = Some (Num (Fin i))"
  "bulk_row e c i cl sp sa od ''Clicks'' = Some (Num (Fin cl))"
  "bulk_row e c i cl sp sa od ''Spend'' = Some (Num (Fin sp))"
  "bulk_row e c i cl sp sa od ''Sales'' = Some (Num (Fin sa))"
  "bulk_row e c i cl sp sa od ''Orders'' = Some (Num (Fin od))"
  by (simp_all add: bulk_row_def)

lemma str_row_simps:
  "str_row c t mt cl sp sa od ''Campaign Name'' = Some (Str c)"
  "str_row c t mt cl sp sa od ''Customer Search Term'' = Some (Str t)"
  "str_row c t mt cl sp sa od ''Match Type'' = Some (Str mt)"
  "str_row c t mt cl sp sa od ''Clicks'' = Some (Num (Fin cl))"
  "str_row c t mt cl sp sa od ''Spend'' = Some (Num (Fin sp))"
  "str_row c t mt cl sp sa od ''Sales'' = Some (Num (Fin sa))"
  "str_row c t mt cl sp sa od ''Orders'' = Some (Num (Fin od))"
  by (simp_all add: str_row_def)

lemma sv_campaign_simps:
  "sv_campaign name clicks spend sales orders ''Entity'' = Some (Str ''Campaign'')"
  "sv_campaign name clicks spend sales orders ''Campaign'' = Some (Str name)"
  "sv_campaign name clicks spend sales orders ''Campaign_1'' = Some (Str name)"
  "sv_campaign name clicks spend sales orders ''Daily Budget'' = Some (Num (Fin 20))"
  "sv_campaign name clicks spend sales orders ''Bidding Strategy'' = Some (Str ''Fixed bid'')"
  "sv_campaign name clicks spend sales orders ''Imp'' = Some (Num (Fin 1000))"
  "sv_campaign name clicks spend sales orders ''Clicks'' = Some (Num (Fin clicks))"
  "sv_campaign name clicks spend sales orders ''CTR'' = Some (Num (Fin (clicks / 1000)))"
  "sv_campaign name clicks spend sales orders ''Spend'' = Some (Num (Fin spend))"
  "sv_campaign name clicks spend sales orders ''Sales'' = Some (Num (Fin sales))"
  "sv_campaign name clicks spend sales orders ''Orders'' = Some (Num (Fin orders))"
  "sv_campaign name clicks spend sales orders ''CVR'' = Some (Num (Fin (orders / 100)))"
  "sv_campaign name clicks spend sales orders ''CPC'' = Some (Num (Fin 2))"
  "sv_campaign name clicks spend sales orders ''ACOS'' = Some (Num (Fin (1 / 4)))"
  by (simp_all add: sv_campaign_def)

lemma sv_keyword_simps:
  "sv_keyword campaign keyword clicks spend sales orders ''Entity'' = Some (Str ''Keyword'')"
  "sv_keyword campaign keyword clicks spend sales orders ''Campaign_1'' = Some (Str campaign)"
  "sv_keyword campaign keyword clicks spend sales orders ''Ad Group_1'' = Some (Str ''G'')"
  "sv_keyword campaign keyword clicks spend sales orders ''Bid'' = Some (Num (Fin 1))"
  "sv_keyword campaign keyword clicks spend sales orders ''Keyword'' = Some (Str keyword)"
  "sv_keyword campaign keyword clicks spend sales orders ''Match Type'' = Some (Str ''broad'')"
  "sv_keyword campaign keyword clicks spend sales orders ''Imp'' = Some (Num (Fin 1000))"
  "sv_keyword campaign keyword clicks spend sales orders ''Clicks'' = Some (Num (Fin clicks))"
  "sv_keyword campaign keyword clicks spend sales orders ''CTR'' = Some (Num (Fin (clicks / 1000)))"
  "sv_keyword campaign keyword clicks spend sales orders ''Spend'' = Some (Num (Fin spend))"
  "sv_keyword campaign keyword clicks spend sales orders ''Sales'' = Some (Num (Fin sales))"
  "sv_keyword campaign keyword clicks spend sales orders ''Orders'' = Some (Num (Fin orders))"
  "sv_keyword campaign keyword clicks spend sales orders ''Units'' = Some (Num (Fin orders))"
  "sv_keyword campaign keyword clicks spend sales orders ''CVR'' = Some (Num (Fin (orders / 100)))"
  "sv_keyword campaign keyword clicks spend sales orders ''ACOS'' = Some (Num (Fin (1 / 4)))"
  "sv_keyword campaign keyword clicks spend sales orders ''CPC'' = Some (Num (Fin 2))"
  by (simp_all add: sv_keyword_def)

lemma sv_search_term_simps:
  "sv_search_term campaign keyword term clicks spend sales orders ''Campaign'' = Some (Str campaign)"
  "sv_search_term campaign keyword term clicks spend sales orders ''Ad Group'' = Some (Str ''G'')"
  "sv_search_term campaign keyword term clicks spend sales orders ''Keyword'' = Some (Str keyword)"
  "sv_search_term campaign keyword term clicks spend sales orders ''Match Type'' = Some (Str ''broad'')"
  "sv_search_term campaign keyword term clicks spend sales orders ''CST'' = Some (Str term)"
  "sv_search_term campaign keyword term clicks spend sales orders ''Imp'' = Some (Num (Fin 100))"
  "sv_search_term campaign keyword term clicks spend sales orders ''Clicks'' = Some (Num (Fin clicks))"
  "sv_search_term campaign keyword term clicks spend sales orders ''CTR'' = Some (Num (Fin (clicks / 100)))"
  "sv_search_term campaign keyword term clicks spend sales orders ''CPC'' = Some (Num (Fin 1))"
  "sv_search_term campaign keyword term clicks spend sales orders ''Spend'' = Some (Num (Fin spend))"
  "sv_search_term campaign keyword term clicks spend sales orders ''Sales'' = Some (Num (Fin sales))"
  "sv_search_term campaign keyword term clicks spend sales orders ''Orders'' = Some (Num (Fin orders))"
  "sv_search_term campaign keyword term clicks spend sales orders ''Units'' = Some (Num (Fin orders))"
  "sv_search_term campaign keyword term clicks spend sales orders ''CVR'' = Some (Num (Fin (orders / 100)))"
  by (simp_all add: sv_search_term_def)

lemma bk_campaign_simps:
  "bk_campaign name clicks spend sales orders ''Entity'' = Some (Str ''Campaign'')"
  "bk_campaign name clicks spend sales orders ''Campaign Name'' = Some (Str name)"
  "bk_campaign name clicks spend sales orders ''Campaign Name (Informational only)'' = Some (Str name)"
  "bk_campaign name clicks spend sales orders ''Impressions'' = Some (Num (Fin 1000))"
  "bk_campaign name clicks spend sales orders ''Clicks'' = Some (Num (Fin clicks))"
  "bk_campaign name clicks spend sales orders ''Spend'' = Some (Num (Fin spend))"
  "bk_campaign name clicks spend sales orders ''Sales'' = Some (Num (Fin sales))"
  "bk_campaign name clicks spend sales orders ''Orders'' = Some (Num (Fin orders))"
  by (simp_all add: bk_campaign_def)

lemma bk_keyword_simps:
  "bk_keyword campaign keyword clicks spend sales orders ''Entity'' = Some (Str ''Keyword'')"
  "bk_keyword campaign keyword clicks spend sales orders ''Campaign Name (Informational only)'' = Some (Str campaign)"
  "bk_keyword campaign keyword clicks spend sales orders ''Keyword Text'' = Some (Str keyword)"
  "bk_keyword campaign keyword clicks spend sales orders ''Impressions'' = Some (Num (Fin 1000))"
  "bk_keyword campaign keyword clicks spend sales orders ''Clicks'' = Some (Num (Fin clicks))"
  "bk_keyword campaign keyword clicks spend sales orders ''Click-through Rate'' = Some (Num (Fin (clicks / 1000)))"
  "bk_keyword campaign keyword clicks spend sales orders ''Spend'' = Some (Num (Fin spend))"
  "bk_keyword campaign keyword clicks spend sales orders ''Sales'' = Some (Num (Fin sales))"
  "bk_keyword campaign keyword clicks spend sales orders ''Orders'' = Some (Num (Fin orders))"
  "bk_keyword campaign keyword clicks spend sales orders ''Conversion Rate'' = Some (Num (Fin (orders / 100)))"
  "bk_keyword campaign keyword clicks spend sales orders ''ACOS'' = Some (Num (Fin (1 / 4)))"
  "bk_keyword campaign keyword clicks spend sales orders ''CPC'' = Some (Num (Fin 2))"
  by (simp_all add: bk_keyword_def)

lemma bk_search_term_simps:
  "bk_search_term campaign keyword term clicks spend sales orders ''Campaign Name'' = Some (Str campaign)"
  "bk_search_term campaign keyword term clicks spend sales orders ''Targeting'' = Some (Str keyword)"
  "bk_search_term campaign keyword term clicks spend sales orders ''Match Type'' = Some (Str ''broad'')"
  "bk_search_term campaign keyword term clicks spend sales orders ''Customer Search Term'' = Some (Str term)"
  "bk_search_term campaign keyword term clicks spend sales orders ''Impressions'' = Some (Num (Fin 100))"
  "bk_search_term campaign keyword term clicks spend sales orders ''Clicks'' = Some (Num (Fin clicks))"
  "bk_search_term campaign keyword term clicks spend sales orders ''Spend'' = Some (Num (Fin spend))"
  "bk_search_term campaign keyword term clicks spend sales orders ''7 Day Total Sales '' = Some (Num (Fin sales))"
  "bk_search_term campaign keyword term clicks spend sales orders ''7 Day Total Orders (#)'' = Some (Num (Fin orders))"
  by (simp_all add: bk_search_term_def)

lemma am_bulk_simps:
  "am_bulk entity campaign clicks spend sales orders ''Entity'' = Some (Str entity)"
  "am_bulk entity campaign clicks spend sales orders ''Campaign Name'' = Some (Str campaign)"
  "am_bulk entity campaign clicks spend sales orders ''Impressions'' = Some (Num (Fin 1000))"
  "am_bulk entity campaign clicks spend sales orders ''Clicks'' = Some (Num (Fin clicks))"
  "am_bulk entity campaign clicks spend sales orders ''Spend'' = Some (Num (Fin spend))"
  "am_bulk entity campaign clicks spend sales orders ''Sales'' = Some (Num (Fin sales))"
  "am_bulk entity campaign clicks spend sales orders ''Orders'' = Some (Num (Fin orders))"
  "am_bulk entity campaign clicks spend sales orders ''CPC'' = Some (Num (Fin 2))"
  "am_bulk entity campaign clicks spend sales orders ''ACOS'' = Some (Num (Fin (1 / 4)))"
  "am_bulk entity campaign clicks spend sales orders ''Percentage'' = Some (Num (Fin 10))"
  by (simp_all add: am_bulk_def)

lemmas frame_eval =
  column_def cell_of_def set_column_def set_const_def boolean_index_def ensure_columns_def
  div_s_def mul_s_def round_s_def replace_s_def fillna_s_def num_cell_def apply_rows_def
  eq_s_def isin_s_def py_eq_def select_eq_def select_isin_def dropna_def row_get_def andE_def

lemmas dash_eval =
  dash_load_and_clean_data_def dash_calculate_metrics_def
  dash_required_campaigns_def dash_required_keywords_def dash_required_search_terms_def
  dash_campaign_metrics_def dash_keyword_metrics_def dash_search_term_metrics_def
  keyword_action_spend_def search_term_action_gt2_def

text \<open>The definitions that a run on the example tables unfolds.\<close>

lemmas more_eval =
  sum_s_def mean_s_def py_int_def astype_float_s_def project_def duplicated_s_def sort_values_def
  str_method_def percent_column_def round_column_def if_column_def count_eq_def unique_s_def
  py_strip_def py_lower_def is_space_def round_half_even_def nle_def

lemmas server_eval =
  server_calculate_metrics_def server_scale_columns_def server_search_term_acos_def
  server_campaign_metrics_def server_keyword_metrics_def server_search_term_metrics_def
  server_required_campaigns_def server_required_keywords_def server_required_search_terms_def
  keyword_action_cpc_def search_term_action_server_def

lemmas backup_eval =
  backup_calculate_metrics_def backup_scale_search_terms_def backup_keyword_metrics_def
  backup_search_term_metrics_def server_campaign_metrics_def
  server_required_campaigns_def server_required_keywords_def server_required_search_terms_def
  keyword_action_spend_def search_term_action_backup_def

lemmas amazon_eval =
  amazon_audit_def dash_load_and_clean_data_def amazon_calculate_metrics_def
  amazon_placement_metrics_def amazon_keyword_metrics_def dash_campaign_metrics_def
  dash_search_term_metrics_def generate_audit_summary_def
  keyword_action_cpc_def placement_action_def search_term_action_gt2_def

lemmas sv_ex = sv_data_def sv_campaign_cols_def sv_keyword_cols_def
      sv_search_term_cols_def sv_campaign_simps sv_keyword_simps sv_search_term_simps empty_frame_def

lemmas bk_ex = bk_data_def bk_campaign_cols_def bk_keyword_cols_def
      bk_search_term_cols_def bk_campaign_simps bk_keyword_simps bk_search_term_simps empty_frame_def

lemmas am_ex = am_sheet_def am_sheet_no_percentage_def am_rows_def am_bulk_cols_def am_bulk_simps
      str_one_def str_cols_def str_row_simps

lemma floor_numeral_div:
  "\<lfloor>numeral a / numeral b :: rat\<rfloor> = numeral a div numeral b"
  using floor_divide_of_int_eq[of "numeral a" "numeral b", where 'a = rat] by simp

section \<open>The classifiers, row by row\<close>

lemma nlt_irrefl_trichotomy:
  "a \<noteq> NaN \<Longrightarrow> b \<noteq> NaN \<Longrightarrow> \<not> nlt a b \<Longrightarrow> \<not> nlt b a \<Longrightarrow> a = b"
  by (cases a; cases b) auto

lemma nlt_asym: "nlt a b \<Longrightarrow> \<not> nlt b a"
  by (cases a; cases b) auto

lemma keyword_action_cpc_eval:
  assumes "r ''Max Bid'' = Some (Num mb)" and "r ''CPC'' = Some (Num b)"
  shows "keyword_action_cpc r =
     (if nlt b mb then Inr ''Increase Bid'' else if nlt mb b then Inr ''Reduce Bid''
      else bindE (andE (bindE (row_get r ''Clicks'') (\<lambda>c. py_lt (Num (Fin 4)) c))
                       (bindE (row_get r ''Orders'') (\<lambda>c. Inr (py_eq c (Num (Fin 0))))))
             (\<lambda>p. Inr (if p then ''Pause'' else ''Do Nothing'')))"
  using assms by (simp add: keyword_action_cpc_def row_get_def)

lemma keyword_action_spend_eval':
  assumes "r ''Max Bid'' = Some (Num mb)" and "r ''Spend'' = Some (Num b)"
  shows "keyword_action_spend r =
     (if nlt b mb then Inr ''Increase Bid'' else if nlt mb b then Inr ''Reduce Bid''
      else bindE (andE (bindE (row_get r ''Clicks'') (\<lambda>c. py_lt (Num (Fin 4)) c))
                       (bindE (row_get r ''Orders'') (\<lambda>c. Inr (py_eq c (Num (Fin 0))))))
             (\<lambda>p. Inr (if p then ''Pause'' else ''Do Nothing'')))"
  using assms by (simp add: keyword_action_spend_def row_get_def)

lemma not_graduate_else:
  "bindE x (\<lambda>n. Inr (if n then ''Negate'' else ''Do Nothing'')) \<noteq> Inr ''Graduate''"
  by (cases x) auto

lemma lower_strip_broad: "py_lower (py_strip ''broad'') = ''broad''"
  by (simp add: py_lower_def py_strip_def is_space_def)

section \<open>The filter blocks of \<open>update_output\<close>\<close>

lemma filter_zip_map: "map fst (filter snd (zip xs (map P xs))) = filter P xs"
  by (induction xs) auto

lemma select_isin_Inr:
  "select_isin df c vals = Inr df' \<longleftrightarrow>
     c \<in> set (cols df) \<and> df' = df\<lparr>rws := filter (\<lambda>r. cell_of r c \<in> set vals) (rws df)\<rparr>"
proof -
  have "map (\<lambda>x. x \<in> set vals) (map (\<lambda>r. cell_of r c) (rws df)) = map (\<lambda>r. cell_of r c \<in> set vals) (rws df)"
    by simp
  then show ?thesis
    unfolding select_isin_def column_def boolean_index_def isin_s_def
    by (auto simp: filter_zip_map o_def)
qed

lemma select_eq_Inr:
  "select_eq df c v = Inr df' \<longleftrightarrow>
     c \<in> set (cols df) \<and> df' = df\<lparr>rws := filter (\<lambda>r. py_eq (cell_of r c) v) (rws df)\<rparr>"
proof -
  have "map (\<lambda>x. py_eq x v) (map (\<lambda>r. cell_of r c) (rws df)) = map (\<lambda>r. py_eq (cell_of r c) v) (rws df)"
    by simp
  then show ?thesis
    unfolding select_eq_def column_def boolean_index_def eq_s_def
    by (auto simp: filter_zip_map o_def)
qed

lemma set_unique_s [simp]: "set (unique_s xs) = set xs"
  by (simp add: unique_s_def)

lemma column_values: "column df c = Inr xs \<Longrightarrow> set xs = values_of df c"
  by (auto simp: column_Inr values_of_def)

lemma campaigns_of_keywords_Inr:
  "campaigns_of_keywords t = Inr t' \<longleftrightarrow>
     ''Campaign_1'' \<in> set (cols (keywords_tbl t)) \<and> ''Campaign_1'' \<in> set (cols (campaigns_tbl t)) \<and>
     t' = t\<lparr>campaigns_tbl := (campaigns_tbl t)\<lparr>rws :=
            filter (\<lambda>r. cell_of r ''Campaign_1'' \<in> values_of (keywords_tbl t) ''Campaign_1'')
              (rws (campaigns_tbl t))\<rparr>\<rparr>"
  unfolding campaigns_of_keywords_def Let_def
  by (auto simp: bindE_eq_Inr select_isin_Inr column_Inr values_of_def)

lemma keywords_of_search_terms_Inr:
  "keywords_of_search_terms t = Inr t' \<longleftrightarrow>
     ''Keyword'' \<in> set (cols (search_terms_tbl t)) \<and> ''Keyword'' \<in> set (cols (keywords_tbl t)) \<and>
     ''Campaign_1'' \<in> set (cols (keywords_tbl t)) \<and> ''Campaign_1'' \<in> set (cols (campaigns_tbl t)) \<and>
     (\<exists>k. k = (keywords_tbl t)\<lparr>rws :=
            filter (\<lambda>r. cell_of r ''Keyword'' \<in> values_of (search_terms_tbl t) ''Keyword'')
              (rws (keywords_tbl t))\<rparr> \<and>
        t' = t\<lparr>keywords_tbl := k, campaigns_tbl := (campaigns_tbl t)\<lparr>rws :=
            filter (\<lambda>r. cell_of r ''Campaign_1'' \<in> values_of k ''Campaign_1'')
              (rws (campaigns_tbl t))\<rparr>\<rparr>)"
  unfolding keywords_of_search_terms_def Let_def
  by (auto simp: bindE_eq_Inr select_isin_Inr column_Inr campaigns_of_keywords_Inr values_of_def)

lemma campaigns_kept_cut:
  assumes "campaigns_kept C0 t"
    and "set (rws (keywords_tbl t')) \<subseteq> set (rws (keywords_tbl t))"
    and "set (rws (campaigns_tbl t')) =
           {c \<in> set (rws (campaigns_tbl t)). cell_of c ''Campaign_1'' \<in> values_of (keywords_tbl t') ''Campaign_1''}"
  shows "campaigns_kept C0 t'"
  using assms unfolding campaigns_kept_def values_of_def by fastforce

lemma campaigns_kept_select:
  assumes "campaigns_kept C0 t"
    and "set (rws (keywords_tbl t')) \<subseteq> {k \<in> set (rws (keywords_tbl t)). cell_of k ''Campaign_1'' \<in> V}"
    and "set (rws (campaigns_tbl t')) = {c \<in> set (rws (campaigns_tbl t)). cell_of c ''Campaign_1'' \<in> V}"
  shows "campaigns_kept C0 t'"
  using assms unfolding campaigns_kept_def by fastforce

lemma keywords_kept_cut:
  assumes "keywords_kept K0 t"
    and "set (rws (search_terms_tbl t')) \<subseteq> set (rws (search_terms_tbl t))"
    and "set (rws (keywords_tbl t')) =
           {k \<in> set (rws (keywords_tbl t)). cell_of k ''Keyword'' \<in> values_of (search_terms_tbl t') ''Keyword''}"
  shows "keywords_kept K0 t'"
  unfolding keywords_kept_def
proof (intro ballI impI)
  fix s k0
  assume s: "s \<in> set (rws (search_terms_tbl t'))" and k0: "k0 \<in> set K0"
    and eq: "cell_of k0 ''Keyword'' = cell_of s ''Keyword''"
  from s assms(2) have "s \<in> set (rws (search_terms_tbl t))" by auto
  with assms(1) k0 eq obtain k where k: "k \<in> set (rws (keywords_tbl t))"
    and keq: "cell_of k ''Keyword'' = cell_of s ''Keyword''"
    unfolding keywords_kept_def by blast
  from s keq have "cell_of k ''Keyword'' \<in> values_of (search_terms_tbl t') ''Keyword''"
    unfolding values_of_def by force
  with k assms(3) have "k \<in> set (rws (keywords_tbl t'))" by simp
  with keq show "\<exists>k\<in>set (rws (keywords_tbl t')). cell_of k ''Keyword'' = cell_of s ''Keyword''"
    by blast
qed

lemma keywords_kept_select:
  assumes "keywords_kept K0 t"
    and "set (rws (search_terms_tbl t')) = {s \<in> set (rws (search_terms_tbl t)). cell_of s ''Keyword'' \<in> V}"
    and "set (rws (keywords_tbl t')) = {k \<in> set (rws (keywords_tbl t)). cell_of k ''Keyword'' \<in> V}"
  shows "keywords_kept K0 t'"
  unfolding keywords_kept_def
proof (intro ballI impI)
  fix s k0
  assume s: "s \<in> set (rws (search_terms_tbl t'))" and k0: "k0 \<in> set K0"
    and eq: "cell_of k0 ''Keyword'' = cell_of s ''Keyword''"
  from s assms(2) have s': "s \<in> set (rws (search_terms_tbl t))" and v: "cell_of s ''Keyword'' \<in> V"
    by auto
  with assms(1) k0 eq obtain k where k: "k \<in> set (rws (keywords_tbl t))"
    and keq: "cell_of k ''Keyword'' = cell_of s ''Keyword''"
    unfolding keywords_kept_def by blast
  with v assms(3) have "k \<in> set (rws (keywords_tbl t'))" by simp
  with keq show "\<exists>k\<in>set (rws (keywords_tbl t')). cell_of k ''Keyword'' = cell_of s ''Keyword''"
    by blast
qed

lemma keywords_kept_by_keywords:
  assumes "set (rws (search_terms_tbl t')) \<subseteq>
             {s. cell_of s ''Keyword'' \<in> values_of (keywords_tbl t') ''Keyword''}"
  shows "keywords_kept K0 t'"
  using assms unfolding keywords_kept_def values_of_def by fastforce

text \<open>What each block leaves of the three tables.\<close>

lemma campaigns_of_keywords_rows:
  assumes "campaigns_of_keywords t = Inr t'"
  shows "keywords_tbl t' = keywords_tbl t" and "search_terms_tbl t' = search_terms_tbl t"
    and "set (rws (campaigns_tbl t')) =
           {c \<in> set (rws (campaigns_tbl t)). cell_of c ''Campaign_1'' \<in> values_of (keywords_tbl t') ''Campaign_1''}"
    and "cols (campaigns_tbl t') = cols (campaigns_tbl t)"
  using assms by (auto simp: campaigns_of_keywords_Inr)

lemma keywords_of_search_terms_rows:
  assumes "keywords_of_search_terms t = Inr t'"
  shows "search_terms_tbl t' = search_terms_tbl t"
    and "set (rws (keywords_tbl t')) =
           {k \<in> set (rws (keywords_tbl t)). cell_of k ''Keyword'' \<in> values_of (search_terms_tbl t') ''Keyword''}"
    and "set (rws (campaigns_tbl t')) =
           {c \<in> set (rws (campaigns_tbl t)). cell_of c ''Campaign_1'' \<in> values_of (keywords_tbl t') ''Campaign_1''}"
    and "cols (campaigns_tbl t') = cols (campaigns_tbl t)" and "cols (keywords_tbl t') = cols (keywords_tbl t)"
  using assms by (auto simp: keywords_of_search_terms_Inr)

lemma keywords_of_search_terms_kept:
  assumes ok: "keywords_of_search_terms (t\<lparr>search_terms_tbl := s\<rparr>) = Inr t'"
    and sub: "set (rws s) \<subseteq> set (rws (search_terms_tbl t))"
  shows "campaigns_kept C0 t \<Longrightarrow> campaigns_kept C0 t'"
    and "keywords_kept K0 t \<Longrightarrow> keywords_kept K0 t'"
proof -
  note r = keywords_of_search_terms_rows[OF ok]
  show "campaigns_kept C0 t'" if "campaigns_kept C0 t"
    using that r(2,3) by (intro campaigns_kept_cut[of C0 t t']) auto
  show "keywords_kept K0 t'" if "keywords_kept K0 t"
    using that r(1,2) sub by (intro keywords_kept_cut[of K0 t t']) auto
qed

lemma sort_values_cases:
  assumes "sort_values df c = Inr df'"
  obtains f :: "row \<Rightarrow> string" where
      "df' = df\<lparr>rws := sort_key f (filter (\<lambda>r. cell_of r c \<noteq> Num NaN) (rws df)) @
                         filter (\<lambda>r. cell_of r c = Num NaN) (rws df)\<rparr>"
  | g :: "row \<Rightarrow> nat \<times> rat" where
      "df' = df\<lparr>rws := sort_key g (filter (\<lambda>r. cell_of r c \<noteq> Num NaN) (rws df)) @
                         filter (\<lambda>r. cell_of r c = Num NaN) (rws df)\<rparr>"
proof (cases "column df c")
  case (Inl e)
  with assms show ?thesis by (simp add: sort_values_def)
next
  case (Inr s)
  show ?thesis
  proof (cases "list_all (\<lambda>r. is_Str (cell_of r c)) (filter (\<lambda>r. cell_of r c \<noteq> Num NaN) (rws df))")
    case True
    with assms Inr have "df' = df\<lparr>rws := sort_key (\<lambda>r. str_of (cell_of r c)) (filter (\<lambda>r. cell_of r c \<noteq> Num NaN) (rws df)) @
                         filter (\<lambda>r. cell_of r c = Num NaN) (rws df)\<rparr>"
      by (simp add: sort_values_def Let_def)
    then show ?thesis by (rule that(1))
  next
    case False
    with assms Inr have "df' = df\<lparr>rws := sort_key (\<lambda>r. num_key (num_of (cell_of r c))) (filter (\<lambda>r. cell_of r c \<noteq> Num NaN) (rws df)) @
                         filter (\<lambda>r. cell_of r c = Num NaN) (rws df)\<rparr>"
      by (simp add: sort_values_def Let_def split: if_splits)
    then show ?thesis by (rule that(2))
  qed
qed

lemma sort_values_rows:
  assumes "sort_values df c = Inr df'"
  shows "set (rws df') = set (rws df)" and "cols df' = cols df"
proof -
  have split: "set (filter (\<lambda>r. cell_of r c \<noteq> Num NaN) (rws df)) \<union>
               set (filter (\<lambda>r. cell_of r c = Num NaN) (rws df)) = set (rws df)"
    by auto
  from assms show "set (rws df') = set (rws df)"
    by (rule sort_values_cases) (use split in simp_all)
  from assms show "cols df' = cols df"
    by (rule sort_values_cases) simp_all
qed

lemma filter_keyword_action_kept:
  assumes "filter_keyword_action metrics a = Inr t"
  shows "campaigns_kept (rws (campaigns_tbl metrics)) t"
    and "keywords_kept (rws (keywords_tbl metrics)) t"
proof -
  show "campaigns_kept (rws (campaigns_tbl metrics)) t"
  proof (cases a)
    case None
    with assms show ?thesis by (simp add: filter_keyword_action_def campaigns_kept_def)
  next
    case (Some x)
    with assms obtain k s where
      k: "k = (keywords_tbl metrics)\<lparr>rws := filter (\<lambda>r. py_eq (cell_of r ''Action'') (Str x)) (rws (keywords_tbl metrics))\<rparr>"
      and t: "campaigns_of_keywords (metrics\<lparr>keywords_tbl := k, search_terms_tbl := s\<rparr>) = Inr t"
      unfolding filter_keyword_action_def Let_def
      by (auto simp: bindE_eq_Inr select_eq_Inr)
    have base: "campaigns_kept (rws (campaigns_tbl metrics)) metrics"
      by (simp add: campaigns_kept_def)
    note r = campaigns_of_keywords_rows[OF t]
    from base show ?thesis
      using r k by (intro campaigns_kept_cut[of _ metrics t]) auto
  qed
  show "keywords_kept (rws (keywords_tbl metrics)) t"
  proof (cases a)
    case None
    with assms show ?thesis by (auto simp: filter_keyword_action_def keywords_kept_def)
  next
    case (Some x)
    with assms obtain k kw s where k: "select_eq (keywords_tbl metrics) ''Action'' (Str x) = Inr k"
      and kw: "column k ''Keyword'' = Inr kw"
      and s0: "select_isin (search_terms_tbl metrics) ''Keyword'' (unique_s kw) = Inr s"
      and t: "campaigns_of_keywords (metrics\<lparr>keywords_tbl := k, search_terms_tbl := s\<rparr>) = Inr t"
      unfolding filter_keyword_action_def Let_def
      by (auto simp: bindE_eq_Inr)
    from s0 column_values[OF kw]
    have s: "set (rws s) \<subseteq> {r. cell_of r ''Keyword'' \<in> values_of k ''Keyword''}"
      by (auto simp: select_isin_Inr)
    note r = campaigns_of_keywords_rows[OF t]
    show ?thesis
      using r s by (intro keywords_kept_by_keywords) auto
  qed
qed

lemma filter_selected_search_terms_kept:
  assumes "filter_selected_search_terms sel t = Inr t'"
  shows "campaigns_kept C0 t \<Longrightarrow> campaigns_kept C0 t'"
    and "keywords_kept K0 t \<Longrightarrow> keywords_kept K0 t'"
proof -
  show "campaigns_kept C0 t'" if "campaigns_kept C0 t"
  proof (cases "sel = []")
    case True
    with assms that show ?thesis by (simp add: filter_selected_search_terms_def)
  next
    case False
    with assms obtain s where "keywords_of_search_terms (t\<lparr>search_terms_tbl := s\<rparr>) = Inr t'"
      and "set (rws s) \<subseteq> set (rws (search_terms_tbl t))"
      unfolding filter_selected_search_terms_def by (auto simp: bindE_eq_Inr select_isin_Inr)
    from keywords_of_search_terms_kept(1)[OF this that] show ?thesis .
  qed
  show "keywords_kept K0 t'" if "keywords_kept K0 t"
  proof (cases "sel = []")
    case True
    with assms that show ?thesis by (simp add: filter_selected_search_terms_def)
  next
    case False
    with assms obtain s where "keywords_of_search_terms (t\<lparr>search_terms_tbl := s\<rparr>) = Inr t'"
      and "set (rws s) \<subseteq> set (rws (search_terms_tbl t))"
      unfolding filter_selected_search_terms_def by (auto simp: bindE_eq_Inr select_isin_Inr)
    from keywords_of_search_terms_kept(2)[OF this that] show ?thesis .
  qed
qed

lemma filter_search_term_action_kept:
  assumes "filter_search_term_action a t = Inr t'"
  shows "campaigns_kept C0 t \<Longrightarrow> campaigns_kept C0 t'"
    and "keywords_kept K0 t \<Longrightarrow> keywords_kept K0 t'"
proof -
  show "campaigns_kept C0 t'" if "campaigns_kept C0 t"
  proof (cases a)
    case None
    with assms that show ?thesis by (simp add: filter_search_term_action_def)
  next
    case (Some x)
    with assms obtain s where "keywords_of_search_terms (t\<lparr>search_terms_tbl := s\<rparr>) = Inr t'"
      and "set (rws s) \<subseteq> set (rws (search_terms_tbl t))"
      unfolding filter_search_term_action_def by (auto simp: bindE_eq_Inr select_eq_Inr)
    from keywords_of_search_terms_kept(1)[OF this that] show ?thesis .
  qed
  show "keywords_kept K0 t'" if "keywords_kept K0 t"
  proof (cases a)
    case None
    with assms that show ?thesis by (simp add: filter_search_term_action_def)
  next
    case (Some x)
    with assms obtain s where "keywords_of_search_terms (t\<lparr>search_terms_tbl := s\<rparr>) = Inr t'"
      and "set (rws s) \<subseteq> set (rws (search_terms_tbl t))"
      unfolding filter_search_term_action_def by (auto simp: bindE_eq_Inr select_eq_Inr)
    from keywords_of_search_terms_kept(2)[OF this that] show ?thesis .
  qed
qed

lemma filter_duplicates_step:
  assumes "filter_duplicates True t = Inr t'"
  obtains s where "keywords_of_search_terms (t\<lparr>search_terms_tbl := s\<rparr>) = Inr t'"
    and "set (rws s) \<subseteq> set (rws (search_terms_tbl t))"
proof -
  from assms obtain cst s where cst: "column (search_terms_tbl t) ''CST'' = Inr cst"
    and s: "sort_values (boolean_index (search_terms_tbl t) (duplicated_s cst)) ''CST'' = Inr s"
    and t': "keywords_of_search_terms (t\<lparr>search_terms_tbl := s\<rparr>) = Inr t'"
    unfolding filter_duplicates_def Let_def by (auto simp: bindE_eq_Inr)
  have "set (rws (boolean_index (search_terms_tbl t) (duplicated_s cst))) \<subseteq> set (rws (search_terms_tbl t))"
    unfolding boolean_index_def by (auto dest!: set_zip_leftD)
  with sort_values_rows(1)[OF s] have "set (rws s) \<subseteq> set (rws (search_terms_tbl t))" by simp
  with t' that show thesis by blast
qed

lemma filter_duplicates_kept:
  assumes "filter_duplicates d t = Inr t'"
  shows "campaigns_kept C0 t \<Longrightarrow> campaigns_kept C0 t'"
    and "keywords_kept K0 t \<Longrightarrow> keywords_kept K0 t'"
proof -
  show "campaigns_kept C0 t'" if "campaigns_kept C0 t"
  proof (cases d)
    case False
    with assms that show ?thesis by (simp add: filter_duplicates_def)
  next
    case True
    with assms obtain s where "keywords_of_search_terms (t\<lparr>search_terms_tbl := s\<rparr>) = Inr t'"
      and "set (rws s) \<subseteq> set (rws (search_terms_tbl t))"
      by (auto elim: filter_duplicates_step)
    from keywords_of_search_terms_kept(1)[OF this that] show ?thesis .
  qed
  show "keywords_kept K0 t'" if "keywords_kept K0 t"
  proof (cases d)
    case False
    with assms that show ?thesis by (simp add: filter_duplicates_def)
  next
    case True
    with assms obtain s where "keywords_of_search_terms (t\<lparr>search_terms_tbl := s\<rparr>) = Inr t'"
      and "set (rws s) \<subseteq> set (rws (search_terms_tbl t))"
      by (auto elim: filter_duplicates_step)
    from keywords_of_search_terms_kept(2)[OF this that] show ?thesis .
  qed
qed

lemma filter_selected_campaigns_rows:
  assumes "filter_selected_campaigns sel t = Inr t'" and "sel \<noteq> []"
  shows "set (rws (campaigns_tbl t')) = {c \<in> set (rws (campaigns_tbl t)). cell_of c ''Campaign_1'' \<in> set sel}"
    and "set (rws (keywords_tbl t')) = {k \<in> set (rws (keywords_tbl t)). cell_of k ''Campaign_1'' \<in> set sel}"
    and "set (rws (search_terms_tbl t')) = {s \<in> set (rws (search_terms_tbl t)). cell_of s ''Campaign'' \<in> set sel}"
  using assms unfolding filter_selected_campaigns_def
  by (auto simp: bindE_eq_Inr select_isin_Inr)

lemma filter_selected_campaigns_kept:
  assumes "filter_selected_campaigns sel t = Inr t'"
  shows "campaigns_kept C0 t \<Longrightarrow> campaigns_kept C0 t'"
proof (cases "sel = []")
  case True
  with assms show "campaigns_kept C0 t \<Longrightarrow> campaigns_kept C0 t'"
    by (simp add: filter_selected_campaigns_def)
next
  case False
  note r = filter_selected_campaigns_rows[OF assms False]
  show "campaigns_kept C0 t'" if "campaigns_kept C0 t"
    using that r by (intro campaigns_kept_select[of C0 t t' "set sel"]) auto
qed

lemma filter_selected_keywords_rows:
  assumes "filter_selected_keywords sel t = Inr t'" and "sel \<noteq> []"
  shows "set (rws (keywords_tbl t')) = {k \<in> set (rws (keywords_tbl t)). cell_of k ''Keyword'' \<in> set sel}"
    and "set (rws (search_terms_tbl t')) = {s \<in> set (rws (search_terms_tbl t)). cell_of s ''Keyword'' \<in> set sel}"
    and "set (rws (campaigns_tbl t')) =
           {c \<in> set (rws (campaigns_tbl t)). cell_of c ''Campaign_1'' \<in> values_of (keywords_tbl t') ''Campaign_1''}"
proof -
  from assms obtain k s where
    k: "k = (keywords_tbl t)\<lparr>rws := filter (\<lambda>r. cell_of r ''Keyword'' \<in> set sel) (rws (keywords_tbl t))\<rparr>"
    and s: "s = (search_terms_tbl t)\<lparr>rws := filter (\<lambda>r. cell_of r ''Keyword'' \<in> set sel) (rws (search_terms_tbl t))\<rparr>"
    and t': "campaigns_of_keywords (t\<lparr>keywords_tbl := k, search_terms_tbl := s\<rparr>) = Inr t'"
    unfolding filter_selected_keywords_def by (auto simp: bindE_eq_Inr select_isin_Inr)
  note r = campaigns_of_keywords_rows[OF t']
  from r k show "set (rws (keywords_tbl t')) = {k \<in> set (rws (keywords_tbl t)). cell_of k ''Keyword'' \<in> set sel}"
    by auto
  from r s show "set (rws (search_terms_tbl t')) = {s \<in> set (rws (search_terms_tbl t)). cell_of s ''Keyword'' \<in> set sel}"
    by auto
  from r show "set (rws (campaigns_tbl t')) =
           {c \<in> set (rws (campaigns_tbl t)). cell_of c ''Campaign_1'' \<in> values_of (keywords_tbl t') ''Campaign_1''}"
    by auto
qed

lemma filter_selected_keywords_kept:
  assumes "filter_selected_keywords sel t = Inr t'"
  shows "campaigns_kept C0 t \<Longrightarrow> campaigns_kept C0 t'"
    and "keywords_kept K0 t \<Longrightarrow> keywords_kept K0 t'"
proof -
  show "campaigns_kept C0 t'" if "campaigns_kept C0 t"
  proof (cases "sel = []")
    case True
    with assms that show ?thesis by (simp add: filter_selected_keywords_def)
  next
    case False
    note r = filter_selected_keywords_rows[OF assms False]
    from that show ?thesis
      using r by (intro campaigns_kept_cut[of C0 t t']) auto
  qed
  show "keywords_kept K0 t'" if "keywords_kept K0 t"
  proof (cases "sel = []")
    case True
    with assms that show ?thesis by (simp add: filter_selected_keywords_def)
  next
    case False
    note r = filter_selected_keywords_rows[OF assms False]
    from that show ?thesis
      using r by (intro keywords_kept_select[of K0 t t' "set sel"]) auto
  qed
qed

section \<open>Sums, projections, the summary\<close>

lemma sequenceE_num_cell:
  "list_all (\<lambda>x. \<not> is_Str x) xs \<Longrightarrow> sequenceE (map num_cell xs) = Inr (map num_of xs)"
proof (induction xs)
  case Nil
  show ?case by simp
next
  case (Cons x xs)
  then show ?case by (cases x) (simp_all add: num_cell_def)
qed

lemma sum_s_numbers:
  "list_all (\<lambda>x. \<not> is_Str x) xs \<Longrightarrow>
   sum_s xs = Inr (foldl nadd (Fin 0) (filter (\<lambda>a. a \<noteq> NaN) (map num_of xs)))"
  by (simp add: sum_s_def sequenceE_num_cell)

lemma foldl_nadd_Fin:
  "list_all (\<lambda>a. \<exists>q. a = Fin q) ns \<Longrightarrow> \<exists>q. foldl nadd (Fin s) ns = Fin q"
proof (induction ns arbitrary: s)
  case Nil
  show ?case by simp
next
  case (Cons a ns)
  then obtain q where "a = Fin q" by auto
  with Cons show ?case by simp
qed

lemma finite_cell_not_Str: "finite_cell x \<Longrightarrow> \<not> is_Str x"
  by (cases x) auto

lemma sum_s_finite:
  assumes "list_all finite_cell xs"
  shows "\<exists>q. sum_s xs = Inr (Fin q)"
proof -
  from assms have n: "list_all (\<lambda>x. \<not> is_Str x) xs"
    by (auto simp: list_all_iff finite_cell_not_Str)
  have "list_all (\<lambda>a. \<exists>q. a = Fin q) (filter (\<lambda>a. a \<noteq> NaN) (map num_of xs))"
    unfolding list_all_iff
  proof
    fix a assume "a \<in> set (filter (\<lambda>a. a \<noteq> NaN) (map num_of xs))"
    then obtain x where x: "x \<in> set xs" and a: "a = num_of x" and nn: "a \<noteq> NaN" by auto
    from assms x have "finite_cell x" by (simp add: list_all_iff)
    with a nn show "\<exists>q. a = Fin q" by (cases x rule: finite_cell.cases) auto
  qed
  from foldl_nadd_Fin[OF this] show ?thesis by (simp add: sum_s_numbers[OF n])
qed

lemma project_Inr:
  "set cs \<subseteq> set (cols df) \<Longrightarrow> project df cs = Inr \<lparr>cols = cs, rws = map (\<lambda>r. r |` set cs) (rws df)\<rparr>"
proof -
  assume "set cs \<subseteq> set (cols df)"
  then have "filter (\<lambda>c. c \<notin> set (cols df)) cs = []"
    by (auto simp: filter_empty_conv)
  then show ?thesis by (simp add: project_def)
qed

lemma project_eq_Inr:
  "project df cs = Inr df' \<Longrightarrow> df' = \<lparr>cols = cs, rws = map (\<lambda>r. r |` set cs) (rws df)\<rparr>"
  by (auto simp: project_def split: list.splits)

lemma cell_of_restrict: "c \<in> A \<Longrightarrow> cell_of (r |` A) c = cell_of r c"
  by (simp add: cell_of_def)

lemma column_projected:
  "c \<in> set cs \<Longrightarrow> column \<lparr>cols = cs, rws = map (\<lambda>r. r |` set cs) rs\<rparr> c = Inr (map (\<lambda>r. cell_of r c) rs)"
  by (simp add: column_def cell_of_restrict o_def)

lemma py_int_Fin: "\<exists>n. py_int (Fin q) = Inr n"
  by (simp add: py_int_def)

lemma audit_summary_of_total:
  assumes sp: "list_all (\<lambda>r. \<not> is_Str (cell_of r ''Spend'')) rs"
    and sa: "list_all (\<lambda>r. \<not> is_Str (cell_of r ''Sales'')) rs"
    and cl: "list_all (\<lambda>r. finite_cell (cell_of r ''Clicks'')) rs"
  shows "\<exists>sm. audit_summary_of \<lparr>cols = campaign_columns_to_show,
            rws = map (\<lambda>r. r |` set campaign_columns_to_show) rs\<rparr> k s = Inr sm"
proof -
  have m: "''Spend'' \<in> set campaign_columns_to_show" "''Sales'' \<in> set campaign_columns_to_show"
    "''Clicks'' \<in> set campaign_columns_to_show"
    by (simp_all add: campaign_columns_to_show_def)
  from sp have 1: "list_all (\<lambda>x. \<not> is_Str x) (map (\<lambda>r. cell_of r ''Spend'') rs)"
    by (simp add: list_all_iff)
  from sa have 2: "list_all (\<lambda>x. \<not> is_Str x) (map (\<lambda>r. cell_of r ''Sales'') rs)"
    by (simp add: list_all_iff)
  from cl have 3: "list_all finite_cell (map (\<lambda>r. cell_of r ''Clicks'') rs)"
    by (simp add: list_all_iff)
  from sum_s_finite[OF 3] obtain q where q: "sum_s (map (\<lambda>r. cell_of r ''Clicks'') rs) = Inr (Fin q)" ..
  from py_int_Fin[of q] obtain n where n: "py_int (Fin q) = Inr n" ..
  show ?thesis
    unfolding audit_summary_of_def Let_def
    by (simp add: column_projected m sum_s_numbers[OF 1] sum_s_numbers[OF 2] q n)
qed

lemma button_simps:
  "action_filter_of (Some ''reset-btn'') = None"
  "search_term_filter_of (Some ''reset-btn'') = None"
  "find_duplicates_of (Some ''reset-btn'') = False"
  "action_filter_of (Some ''duplicate-btn'') = None"
  "search_term_filter_of (Some ''duplicate-btn'') = None"
  "find_duplicates_of (Some ''duplicate-btn'') = True"
  by (simp_all add: action_filter_of_def search_term_filter_of_def find_duplicates_of_def)

lemma column_present: "c \<in> set (cols df) \<Longrightarrow> column df c = Inr (map (\<lambda>r. cell_of r c) (rws df))"
  by (simp add: column_def)

lemma reset_output:
  assumes c: "set campaign_columns_to_show \<subseteq> set (cols (campaigns_tbl metrics))"
      "''Campaign_1'' \<in> set (cols (campaigns_tbl metrics))"
    and k: "set keyword_columns_to_show \<subseteq> set (cols (keywords_tbl metrics))"
    and s: "set search_term_columns_to_show \<subseteq> set (cols (search_terms_tbl metrics))"
    and sp: "list_all (\<lambda>r. \<not> is_Str (cell_of r ''Spend'')) (rws (campaigns_tbl metrics))"
    and sa: "list_all (\<lambda>r. \<not> is_Str (cell_of r ''Sales'')) (rws (campaigns_tbl metrics))"
    and cl: "list_all (\<lambda>r. finite_cell (cell_of r ''Clicks'')) (rws (campaigns_tbl metrics))"
  shows "\<exists>out. update_output metrics (Some ''reset-btn'') [] [] [] = Inr out \<and>
           rws (campaign_table out) =
             map (\<lambda>r. r |` set campaign_columns_to_show) (rws (campaigns_tbl metrics)) \<and>
           rws (keyword_table out) =
             map (\<lambda>r. r |` set keyword_columns_to_show) (rws (keywords_tbl metrics)) \<and>
           rws (search_term_table out) =
             map (\<lambda>r. r |` set search_term_columns_to_show) (rws (search_terms_tbl metrics))"
proof -
  from k have kw: "''Keyword'' \<in> set (cols (keywords_tbl metrics))"
    by (auto simp: keyword_columns_to_show_def)
  from s have cst: "''CST'' \<in> set (cols (search_terms_tbl metrics))"
    by (auto simp: search_term_columns_to_show_def)
  have hf: "hierarchy_filter metrics (Some ''reset-btn'') [] [] [] =
      Inr (metrics, unique_s (map (\<lambda>r. cell_of r ''Campaign_1'') (rws (campaigns_tbl metrics))),
           unique_s (map (\<lambda>r. cell_of r ''Keyword'') (rws (keywords_tbl metrics))),
           unique_s (map (\<lambda>r. cell_of r ''CST'') (rws (search_terms_tbl metrics))))"
    unfolding hierarchy_filter_def Let_def
    by (simp add: button_simps filter_keyword_action_def filter_selected_search_terms_def
        filter_search_term_action_def filter_duplicates_def filter_selected_campaigns_def
        filter_selected_keywords_def column_present c(2) kw cst)
  from audit_summary_of_total[OF sp sa cl] obtain sm where
    sm: "audit_summary_of \<lparr>cols = campaign_columns_to_show,
            rws = map (\<lambda>r. r |` set campaign_columns_to_show) (rws (campaigns_tbl metrics))\<rparr>
          \<lparr>cols = keyword_columns_to_show,
            rws = map (\<lambda>r. r |` set keyword_columns_to_show) (rws (keywords_tbl metrics))\<rparr>
          \<lparr>cols = search_term_columns_to_show,
            rws = map (\<lambda>r. r |` set search_term_columns_to_show) (rws (search_terms_tbl metrics))\<rparr> = Inr sm"
    by blast
  show ?thesis
    unfolding update_output_def Let_def
    by (simp add: hf project_Inr[OF c(1)] project_Inr[OF k] project_Inr[OF s] sm)
qed

lemma boolean_index_duplicated:
  "boolean_index df (duplicated_s (map (\<lambda>r. cell_of r c) (rws df))) =
     df\<lparr>rws := filter (\<lambda>r. 2 \<le> count_list (map (\<lambda>r. cell_of r c) (rws df)) (cell_of r c)) (rws df)\<rparr>"
proof -
  let ?cs = "map (\<lambda>r. cell_of r c) (rws df)"
  have "map (\<lambda>x. 2 \<le> count_list ?cs x) ?cs = map (\<lambda>r. 2 \<le> count_list ?cs (cell_of r c)) (rws df)"
    by simp
  then show ?thesis
    unfolding boolean_index_def duplicated_s_def by (simp add: filter_zip_map o_def)
qed

lemma sort_values_text:
  assumes "c \<in> set (cols df)" and "list_all (\<lambda>r. is_Str (cell_of r c)) (rws df)"
  shows "sort_values df c = Inr (df\<lparr>rws := sort_key (\<lambda>r. str_of (cell_of r c)) (rws df)\<rparr>)"
proof -
  from assms(2) have nn: "\<And>r. r \<in> set (rws df) \<Longrightarrow> cell_of r c \<noteq> Num NaN"
    by (auto simp: list_all_iff)
  then have p: "filter (\<lambda>r. cell_of r c \<noteq> Num NaN) (rws df) = rws df"
    by (simp add: filter_id_conv)
  from nn have m: "filter (\<lambda>r. cell_of r c = Num NaN) (rws df) = []"
    by (simp add: filter_empty_conv)
  show ?thesis
    unfolding sort_values_def Let_def by (simp add: column_present assms p m)
qed

lemma select_isin_present:
  "c \<in> set (cols df) \<Longrightarrow>
   select_isin df c vals = Inr (df\<lparr>rws := filter (\<lambda>r. cell_of r c \<in> set vals) (rws df)\<rparr>)"
  by (simp add: select_isin_Inr)

text \<open>Reset with campaigns left selected in the dropdown: the selection is still applied.\<close>

lemma reset_selected_campaigns_output:
  assumes c: "set campaign_columns_to_show \<subseteq> set (cols (campaigns_tbl metrics))"
      "''Campaign_1'' \<in> set (cols (campaigns_tbl metrics))"
    and k: "set keyword_columns_to_show \<subseteq> set (cols (keywords_tbl metrics))"
    and s: "set search_term_columns_to_show \<subseteq> set (cols (search_terms_tbl metrics))"
    and sp: "list_all (\<lambda>r. \<not> is_Str (cell_of r ''Spend'')) (rws (campaigns_tbl metrics))"
    and sa: "list_all (\<lambda>r. \<not> is_Str (cell_of r ''Sales'')) (rws (campaigns_tbl metrics))"
    and cl: "list_all (\<lambda>r. finite_cell (cell_of r ''Clicks'')) (rws (campaigns_tbl metrics))"
    and sel: "sel \<noteq> []"
  shows "\<exists>out. update_output metrics (Some ''reset-btn'') sel [] [] = Inr out \<and>
           rws (campaign_table out) =
             map (\<lambda>r. r |` set campaign_columns_to_show)
               (filter (\<lambda>r. cell_of r ''Campaign_1'' \<in> set sel) (rws (campaigns_tbl metrics))) \<and>
           rws (keyword_table out) =
             map (\<lambda>r. r |` set keyword_columns_to_show)
               (filter (\<lambda>r. cell_of r ''Campaign_1'' \<in> set sel) (rws (keywords_tbl metrics))) \<and>
           rws (search_term_table out) =
             map (\<lambda>r. r |` set search_term_columns_to_show)
               (filter (\<lambda>r. cell_of r ''Campaign'' \<in> set sel) (rws (search_terms_tbl metrics)))"
proof -
  from k have kw: "''Keyword'' \<in> set (cols (keywords_tbl metrics))"
      "''Campaign_1'' \<in> set (cols (keywords_tbl metrics))"
    by (auto simp: keyword_columns_to_show_def)
  from s have cst: "''CST'' \<in> set (cols (search_terms_tbl metrics))"
      "''Campaign'' \<in> set (cols (search_terms_tbl metrics))"
    by (auto simp: search_term_columns_to_show_def)
  define c5 where "c5 = (campaigns_tbl metrics)\<lparr>rws :=
      filter (\<lambda>r. cell_of r ''Campaign_1'' \<in> set sel) (rws (campaigns_tbl metrics))\<rparr>"
  define k5 where "k5 = (keywords_tbl metrics)\<lparr>rws :=
      filter (\<lambda>r. cell_of r ''Campaign_1'' \<in> set sel) (rws (keywords_tbl metrics))\<rparr>"
  define s5 where "s5 = (search_terms_tbl metrics)\<lparr>rws :=
      filter (\<lambda>r. cell_of r ''Campaign'' \<in> set sel) (rws (search_terms_tbl metrics))\<rparr>"
  define t5 where "t5 = metrics\<lparr>campaigns_tbl := c5, keywords_tbl := k5, search_terms_tbl := s5\<rparr>"
  have f5: "filter_selected_campaigns sel metrics = Inr t5"
    unfolding filter_selected_campaigns_def
    by (simp add: sel select_isin_present c(2) kw cst c5_def k5_def s5_def t5_def)
  have hf: "hierarchy_filter metrics (Some ''reset-btn'') sel [] [] =
      Inr (t5, unique_s (map (\<lambda>r. cell_of r ''Campaign_1'') (rws (campaigns_tbl metrics))),
           unique_s (map (\<lambda>r. cell_of r ''Keyword'') (rws k5)),
           unique_s (map (\<lambda>r. cell_of r ''CST'') (rws (search_terms_tbl metrics))))"
    unfolding hierarchy_filter_def Let_def
    by (simp add: button_simps filter_keyword_action_def filter_selected_search_terms_def
        filter_search_term_action_def filter_duplicates_def f5
        filter_selected_keywords_def column_present c(2) kw cst t5_def k5_def)
  have pc: "project (campaigns_tbl t5) campaign_columns_to_show =
      Inr \<lparr>cols = campaign_columns_to_show, rws = map (\<lambda>r. r |` set campaign_columns_to_show) (rws c5)\<rparr>"
    using project_Inr[of campaign_columns_to_show "campaigns_tbl t5"] c(1)
    by (simp add: t5_def c5_def)
  have pk: "project (keywords_tbl t5) keyword_columns_to_show =
      Inr \<lparr>cols = keyword_columns_to_show, rws = map (\<lambda>r. r |` set keyword_columns_to_show) (rws k5)\<rparr>"
    using project_Inr[of keyword_columns_to_show "keywords_tbl t5"] k
    by (simp add: t5_def k5_def)
  have ps: "project (search_terms_tbl t5) search_term_columns_to_show =
      Inr \<lparr>cols = search_term_columns_to_show, rws = map (\<lambda>r. r |` set search_term_columns_to_show) (rws s5)\<rparr>"
    using project_Inr[of search_term_columns_to_show "search_terms_tbl t5"] s
    by (simp add: t5_def s5_def)
  have sub: "set (rws c5) \<subseteq> set (rws (campaigns_tbl metrics))"
    by (auto simp: c5_def)
  from sp sa cl sub have
    "list_all (\<lambda>r. \<not> is_Str (cell_of r ''Spend'')) (rws c5)"
    "list_all (\<lambda>r. \<not> is_Str (cell_of r ''Sales'')) (rws c5)"
    "list_all (\<lambda>r. finite_cell (cell_of r ''Clicks'')) (rws c5)"
    by (auto simp: list_all_iff)
  from audit_summary_of_total[OF this] obtain sm where
    sm: "audit_summary_of \<lparr>cols = campaign_columns_to_show, rws = map (\<lambda>r. r |` set campaign_columns_to_show) (rws c5)\<rparr>
          \<lparr>cols = keyword_columns_to_show, rws = map (\<lambda>r. r |` set keyword_columns_to_show) (rws k5)\<rparr>
          \<lparr>cols = search_term_columns_to_show, rws = map (\<lambda>r. r |` set search_term_columns_to_show) (rws s5)\<rparr> = Inr sm"
    by blast
  show ?thesis
    unfolding update_output_def Let_def
    apply (simp add: hf pc pk ps sm)
    apply (simp add: c5_def k5_def s5_def)
    done
qed

lemma in_column: "r \<in> set rs \<Longrightarrow> cell_of r c \<in> set (map (\<lambda>r. cell_of r c) rs)"
  by simp

lemma column_ex: "v \<in> set (map (\<lambda>r. cell_of r c) rs) \<Longrightarrow> \<exists>r\<in>set rs. cell_of r c = v"
  by auto

lemma column_of_projected:
  "c \<in> set cs \<Longrightarrow> map (\<lambda>r. cell_of r c) (map (\<lambda>r. r |` set cs) rs) = map (\<lambda>r. cell_of r c) rs"
  by (simp add: cell_of_restrict o_def)

section \<open>The example tables, evaluated\<close>

lemmas filter_eval =
  hierarchy_filter_def update_output_def audit_summary_of_def
  action_filter_of_def search_term_filter_of_def find_duplicates_of_def
  campaigns_of_keywords_def keywords_of_search_terms_def filter_keyword_action_def
  filter_selected_search_terms_def filter_search_term_action_def filter_duplicates_def
  filter_selected_campaigns_def filter_selected_keywords_def
  campaign_columns_to_show_def search_term_columns_to_show_def keyword_columns_to_show_def

lemma list_all_column: "list_all (\<lambda>r. P (cell_of r c)) rs = list_all P (map (\<lambda>r. cell_of r c) rs)"
  by (simp add: list_all_iff)

text \<open>The tables that \<open>calculate_metrics\<close> returns for the example: their columns and key cells.\<close>

lemma sv_metrics_facts:
  "bindE (server_calculate_metrics sv_data (3 / 10)) (\<lambda>m.
     Inr (list_all (\<lambda>c. c \<in> set (cols (campaigns_tbl m))) (''Campaign_1'' # campaign_columns_to_show),
          list_all (\<lambda>c. c \<in> set (cols (keywords_tbl m))) keyword_columns_to_show,
          list_all (\<lambda>c. c \<in> set (cols (search_terms_tbl m))) search_term_columns_to_show,
          map (\<lambda>r. cell_of r ''Spend'') (rws (campaigns_tbl m)),
          map (\<lambda>r. cell_of r ''Sales'') (rws (campaigns_tbl m)),
          map (\<lambda>r. cell_of r ''Clicks'') (rws (campaigns_tbl m)),
          map (\<lambda>r. cell_of r ''CST'') (rws (search_terms_tbl m)),
          map (\<lambda>r. cell_of r ''Campaign_1'') (rws (campaigns_tbl m)),
          map (\<lambda>r. cell_of r ''Campaign_1'') (rws (keywords_tbl m)),
          map (\<lambda>r. cell_of r ''Campaign'') (rws (search_terms_tbl m)),
          (rws (campaigns_tbl m) ! 0) ''Spend'', (rws (campaigns_tbl m) ! 0) ''Clicks'',
          (rws (campaigns_tbl m) ! 0) ''CPC'', (rws (campaigns_tbl m) ! 0) ''ACOS'')) =
   Inr (True, True, True,
        [Num (Fin 50), Num (Fin 10)], [Num (Fin 200), Num (Fin 90)], [Num (Fin 20), Num (Fin 10)],
        [Str ''red shoes'', Str ''blue hat'', Str ''red shoes'', Str ''blue hat'', Str ''green sock''],
        [Str ''A'', Str ''B''], [Str ''A'', Str ''B'', Str ''B''],
        [Str ''B'', Str ''B'', Str ''A'', Str ''B'', Str ''A''],
        Some (Num (Fin 50)), Some (Num (Fin 20)), Some (Num (Fin 250)), Some (Num (Fin 25)))"
  by (simp add: frame_eval more_eval server_eval filter_eval sv_ex cong: bindE_weak_cong let_weak_cong)

lemma sv_metrics_obtain:
  obtains m where "server_calculate_metrics sv_data (3 / 10) = Inr m"
    and "set campaign_columns_to_show \<subseteq> set (cols (campaigns_tbl m))"
    and "''Campaign_1'' \<in> set (cols (campaigns_tbl m))"
    and "set keyword_columns_to_show \<subseteq> set (cols (keywords_tbl m))"
    and "set search_term_columns_to_show \<subseteq> set (cols (search_terms_tbl m))"
    and "map (\<lambda>r. cell_of r ''Spend'') (rws (campaigns_tbl m)) = [Num (Fin 50), Num (Fin 10)]"
    and "map (\<lambda>r. cell_of r ''Sales'') (rws (campaigns_tbl m)) = [Num (Fin 200), Num (Fin 90)]"
    and "map (\<lambda>r. cell_of r ''Clicks'') (rws (campaigns_tbl m)) = [Num (Fin 20), Num (Fin 10)]"
    and "map (\<lambda>r. cell_of r ''CST'') (rws (search_terms_tbl m)) =
           [Str ''red shoes'', Str ''blue hat'', Str ''red shoes'', Str ''blue hat'', Str ''green sock'']"
    and "map (\<lambda>r. cell_of r ''Campaign_1'') (rws (campaigns_tbl m)) = [Str ''A'', Str ''B'']"
    and "map (\<lambda>r. cell_of r ''Campaign_1'') (rws (keywords_tbl m)) = [Str ''A'', Str ''B'', Str ''B'']"
    and "map (\<lambda>r. cell_of r ''Campaign'') (rws (search_terms_tbl m)) =
           [Str ''B'', Str ''B'', Str ''A'', Str ''B'', Str ''A'']"
    and "(rws (campaigns_tbl m) ! 0) ''Spend'' = Some (Num (Fin 50))"
    and "(rws (campaigns_tbl m) ! 0) ''Clicks'' = Some (Num (Fin 20))"
    and "(rws (campaigns_tbl m) ! 0) ''CPC'' = Some (Num (Fin 250))"
    and "(rws (campaigns_tbl m) ! 0) ''ACOS'' = Some (Num (Fin 25))"
proof -
  from sv_metrics_facts obtain m where m: "server_calculate_metrics sv_data (3 / 10) = Inr m"
    and f: "list_all (\<lambda>c. c \<in> set (cols (campaigns_tbl m))) (''Campaign_1'' # campaign_columns_to_show)"
      "list_all (\<lambda>c. c \<in> set (cols (keywords_tbl m))) keyword_columns_to_show"
      "list_all (\<lambda>c. c \<in> set (cols (search_terms_tbl m))) search_term_columns_to_show"
      "map (\<lambda>r. cell_of r ''Spend'') (rws (campaigns_tbl m)) = [Num (Fin 50), Num (Fin 10)]"
      "map (\<lambda>r. cell_of r ''Sales'') (rws (campaigns_tbl m)) = [Num (Fin 200), Num (Fin 90)]"
      "map (\<lambda>r. cell_of r ''Clicks'') (rws (campaigns_tbl m)) = [Num (Fin 20), Num (Fin 10)]"
      "map (\<lambda>r. cell_of r ''CST'') (rws (search_terms_tbl m)) =
           [Str ''red shoes'', Str ''blue hat'', Str ''red shoes'', Str ''blue hat'', Str ''green sock'']"
      "map (\<lambda>r. cell_of r ''Campaign_1'') (rws (campaigns_tbl m)) = [Str ''A'', Str ''B'']"
      "map (\<lambda>r. cell_of r ''Campaign_1'') (rws (keywords_tbl m)) = [Str ''A'', Str ''B'', Str ''B'']"
      "map (\<lambda>r. cell_of r ''Campaign'') (rws (search_terms_tbl m)) =
           [Str ''B'', Str ''B'', Str ''A'', Str ''B'', Str ''A'']"
      "(rws (campaigns_tbl m) ! 0) ''Spend'' = Some (Num (Fin 50))"
      "(rws (campaigns_tbl m) ! 0) ''Clicks'' = Some (Num (Fin 20))"
      "(rws (campaigns_tbl m) ! 0) ''CPC'' = Some (Num (Fin 250))"
      "(rws (campaigns_tbl m) ! 0) ''ACOS'' = Some (Num (Fin 25))"
    unfolding bindE_eq_Inr by auto
  from f(1,2,3) have h: "set campaign_columns_to_show \<subseteq> set (cols (campaigns_tbl m))"
    "''Campaign_1'' \<in> set (cols (campaigns_tbl m))"
    "set keyword_columns_to_show \<subseteq> set (cols (keywords_tbl m))"
    "set search_term_columns_to_show \<subseteq> set (cols (search_terms_tbl m))"
    by (auto simp: list_all_iff)
  show thesis
    by (rule that[OF m h f(4) f(5) f(6) f(7) f(8) f(9) f(10) f(11) f(12) f(13) f(14)])
qed

text \<open>
  The Reduce Bid button with campaign B selected in the dropdown, and with nothing selected.
\<close>

lemma sv_reduce_bid_campaign_B:
  "bindE (server_calculate_metrics sv_data (3 / 10)) (\<lambda>metrics.
   bindE (hierarchy_filter metrics (Some ''reduce-bid-btn'') [Str ''B''] [] []) (\<lambda>res.
     Inr (map (\<lambda>r. cell_of r ''Keyword'') (rws (search_terms_tbl (fst res))),
          map (\<lambda>r. cell_of r ''Keyword'') (rws (keywords_tbl (fst res))),
          map (\<lambda>r. cell_of r ''Keyword'') (rws (keywords_tbl metrics)),
          map (\<lambda>r. cell_of r ''Campaign_1'') (rws (campaigns_tbl (fst res))),
          map (\<lambda>r. cell_of r ''Campaign_1'') (rws (keywords_tbl (fst res))),
          map (\<lambda>r. cell_of r ''Campaign'') (rws (search_terms_tbl (fst res))),
          map (\<lambda>r. cell_of r ''Campaign_1'') (rws (campaigns_tbl metrics))))) =
   Inr ([Str ''shoes'', Str ''hat'', Str ''hat''], [Str ''hat''], [Str ''shoes'', Str ''shoes'', Str ''hat''],
        [Str ''B''], [Str ''B''], [Str ''B'', Str ''B'', Str ''B''], [Str ''A'', Str ''B''])"
  by (simp add: frame_eval more_eval server_eval filter_eval sv_ex cong: bindE_weak_cong let_weak_cong)

lemma sv_reduce_bid:
  "bindE (server_calculate_metrics sv_data (3 / 10)) (\<lambda>metrics.
   bindE (hierarchy_filter metrics (Some ''reduce-bid-btn'') [] [] []) (\<lambda>res.
     Inr (map (\<lambda>r. cell_of r ''Keyword'') (rws (search_terms_tbl (fst res))),
          map (\<lambda>r. cell_of r ''Keyword'') (rws (keywords_tbl (fst res))),
          map (\<lambda>r. cell_of r ''Keyword'') (rws (keywords_tbl metrics))))) =
   Inr ([Str ''shoes'', Str ''hat'', Str ''shoes'', Str ''hat'', Str ''shoes''],
        [Str ''shoes'', Str ''hat''], [Str ''shoes'', Str ''shoes'', Str ''hat''])"
  by (simp add: frame_eval more_eval server_eval filter_eval sv_ex cong: bindE_weak_cong let_weak_cong)

lemma sv_duplicates_campaign_B:
  "bindE (server_calculate_metrics sv_data (3 / 10)) (\<lambda>metrics.
   bindE (hierarchy_filter metrics (Some ''duplicate-btn'') [Str ''B''] [] []) (\<lambda>res.
     Inr (map (\<lambda>r. cell_of r ''CST'') (rws (search_terms_tbl (fst res))),
          map (\<lambda>r. cell_of r ''Campaign'') (rws (search_terms_tbl (fst res))),
          map (\<lambda>r. cell_of r ''CST'') (rws (search_terms_tbl metrics)),
          map (\<lambda>r. cell_of r ''Campaign'') (rws (search_terms_tbl metrics))))) =
   Inr ([Str ''blue hat'', Str ''blue hat'', Str ''red shoes''], [Str ''B'', Str ''B'', Str ''B''],
        [Str ''red shoes'', Str ''blue hat'', Str ''red shoes'', Str ''blue hat'', Str ''green sock''],
        [Str ''B'', Str ''B'', Str ''A'', Str ''B'', Str ''A''])"
  by (simp add: frame_eval more_eval server_eval filter_eval sv_ex cong: bindE_weak_cong let_weak_cong)

text \<open>amazon\_ads\_audit.py on the sheet of two campaigns.\<close>

lemma am_audit_facts:
  "bindE (dash_load_and_clean_data am_sheet str_one) (\<lambda>data.
   bindE (amazon_calculate_metrics data (30 / 100)) (\<lambda>m.
   bindE (generate_audit_summary m) (\<lambda>s.
     Inr (map (\<lambda>r. cell_of r ''ACOS'') (rws (campaigns_tbl m)),
          map (\<lambda>r. cell_of r ''Spend'') (rws (campaigns_tbl m)),
          map (\<lambda>r. cell_of r ''Sales'') (rws (campaigns_tbl m)),
          am_acos s, am_total_spend s, am_total_revenue s)))) =
   Inr ([Num (Fin 1), Num (Fin (1 / 9))], [Num (Fin 10), Num (Fin 10)],
        [Num (Fin 10), Num (Fin 90)], Fin (278 / 5), Fin 20, Fin 100)"
  by (simp add: frame_eval more_eval amazon_eval am_ex floor_numeral_div Let_def cong: bindE_weak_cong let_weak_cong)

section \<open>Claims\<close>

text \<open>
  C3, as amended. In dash\_audit.py, for every keyword row with clicks = 5, orders = 0 and
  sales = 0 and the target ACOS ratio 0.30, \<open>calculate_metrics\<close> stores Max Bid = 0, and the
  label follows the comparison of Max Bid with the row's spend first: \<open>Increase Bid\<close> when
  the spend is below 0, \<open>Reduce Bid\<close> when the spend is above 0, and \<open>Pause\<close> only when
  neither holds (the spend is 0 or missing).
\<close>

theorem dash_max_bid_zero_action:
  assumes ok: "dash_calculate_metrics data (3 / 10) = Inr m"
    and i: "i < length (rws (keywords_tbl data))"
    and present: "{''Sales'', ''Clicks'', ''Spend'', ''Orders''} \<subseteq> set (cols (keywords_tbl data))"
    and clicks: "(rws (keywords_tbl data) ! i) ''Clicks'' = Some (Num (Fin 5))"
    and orders: "(rws (keywords_tbl data) ! i) ''Orders'' = Some (Num (Fin 0))"
    and sales: "(rws (keywords_tbl data) ! i) ''Sales'' = Some (Num (Fin 0))"
    and spend: "(rws (keywords_tbl data) ! i) ''Spend'' = Some (Num sp)"
  shows "(rws (keywords_tbl m) ! i) ''Max Bid'' = Some (Num (Fin 0)) \<and>
         (rws (keywords_tbl m) ! i) ''Action'' =
            Some (Str (if nlt sp (Fin 0) then ''Increase Bid''
                       else if nlt (Fin 0) sp then ''Reduce Bid'' else ''Pause''))"
proof -
  let ?k = "ensure_columns (keywords_tbl data) dash_required_keywords"
  have i': "i < length (rws ?k)" using i by simp
  have r0: "(rws ?k ! i) ''Clicks'' = Some (Num (Fin 5))" "(rws ?k ! i) ''Orders'' = Some (Num (Fin 0))"
    "(rws ?k ! i) ''Sales'' = Some (Num (Fin 0))" "(rws ?k ! i) ''Spend'' = Some (Num sp)"
    using present i clicks orders sales spend by (simp_all add: nth_ensure_columns)
  from dash_keyword_metrics_row[OF dash_calculate_metrics_keywords[OF ok] i'] obtain a b s where
    a: "cell_of (rws ?k ! i) ''Sales'' = Num a" and b: "cell_of (rws ?k ! i) ''Clicks'' = Num b"
    and s: "keyword_action_spend ((rws ?k ! i)(''Max Bid'' \<mapsto> Num (nmul (ndiv a (if b = Fin 0 then Fin 1 else b)) (Fin (3 / 10))))) = Inr s"
    and row: "rws (keywords_tbl m) ! i = (rws ?k ! i)(''Max Bid'' \<mapsto> Num (nmul (ndiv a (if b = Fin 0 then Fin 1 else b)) (Fin (3 / 10))),
                                    ''Action'' \<mapsto> Str s)"
    by blast
  from a b r0 have ab: "a = Fin 0" "b = Fin 5" by (simp_all add: cell_of_def)
  have mb: "nmul (ndiv a (if b = Fin 0 then Fin 1 else b)) (Fin (3 / 10)) = Fin 0"
    by (simp add: ab)
  have "keyword_action_spend ((rws ?k ! i)(''Max Bid'' \<mapsto> Num (Fin 0))) =
          Inr (if nlt sp (Fin 0) then ''Increase Bid''
               else if nlt (Fin 0) sp then ''Reduce Bid'' else ''Pause'')"
    using keyword_action_spend_eval[of "(rws ?k ! i)(''Max Bid'' \<mapsto> Num (Fin 0))" "Fin 0" sp "Fin 5" "Num (Fin 0)"] r0
    by (simp add: py_eq_def)
  with s mb have "s = (if nlt sp (Fin 0) then ''Increase Bid''
                       else if nlt (Fin 0) sp then ''Reduce Bid'' else ''Pause'')"
    by simp
  with row mb show ?thesis by simp
qed

text \<open>The theorem at a sheet whose keyword has 5 clicks, no order, no sales and no spend.\<close>

theorem dash_max_bid_zero_action_witness:
  "bindE (dash_load_and_clean_data bulk_spend_0 str_one) (\<lambda>data.
   bindE (dash_calculate_metrics data (3 / 10)) (\<lambda>m.
     Inr ((rws (keywords_tbl m) ! 0) ''Max Bid'', (rws (keywords_tbl m) ! 0) ''Action''))) =
   Inr (Some (Num (Fin 0)), Some (Str ''Pause''))"
proof -
  let ?data = "\<lparr>bulk_data_tbl = bulk_spend_0,
       campaigns_tbl = \<lparr>cols = bulk_cols, rws = [bulk_row ''Campaign'' ''A'' 100 5 0 0 0]\<rparr>,
       ad_groups_tbl = \<lparr>cols = bulk_cols, rws = []\<rparr>,
       keywords_tbl = \<lparr>cols = bulk_cols, rws = [bulk_row ''Keyword'' ''A'' 100 5 0 0 0]\<rparr>,
       placements_tbl = \<lparr>cols = bulk_cols, rws = []\<rparr>,
       search_terms_tbl = str_one\<rparr>"
  have load: "dash_load_and_clean_data bulk_spend_0 str_one = Inr ?data"
    by (simp add: frame_eval dash_eval bulk_spend_0_def str_one_def bulk_cols_def str_cols_def
        bulk_row_simps str_row_simps cong: bindE_weak_cong let_weak_cong)
  have "bindE (dash_calculate_metrics ?data (3 / 10)) (\<lambda>m. Inr True) = Inr True"
    by (simp add: frame_eval dash_eval str_one_def bulk_cols_def str_cols_def
        bulk_row_simps str_row_simps cong: bindE_weak_cong let_weak_cong)
  then obtain m where m: "dash_calculate_metrics ?data (3 / 10) = Inr m"
    by (auto simp: bindE_eq_Inr)
  have "(rws (keywords_tbl m) ! 0) ''Max Bid'' = Some (Num (Fin 0)) \<and>
        (rws (keywords_tbl m) ! 0) ''Action'' = Some (Str ''Pause'')"
    using dash_max_bid_zero_action[OF m, of 0 "Fin 0"]
    by (simp add: bulk_cols_def bulk_row_simps)
  with load m show ?thesis by simp
qed

text \<open>
  C3 as stated fails: in dash\_audit.py a keyword with 5 clicks, no order, no sales and a spend
  of 10 gets Max Bid = 0 and the label \<open>Reduce Bid\<close>, not \<open>Pause\<close>.
\<close>

theorem dash_max_bid_zero_action_counterexample:
  "bindE (dash_metrics bulk_spend_10 str_one 30) (\<lambda>m.
     Inr ((rws (keywords_tbl m) ! 0) ''Clicks'', (rws (keywords_tbl m) ! 0) ''Orders'',
          (rws (keywords_tbl m) ! 0) ''Sales'', (rws (keywords_tbl m) ! 0) ''Spend'',
          (rws (keywords_tbl m) ! 0) ''Max Bid'', (rws (keywords_tbl m) ! 0) ''Action'')) =
   Inr (Some (Num (Fin 5)), Some (Num (Fin 0)), Some (Num (Fin 0)), Some (Num (Fin 10)),
        Some (Num (Fin 0)), Some (Str ''Reduce Bid''))"
  by (simp add: dash_metrics_def frame_eval dash_eval bulk_spend_10_def str_one_def bulk_cols_def str_cols_def
      bulk_row_simps str_row_simps cong: bindE_weak_cong let_weak_cong)

text \<open>
  C10, as amended. For every keyword row whose Max Bid and baseline are numeric cells, the
  classifier assigns \<open>Increase Bid\<close> whenever Max Bid is above the baseline and
  \<open>Reduce Bid\<close> whenever it is below, whatever the clicks and orders, and assigns
  \<open>Pause\<close> only when neither comparison holds: Max Bid equals the baseline, or one of the
  two is missing (\<open>NaN\<close>). The baseline is the spend in dash\_audit.py, the cost per click in
  amazon\_ads\_audit.py and amazon\_ads\_audit\_Server.py.
\<close>

theorem keyword_pause_only_when_equal:
  "(r ''Max Bid'' = Some (Num mb) \<and> r ''Spend'' = Some (Num sp) \<longrightarrow>
      (nlt sp mb \<longrightarrow> keyword_action_spend r = Inr ''Increase Bid'') \<and>
      (nlt mb sp \<longrightarrow> keyword_action_spend r = Inr ''Reduce Bid'') \<and>
      (keyword_action_spend r = Inr ''Pause'' \<longrightarrow> mb = sp \<or> mb = NaN \<or> sp = NaN)) \<and>
   (r ''Max Bid'' = Some (Num mb) \<and> r ''CPC'' = Some (Num cpc) \<longrightarrow>
      (nlt cpc mb \<longrightarrow> keyword_action_cpc r = Inr ''Increase Bid'') \<and>
      (nlt mb cpc \<longrightarrow> keyword_action_cpc r = Inr ''Reduce Bid'') \<and>
      (keyword_action_cpc r = Inr ''Pause'' \<longrightarrow> mb = cpc \<or> mb = NaN \<or> cpc = NaN))"
proof (intro conjI impI)
  assume h: "r ''Max Bid'' = Some (Num mb) \<and> r ''Spend'' = Some (Num sp)"
  then have ev: "keyword_action_spend r =
     (if nlt sp mb then Inr ''Increase Bid'' else if nlt mb sp then Inr ''Reduce Bid''
      else bindE (andE (bindE (row_get r ''Clicks'') (\<lambda>c. py_lt (Num (Fin 4)) c))
                       (bindE (row_get r ''Orders'') (\<lambda>c. Inr (py_eq c (Num (Fin 0))))))
             (\<lambda>p. Inr (if p then ''Pause'' else ''Do Nothing'')))"
    by (intro keyword_action_spend_eval') auto
  show "nlt sp mb \<Longrightarrow> keyword_action_spend r = Inr ''Increase Bid''"
    by (simp add: ev)
  show "nlt mb sp \<Longrightarrow> keyword_action_spend r = Inr ''Reduce Bid''"
    using nlt_asym[of mb sp] by (simp add: ev)
  show "keyword_action_spend r = Inr ''Pause'' \<Longrightarrow> mb = sp \<or> mb = NaN \<or> sp = NaN"
    using nlt_irrefl_trichotomy[of mb sp] by (auto simp: ev split: if_splits)
next
  assume h: "r ''Max Bid'' = Some (Num mb) \<and> r ''CPC'' = Some (Num cpc)"
  then have ev: "keyword_action_cpc r =
     (if nlt cpc mb then Inr ''Increase Bid'' else if nlt mb cpc then Inr ''Reduce Bid''
      else bindE (andE (bindE (row_get r ''Clicks'') (\<lambda>c. py_lt (Num (Fin 4)) c))
                       (bindE (row_get r ''Orders'') (\<lambda>c. Inr (py_eq c (Num (Fin 0))))))
             (\<lambda>p. Inr (if p then ''Pause'' else ''Do Nothing'')))"
    by (intro keyword_action_cpc_eval) auto
  show "nlt cpc mb \<Longrightarrow> keyword_action_cpc r = Inr ''Increase Bid''"
    by (simp add: ev)
  show "nlt mb cpc \<Longrightarrow> keyword_action_cpc r = Inr ''Reduce Bid''"
    using nlt_asym[of mb cpc] by (simp add: ev)
  show "keyword_action_cpc r = Inr ''Pause'' \<Longrightarrow> mb = cpc \<or> mb = NaN \<or> cpc = NaN"
    using nlt_irrefl_trichotomy[of mb cpc] by (auto simp: ev split: if_splits)
qed

text \<open>The theorem at a row with Max Bid 0 below both baselines, 5 clicks and no order.\<close>

theorem keyword_pause_only_when_equal_witness:
  "keyword_action_spend kw_row_reduce = Inr ''Reduce Bid'' \<and>
   keyword_action_cpc kw_row_reduce = Inr ''Reduce Bid''"
  using keyword_pause_only_when_equal[of kw_row_reduce "Fin 0" "Fin 2" "Fin (2 / 5)"]
  by (simp add: kw_row_reduce_def)

text \<open>
  C10 as stated fails on a row with a missing value: in dash\_audit.py a keyword with 5 clicks,
  no order, no sales and a blank spend gets Max Bid = 0 and the label \<open>Pause\<close>, though its
  Max Bid does not equal its spend.
\<close>

theorem keyword_pause_only_when_equal_counterexample:
  "bindE (dash_metrics bulk_spend_blank str_one 30) (\<lambda>m.
     Inr ((rws (keywords_tbl m) ! 0) ''Clicks'', (rws (keywords_tbl m) ! 0) ''Orders'',
          (rws (keywords_tbl m) ! 0) ''Spend'', (rws (keywords_tbl m) ! 0) ''Max Bid'',
          (rws (keywords_tbl m) ! 0) ''Action'')) =
   Inr (Some (Num (Fin 5)), Some (Num (Fin 0)), Some (Num NaN), Some (Num (Fin 0)),
        Some (Str ''Pause''))"
  by (simp add: dash_metrics_def frame_eval dash_eval bulk_spend_blank_def str_one_def bulk_cols_def str_cols_def
      bulk_row_simps str_row_simps cong: bindE_weak_cong let_weak_cong)




text \<open>
  C5 fails on the code. In amazon\_ads\_audit\_Server.py (and in the same statements of
  Back\_up\_Final.py) a campaign with a spend of 50 on 20 clicks gets CPC = 250.00: the quotient
  2.50 is multiplied by 100 like the percentages (the ACOS of the same row is 25).
\<close>

theorem server_cpc_times_100:
  "bindE (server_calculate_metrics sv_data (3 / 10)) (\<lambda>m.
     Inr ((rws (campaigns_tbl m) ! 0) ''Spend'', (rws (campaigns_tbl m) ! 0) ''Clicks'',
          (rws (campaigns_tbl m) ! 0) ''CPC'', (rws (campaigns_tbl m) ! 0) ''ACOS'')) =
   Inr (Some (Num (Fin 50)), Some (Num (Fin 20)), Some (Num (Fin 250)), Some (Num (Fin 25)))"
  by (simp add: frame_eval more_eval server_eval sv_ex cong: bindE_weak_cong let_weak_cong)

text \<open>
  C2 fails on the code. In Back\_up\_Final.py the search-term ACOS is the plain quotient of
  spend by sales: a search term with a spend of 5 and no sale gets an infinite ACOS.
\<close>

theorem backup_search_term_acos_infinite:
  "bindE (backup_calculate_metrics bk_data (3 / 10)) (\<lambda>m.
     Inr ((rws (search_terms_tbl m) ! 0) ''Spend'', (rws (search_terms_tbl m) ! 0) ''7 Day Total Sales '',
          (rws (search_terms_tbl m) ! 0) ''ACOS'')) =
   Inr (Some (Num (Fin 5)), Some (Num (Fin 0)), Some (Num PInf))"
  by (simp add: frame_eval more_eval backup_eval bk_ex cong: bindE_weak_cong let_weak_cong)

text \<open>
  C9 fails on the code. In amazon\_ads\_audit.py only \<open>Sales\<close> and \<open>Orders\<close> are inserted when
  absent: on a bulk sheet without a \<open>Percentage\<close> column \<open>calculate_metrics\<close> raises
  \<open>KeyError\<close> at the placement statements.
\<close>

theorem amazon_missing_percentage_raises:
  "bindE (dash_load_and_clean_data am_sheet_no_percentage str_one) (\<lambda>data.
     amazon_calculate_metrics data (3 / 10)) = Inl (KeyError ''Percentage'')"
  by (simp add: frame_eval more_eval amazon_eval am_ex floor_numeral_div Let_def cong: bindE_weak_cong let_weak_cong)

text \<open>
  C8, as amended. In amazon\_ads\_audit\_Server.py, when the Reset button triggers the callback
  and nothing is selected in the three dropdowns, the three tables returned hold every row of
  the tables of \<open>calculate_metrics\<close>, in their order, cut to the columns shown. The tables
  are taken to have the columns that the callback reads, and the campaigns a spend and sales
  that are numbers and clicks that are finite numbers, so that the summary can be computed.
\<close>

theorem reset_returns_unfiltered:
  assumes c: "set campaign_columns_to_show \<subseteq> set (cols (campaigns_tbl metrics))"
      "''Campaign_1'' \<in> set (cols (campaigns_tbl metrics))"
    and k: "set keyword_columns_to_show \<subseteq> set (cols (keywords_tbl metrics))"
    and s: "set search_term_columns_to_show \<subseteq> set (cols (search_terms_tbl metrics))"
    and sp: "list_all (\<lambda>r. \<not> is_Str (cell_of r ''Spend'')) (rws (campaigns_tbl metrics))"
    and sa: "list_all (\<lambda>r. \<not> is_Str (cell_of r ''Sales'')) (rws (campaigns_tbl metrics))"
    and cl: "list_all (\<lambda>r. finite_cell (cell_of r ''Clicks'')) (rws (campaigns_tbl metrics))"
  shows "\<exists>out. update_output metrics (Some ''reset-btn'') [] [] [] = Inr out \<and>
           rws (campaign_table out) =
             map (\<lambda>r. r |` set campaign_columns_to_show) (rws (campaigns_tbl metrics)) \<and>
           rws (keyword_table out) =
             map (\<lambda>r. r |` set keyword_columns_to_show) (rws (keywords_tbl metrics)) \<and>
           rws (search_term_table out) =
             map (\<lambda>r. r |` set search_term_columns_to_show) (rws (search_terms_tbl metrics))"
  using assms by (rule reset_output)

text \<open>The theorem at the example tables: 2 campaigns, 3 keywords and 5 search terms come back.\<close>

theorem reset_returns_unfiltered_witness:
  "\<exists>m out. server_calculate_metrics sv_data (3 / 10) = Inr m \<and>
      update_output m (Some ''reset-btn'') [] [] [] = Inr out \<and>
      length (rws (campaign_table out)) = 2 \<and> length (rws (keyword_table out)) = 3 \<and>
      length (rws (search_term_table out)) = 5"
proof -
  obtain m where m: "server_calculate_metrics sv_data (3 / 10) = Inr m"
    and c: "set campaign_columns_to_show \<subseteq> set (cols (campaigns_tbl m))"
      "''Campaign_1'' \<in> set (cols (campaigns_tbl m))"
    and k: "set keyword_columns_to_show \<subseteq> set (cols (keywords_tbl m))"
    and s: "set search_term_columns_to_show \<subseteq> set (cols (search_terms_tbl m))"
    and sp: "map (\<lambda>r. cell_of r ''Spend'') (rws (campaigns_tbl m)) = [Num (Fin 50), Num (Fin 10)]"
    and sa: "map (\<lambda>r. cell_of r ''Sales'') (rws (campaigns_tbl m)) = [Num (Fin 200), Num (Fin 90)]"
    and cl: "map (\<lambda>r. cell_of r ''Clicks'') (rws (campaigns_tbl m)) = [Num (Fin 20), Num (Fin 10)]"
    and cst: "map (\<lambda>r. cell_of r ''CST'') (rws (search_terms_tbl m)) =
           [Str ''red shoes'', Str ''blue hat'', Str ''red shoes'', Str ''blue hat'', Str ''green sock'']"
    and ck: "map (\<lambda>r. cell_of r ''Campaign_1'') (rws (keywords_tbl m)) = [Str ''A'', Str ''B'', Str ''B'']"
    by (rule sv_metrics_obtain)
  have n: "list_all (\<lambda>r. \<not> is_Str (cell_of r ''Spend'')) (rws (campaigns_tbl m))"
    "list_all (\<lambda>r. \<not> is_Str (cell_of r ''Sales'')) (rws (campaigns_tbl m))"
    "list_all (\<lambda>r. finite_cell (cell_of r ''Clicks'')) (rws (campaigns_tbl m))"
    by (simp_all add: list_all_column[of "\<lambda>x. \<not> is_Str x"] list_all_column[of finite_cell] sp sa cl)
  from reset_returns_unfiltered[OF c k s n] obtain out where
    out: "update_output m (Some ''reset-btn'') [] [] [] = Inr out"
    and rows: "rws (campaign_table out) = map (\<lambda>r. r |` set campaign_columns_to_show) (rws (campaigns_tbl m))"
      "rws (keyword_table out) = map (\<lambda>r. r |` set keyword_columns_to_show) (rws (keywords_tbl m))"
      "rws (search_term_table out) = map (\<lambda>r. r |` set search_term_columns_to_show) (rws (search_terms_tbl m))"
    by blast
  from arg_cong[OF sp, of length] arg_cong[OF cst, of length] arg_cong[OF ck, of length] rows
  have "length (rws (campaign_table out)) = 2 \<and> length (rws (keyword_table out)) = 3 \<and>
      length (rws (search_term_table out)) = 5"
    by simp
  with m out show ?thesis by blast
qed

text \<open>
  C8 as stated fails: Reset clears the button filter only (lines 288--303), and the values of
  the dropdowns are inputs of the same call (lines 383--394). With campaign B left selected,
  Reset returns 1 of the 2 campaigns, 2 of the 3 keywords and 3 of the 5 search terms.
\<close>

theorem reset_returns_unfiltered_counterexample:
  "\<exists>m out. server_calculate_metrics sv_data (3 / 10) = Inr m \<and>
      update_output m (Some ''reset-btn'') [Str ''B''] [] [] = Inr out \<and>
      length (rws (campaigns_tbl m)) = 2 \<and> length (rws (campaign_table out)) = 1 \<and>
      length (rws (keywords_tbl m)) = 3 \<and> length (rws (keyword_table out)) = 2 \<and>
      length (rws (search_terms_tbl m)) = 5 \<and> length (rws (search_term_table out)) = 3"
proof -
  obtain m where m: "server_calculate_metrics sv_data (3 / 10) = Inr m"
    and c: "set campaign_columns_to_show \<subseteq> set (cols (campaigns_tbl m))"
      "''Campaign_1'' \<in> set (cols (campaigns_tbl m))"
    and k: "set keyword_columns_to_show \<subseteq> set (cols (keywords_tbl m))"
    and s: "set search_term_columns_to_show \<subseteq> set (cols (search_terms_tbl m))"
    and sp: "map (\<lambda>r. cell_of r ''Spend'') (rws (campaigns_tbl m)) = [Num (Fin 50), Num (Fin 10)]"
    and sa: "map (\<lambda>r. cell_of r ''Sales'') (rws (campaigns_tbl m)) = [Num (Fin 200), Num (Fin 90)]"
    and cl: "map (\<lambda>r. cell_of r ''Clicks'') (rws (campaigns_tbl m)) = [Num (Fin 20), Num (Fin 10)]"
    and cst: "map (\<lambda>r. cell_of r ''CST'') (rws (search_terms_tbl m)) =
           [Str ''red shoes'', Str ''blue hat'', Str ''red shoes'', Str ''blue hat'', Str ''green sock'']"
    and cc: "map (\<lambda>r. cell_of r ''Campaign_1'') (rws (campaigns_tbl m)) = [Str ''A'', Str ''B'']"
    and ck: "map (\<lambda>r. cell_of r ''Campaign_1'') (rws (keywords_tbl m)) = [Str ''A'', Str ''B'', Str ''B'']"
    and cs: "map (\<lambda>r. cell_of r ''Campaign'') (rws (search_terms_tbl m)) =
           [Str ''B'', Str ''B'', Str ''A'', Str ''B'', Str ''A'']"
    by (rule sv_metrics_obtain)
  have n: "list_all (\<lambda>r. \<not> is_Str (cell_of r ''Spend'')) (rws (campaigns_tbl m))"
    "list_all (\<lambda>r. \<not> is_Str (cell_of r ''Sales'')) (rws (campaigns_tbl m))"
    "list_all (\<lambda>r. finite_cell (cell_of r ''Clicks'')) (rws (campaigns_tbl m))"
    by (simp_all add: list_all_column[of "\<lambda>x. \<not> is_Str x"] list_all_column[of finite_cell] sp sa cl)
  have ne: "[Str ''B''] \<noteq> []" by simp
  from reset_selected_campaigns_output[OF c k s n ne] obtain out where
    out: "update_output m (Some ''reset-btn'') [Str ''B''] [] [] = Inr out"
    and rows: "rws (campaign_table out) = map (\<lambda>r. r |` set campaign_columns_to_show)
               (filter (\<lambda>r. cell_of r ''Campaign_1'' \<in> set [Str ''B'']) (rws (campaigns_tbl m)))"
      "rws (keyword_table out) = map (\<lambda>r. r |` set keyword_columns_to_show)
               (filter (\<lambda>r. cell_of r ''Campaign_1'' \<in> set [Str ''B'']) (rws (keywords_tbl m)))"
      "rws (search_term_table out) = map (\<lambda>r. r |` set search_term_columns_to_show)
               (filter (\<lambda>r. cell_of r ''Campaign'' \<in> set [Str ''B'']) (rws (search_terms_tbl m)))"
    by blast
  have len: "\<And>rs c. length (filter (\<lambda>r. cell_of r c \<in> set [Str ''B'']) rs) =
      length (filter (\<lambda>x. x \<in> set [Str ''B'']) (map (\<lambda>r. cell_of r c) rs))"
    by (simp add: filter_map o_def)
  have "length (rws (campaign_table out)) = 1" "length (rws (keyword_table out)) = 2"
    "length (rws (search_term_table out)) = 3"
    unfolding rows length_map len cc ck cs by simp_all
  moreover have "length (rws (campaigns_tbl m)) = 2" "length (rws (keywords_tbl m)) = 3"
    "length (rws (search_terms_tbl m)) = 5"
    using arg_cong[OF cc, of length] arg_cong[OF ck, of length] arg_cong[OF cs, of length] by simp_all
  ultimately show ?thesis using m out by blast
qed

text \<open>
  C7, as amended. In amazon\_ads\_audit\_Server.py, when the duplicate button triggers the
  callback, nothing is selected in the three dropdowns and every search term is a text, the
  search-term table returned holds exactly the rows (cut to the columns shown, each as often as
  it occurs) whose search term occurs twice or more in the search-term table of
  \<open>calculate_metrics\<close>, and these rows are in ascending order of the search term. The
  tables are taken to have the columns that the callback reads, and the campaigns a spend and
  sales that are numbers and clicks that are finite numbers.
\<close>

theorem duplicate_query:
  assumes c: "set campaign_columns_to_show \<subseteq> set (cols (campaigns_tbl metrics))"
      "''Campaign_1'' \<in> set (cols (campaigns_tbl metrics))"
    and k: "set keyword_columns_to_show \<subseteq> set (cols (keywords_tbl metrics))"
    and s: "set search_term_columns_to_show \<subseteq> set (cols (search_terms_tbl metrics))"
    and cst_text: "list_all (\<lambda>r. is_Str (cell_of r ''CST'')) (rws (search_terms_tbl metrics))"
    and sp: "list_all (\<lambda>r. \<not> is_Str (cell_of r ''Spend'')) (rws (campaigns_tbl metrics))"
    and sa: "list_all (\<lambda>r. \<not> is_Str (cell_of r ''Sales'')) (rws (campaigns_tbl metrics))"
    and cl: "list_all (\<lambda>r. finite_cell (cell_of r ''Clicks'')) (rws (campaigns_tbl metrics))"
  shows "\<exists>out. update_output metrics (Some ''duplicate-btn'') [] [] [] = Inr out \<and>
           mset (rws (search_term_table out)) =
             mset (map (\<lambda>r. r |` set search_term_columns_to_show)
               (filter (\<lambda>r. 2 \<le> count_list (map (\<lambda>r. cell_of r ''CST'') (rws (search_terms_tbl metrics)))
                                  (cell_of r ''CST''))
                  (rws (search_terms_tbl metrics)))) \<and>
           sorted (map (\<lambda>r. str_of (cell_of r ''CST'')) (rws (search_term_table out)))"
proof -
  let ?S = "search_terms_tbl metrics"
  let ?dup = "filter (\<lambda>r. 2 \<le> count_list (map (\<lambda>r. cell_of r ''CST'') (rws ?S)) (cell_of r ''CST'')) (rws ?S)"
  let ?key = "\<lambda>r. str_of (cell_of r ''CST'')"
  from k have kcols: "''Keyword'' \<in> set (cols (keywords_tbl metrics))"
      "''Campaign_1'' \<in> set (cols (keywords_tbl metrics))"
    by (auto simp: keyword_columns_to_show_def)
  from s have scols: "''CST'' \<in> set (cols ?S)" "''Keyword'' \<in> set (cols ?S)"
    by (auto simp: search_term_columns_to_show_def)
  define s4 where "s4 = ?S\<lparr>rws := sort_key ?key ?dup\<rparr>"
  define k4 where "k4 = (keywords_tbl metrics)\<lparr>rws :=
      filter (\<lambda>r. cell_of r ''Keyword'' \<in> values_of s4 ''Keyword'') (rws (keywords_tbl metrics))\<rparr>"
  define c4 where "c4 = (campaigns_tbl metrics)\<lparr>rws :=
      filter (\<lambda>r. cell_of r ''Campaign_1'' \<in> values_of k4 ''Campaign_1'') (rws (campaigns_tbl metrics))\<rparr>"
  define t4 where "t4 = metrics\<lparr>search_terms_tbl := s4, keywords_tbl := k4, campaigns_tbl := c4\<rparr>"
  have dup_text: "list_all (\<lambda>r. is_Str (cell_of r ''CST'')) ?dup"
    using cst_text by (auto simp: list_all_iff)
  have sv: "sort_values (?S\<lparr>rws := ?dup\<rparr>) ''CST'' = Inr s4"
    using sort_values_text[of "''CST''" "?S\<lparr>rws := ?dup\<rparr>"] scols dup_text
    by (simp add: s4_def)
  have kos: "keywords_of_search_terms (metrics\<lparr>search_terms_tbl := s4\<rparr>) = Inr t4"
    unfolding keywords_of_search_terms_Inr
    by (simp add: kcols scols c(2) s4_def k4_def c4_def t4_def)
  have fd: "filter_duplicates True metrics = Inr t4"
    unfolding filter_duplicates_def Let_def
    by (simp add: column_present scols boolean_index_duplicated sv kos)
  have t4_cols: "''Campaign_1'' \<in> set (cols (campaigns_tbl t4))" "''Keyword'' \<in> set (cols (keywords_tbl t4))"
    by (simp_all add: t4_def c4_def k4_def c(2) kcols)
  have hf: "hierarchy_filter metrics (Some ''duplicate-btn'') [] [] [] =
      Inr (t4, unique_s (map (\<lambda>r. cell_of r ''Campaign_1'') (rws (campaigns_tbl t4))),
           unique_s (map (\<lambda>r. cell_of r ''Keyword'') (rws (keywords_tbl t4))),
           unique_s (map (\<lambda>r. cell_of r ''CST'') (rws ?S)))"
    unfolding hierarchy_filter_def Let_def
    by (simp add: button_simps filter_keyword_action_def filter_selected_search_terms_def
        filter_search_term_action_def fd filter_selected_campaigns_def
        filter_selected_keywords_def column_present t4_cols scols)
  have pc: "project (campaigns_tbl t4) campaign_columns_to_show =
      Inr \<lparr>cols = campaign_columns_to_show, rws = map (\<lambda>r. r |` set campaign_columns_to_show) (rws c4)\<rparr>"
    using project_Inr[of campaign_columns_to_show "campaigns_tbl t4"] c(1)
    by (simp add: t4_def c4_def)
  have pk: "project (keywords_tbl t4) keyword_columns_to_show =
      Inr \<lparr>cols = keyword_columns_to_show, rws = map (\<lambda>r. r |` set keyword_columns_to_show) (rws k4)\<rparr>"
    using project_Inr[of keyword_columns_to_show "keywords_tbl t4"] k
    by (simp add: t4_def k4_def)
  have ps: "project (search_terms_tbl t4) search_term_columns_to_show =
      Inr \<lparr>cols = search_term_columns_to_show, rws = map (\<lambda>r. r |` set search_term_columns_to_show) (rws s4)\<rparr>"
    using project_Inr[of search_term_columns_to_show "search_terms_tbl t4"] s
    by (simp add: t4_def s4_def)
  have sub: "set (rws c4) \<subseteq> set (rws (campaigns_tbl metrics))"
    by (auto simp: c4_def)
  from sp sa cl sub have
    "list_all (\<lambda>r. \<not> is_Str (cell_of r ''Spend'')) (rws c4)"
    "list_all (\<lambda>r. \<not> is_Str (cell_of r ''Sales'')) (rws c4)"
    "list_all (\<lambda>r. finite_cell (cell_of r ''Clicks'')) (rws c4)"
    by (auto simp: list_all_iff)
  from audit_summary_of_total[OF this] obtain sm where
    sm: "audit_summary_of \<lparr>cols = campaign_columns_to_show, rws = map (\<lambda>r. r |` set campaign_columns_to_show) (rws c4)\<rparr>
          \<lparr>cols = keyword_columns_to_show, rws = map (\<lambda>r. r |` set keyword_columns_to_show) (rws k4)\<rparr>
          \<lparr>cols = search_term_columns_to_show, rws = map (\<lambda>r. r |` set search_term_columns_to_show) (rws s4)\<rparr> = Inr sm"
    by blast
  have out: "update_output metrics (Some ''duplicate-btn'') [] [] [] =
      Inr \<lparr>audit_summary = sm,
           campaign_options = unique_s (map (\<lambda>r. cell_of r ''Campaign_1'') (rws (campaigns_tbl t4))),
           campaign_table = \<lparr>cols = campaign_columns_to_show, rws = map (\<lambda>r. r |` set campaign_columns_to_show) (rws c4)\<rparr>,
           keyword_options = unique_s (map (\<lambda>r. cell_of r ''Keyword'') (rws (keywords_tbl t4))),
           keyword_table = \<lparr>cols = keyword_columns_to_show, rws = map (\<lambda>r. r |` set keyword_columns_to_show) (rws k4)\<rparr>,
           search_term_options = unique_s (map (\<lambda>r. cell_of r ''CST'') (rws ?S)),
           search_term_table = \<lparr>cols = search_term_columns_to_show, rws = map (\<lambda>r. r |` set search_term_columns_to_show) (rws s4)\<rparr>\<rparr>"
    unfolding update_output_def Let_def by (simp add: hf pc pk ps sm)
  have cst_shown: "''CST'' \<in> set search_term_columns_to_show"
    by (simp add: search_term_columns_to_show_def)
  have m: "mset (map (\<lambda>r. r |` set search_term_columns_to_show) (rws s4)) =
           mset (map (\<lambda>r. r |` set search_term_columns_to_show) ?dup)"
    by (simp add: s4_def)
  have "map ?key (map (\<lambda>r. r |` set search_term_columns_to_show) (rws s4)) = map ?key (sort_key ?key ?dup)"
    by (simp add: s4_def o_def cell_of_restrict[OF cst_shown])
  then have srt: "sorted (map ?key (map (\<lambda>r. r |` set search_term_columns_to_show) (rws s4)))"
    by simp
  from out m srt show ?thesis by simp
qed

text \<open>
  The theorem at the example tables: 4 of the 5 search terms come back, sorted by their text.
\<close>

theorem duplicate_query_witness:
  "\<exists>m out. server_calculate_metrics sv_data (3 / 10) = Inr m \<and>
      update_output m (Some ''duplicate-btn'') [] [] [] = Inr out \<and>
      length (rws (search_term_table out)) = 4 \<and>
      sorted (map (\<lambda>r. str_of (cell_of r ''CST'')) (rws (search_term_table out)))"
proof -
  obtain m where m: "server_calculate_metrics sv_data (3 / 10) = Inr m"
    and c: "set campaign_columns_to_show \<subseteq> set (cols (campaigns_tbl m))"
      "''Campaign_1'' \<in> set (cols (campaigns_tbl m))"
    and k: "set keyword_columns_to_show \<subseteq> set (cols (keywords_tbl m))"
    and s: "set search_term_columns_to_show \<subseteq> set (cols (search_terms_tbl m))"
    and sp: "map (\<lambda>r. cell_of r ''Spend'') (rws (campaigns_tbl m)) = [Num (Fin 50), Num (Fin 10)]"
    and sa: "map (\<lambda>r. cell_of r ''Sales'') (rws (campaigns_tbl m)) = [Num (Fin 200), Num (Fin 90)]"
    and cl: "map (\<lambda>r. cell_of r ''Clicks'') (rws (campaigns_tbl m)) = [Num (Fin 20), Num (Fin 10)]"
    and cst: "map (\<lambda>r. cell_of r ''CST'') (rws (search_terms_tbl m)) =
           [Str ''red shoes'', Str ''blue hat'', Str ''red shoes'', Str ''blue hat'', Str ''green sock'']"
    by (rule sv_metrics_obtain)
  have n: "list_all (\<lambda>r. is_Str (cell_of r ''CST'')) (rws (search_terms_tbl m))"
    "list_all (\<lambda>r. \<not> is_Str (cell_of r ''Spend'')) (rws (campaigns_tbl m))"
    "list_all (\<lambda>r. \<not> is_Str (cell_of r ''Sales'')) (rws (campaigns_tbl m))"
    "list_all (\<lambda>r. finite_cell (cell_of r ''Clicks'')) (rws (campaigns_tbl m))"
    by (simp_all add: list_all_column[of "\<lambda>x. \<not> is_Str x"] list_all_column[of finite_cell]
        list_all_column[of is_Str] sp sa cl cst)
  let ?cs = "map (\<lambda>r. cell_of r ''CST'') (rws (search_terms_tbl m))"
  from duplicate_query[OF c k s n] obtain out where
    out: "update_output m (Some ''duplicate-btn'') [] [] [] = Inr out"
    and ms: "mset (rws (search_term_table out)) =
             mset (map (\<lambda>r. r |` set search_term_columns_to_show)
               (filter (\<lambda>r. 2 \<le> count_list ?cs (cell_of r ''CST'')) (rws (search_terms_tbl m))))"
    and srt: "sorted (map (\<lambda>r. str_of (cell_of r ''CST'')) (rws (search_term_table out)))"
    by blast
  have "length (filter (\<lambda>r. 2 \<le> count_list ?cs (cell_of r ''CST'')) (rws (search_terms_tbl m))) =
        length (filter (\<lambda>x. 2 \<le> count_list ?cs x) ?cs)"
    by (simp add: filter_map o_def)
  also have "\<dots> = 4"
    unfolding cst by simp
  finally have "length (filter (\<lambda>r. 2 \<le> count_list ?cs (cell_of r ''CST'')) (rws (search_terms_tbl m))) = 4" .
  moreover from ms have "size (mset (rws (search_term_table out))) =
      size (mset (map (\<lambda>r. r |` set search_term_columns_to_show)
               (filter (\<lambda>r. 2 \<le> count_list ?cs (cell_of r ''CST'')) (rws (search_terms_tbl m)))))"
    by (rule arg_cong)
  then have "length (rws (search_term_table out)) =
      length (filter (\<lambda>r. 2 \<le> count_list ?cs (cell_of r ''CST'')) (rws (search_terms_tbl m)))"
    by (simp only: size_mset length_map)
  ultimately have "length (rws (search_term_table out)) = 4"
    by simp
  with m out srt show ?thesis by blast
qed

text \<open>
  C7 as stated fails when a dropdown holds a selection: the selected campaigns cut the search
  terms after the duplicates are found (lines 383--386). With campaign B selected, the duplicate
  query returns 3 rows; the row \<open>red shoes\<close> of campaign A, whose text occurs twice in the
  unfiltered table, is not among them.
\<close>

theorem duplicate_query_counterexample:
  "bindE (server_calculate_metrics sv_data (3 / 10)) (\<lambda>metrics.
   bindE (hierarchy_filter metrics (Some ''duplicate-btn'') [Str ''B''] [] []) (\<lambda>res.
     Inr (map (\<lambda>r. cell_of r ''CST'') (rws (search_terms_tbl (fst res))),
          map (\<lambda>r. cell_of r ''CST'') (rws (search_terms_tbl metrics)),
          map (\<lambda>r. cell_of r ''Campaign'') (rws (search_terms_tbl metrics))))) =
   Inr ([Str ''blue hat'', Str ''blue hat'', Str ''red shoes''],
        [Str ''red shoes'', Str ''blue hat'', Str ''red shoes'', Str ''blue hat'', Str ''green sock''],
        [Str ''B'', Str ''B'', Str ''A'', Str ''B'', Str ''A''])"
proof -
  from sv_duplicates_campaign_B obtain metrics res where
    m: "server_calculate_metrics sv_data (3 / 10) = Inr metrics"
    and h: "hierarchy_filter metrics (Some ''duplicate-btn'') [Str ''B''] [] [] = Inr res"
    and f: "map (\<lambda>r. cell_of r ''CST'') (rws (search_terms_tbl (fst res))) =
              [Str ''blue hat'', Str ''blue hat'', Str ''red shoes'']"
      "map (\<lambda>r. cell_of r ''CST'') (rws (search_terms_tbl metrics)) =
              [Str ''red shoes'', Str ''blue hat'', Str ''red shoes'', Str ''blue hat'', Str ''green sock'']"
      "map (\<lambda>r. cell_of r ''Campaign'') (rws (search_terms_tbl metrics)) =
              [Str ''B'', Str ''B'', Str ''A'', Str ''B'', Str ''A'']"
    unfolding bindE_eq_Inr by auto
  show ?thesis by (simp add: m h f)
qed

text \<open>
  C1, as amended. After the filters of amazon\_ads\_audit\_Server.py's \<open>update_output\<close>
  (lines 288--394), whatever the button and the selections: (i) every campaign row of
  \<open>calculate_metrics\<close> that a keyword of the result names is in the result; (ii) when no
  campaign is selected in the dropdown, every search term of the result whose targeting value
  is that of some keyword of \<open>calculate_metrics\<close> has a keyword of that value in the result;
  (iii) when campaigns are selected, the campaigns, the keywords and the search terms of the
  result all belong to the selected campaigns, each table by its own campaign column.
\<close>

theorem hierarchy_filter_consistency:
  assumes "hierarchy_filter metrics triggered selected_campaigns selected_keywords selected_search_terms = Inr res"
  shows "(\<forall>k\<in>set (rws (keywords_tbl (fst res))). \<forall>c\<in>set (rws (campaigns_tbl metrics)).
            cell_of c ''Campaign_1'' = cell_of k ''Campaign_1'' \<longrightarrow> c \<in> set (rws (campaigns_tbl (fst res)))) \<and>
         (selected_campaigns = [] \<longrightarrow>
            (\<forall>s\<in>set (rws (search_terms_tbl (fst res))). \<forall>k0\<in>set (rws (keywords_tbl metrics)).
               cell_of k0 ''Keyword'' = cell_of s ''Keyword'' \<longrightarrow>
               (\<exists>k\<in>set (rws (keywords_tbl (fst res))). cell_of k ''Keyword'' = cell_of s ''Keyword''))) \<and>
         (selected_campaigns \<noteq> [] \<longrightarrow>
            (\<forall>c\<in>set (rws (campaigns_tbl (fst res))). cell_of c ''Campaign_1'' \<in> set selected_campaigns) \<and>
            (\<forall>k\<in>set (rws (keywords_tbl (fst res))). cell_of k ''Campaign_1'' \<in> set selected_campaigns) \<and>
            (\<forall>s\<in>set (rws (search_terms_tbl (fst res))). cell_of s ''Campaign'' \<in> set selected_campaigns))"
proof -
  from assms obtain t1 t2 t3 t4 t5 t6 where
    t1: "filter_keyword_action metrics (action_filter_of triggered) = Inr t1"
    and t2: "filter_selected_search_terms selected_search_terms t1 = Inr t2"
    and t3: "filter_search_term_action (search_term_filter_of triggered) t2 = Inr t3"
    and t4: "filter_duplicates (find_duplicates_of triggered) t3 = Inr t4"
    and t5: "filter_selected_campaigns selected_campaigns t4 = Inr t5"
    and t6: "filter_selected_keywords selected_keywords t5 = Inr t6"
    and res: "fst res = t6"
    unfolding hierarchy_filter_def Let_def by (auto simp: bindE_eq_Inr)
  let ?C0 = "rws (campaigns_tbl metrics)" and ?K0 = "rws (keywords_tbl metrics)"
  have "campaigns_kept ?C0 t4"
    using filter_keyword_action_kept(1)[OF t1] filter_selected_search_terms_kept(1)[OF t2]
      filter_search_term_action_kept(1)[OF t3] filter_duplicates_kept(1)[OF t4] by blast
  then have ck: "campaigns_kept ?C0 t6"
    using filter_selected_campaigns_kept[OF t5] filter_selected_keywords_kept(1)[OF t6] by blast
  have kk4: "keywords_kept ?K0 t4"
    using filter_keyword_action_kept(2)[OF t1] filter_selected_search_terms_kept(2)[OF t2]
      filter_search_term_action_kept(2)[OF t3] filter_duplicates_kept(2)[OF t4] by blast
  have kk: "keywords_kept ?K0 t6" if "selected_campaigns = []"
  proof -
    from that t5 have "t5 = t4" by (simp add: filter_selected_campaigns_def)
    with kk4 filter_selected_keywords_kept(2)[OF t6] show ?thesis by blast
  qed
  have sub6: "set (rws (campaigns_tbl t6)) \<subseteq> set (rws (campaigns_tbl t5)) \<and>
              set (rws (keywords_tbl t6)) \<subseteq> set (rws (keywords_tbl t5)) \<and>
              set (rws (search_terms_tbl t6)) \<subseteq> set (rws (search_terms_tbl t5))"
  proof (cases "selected_keywords = []")
    case True
    with t6 show ?thesis by (simp add: filter_selected_keywords_def)
  next
    case False
    from filter_selected_keywords_rows[OF t6 False] show ?thesis by auto
  qed
  have sel: "(\<forall>c\<in>set (rws (campaigns_tbl t6)). cell_of c ''Campaign_1'' \<in> set selected_campaigns) \<and>
            (\<forall>k\<in>set (rws (keywords_tbl t6)). cell_of k ''Campaign_1'' \<in> set selected_campaigns) \<and>
            (\<forall>s\<in>set (rws (search_terms_tbl t6)). cell_of s ''Campaign'' \<in> set selected_campaigns)"
    if "selected_campaigns \<noteq> []"
    using filter_selected_campaigns_rows[OF t5 that] sub6 by auto
  from ck kk sel show ?thesis
    unfolding res campaigns_kept_def keywords_kept_def by blast
qed

text \<open>
  The theorem at the example tables, for the Reduce Bid button with campaign B selected and
  with no campaign selected.
\<close>

theorem hierarchy_filter_consistency_witness:
  "\<exists>metrics res res'. server_calculate_metrics sv_data (3 / 10) = Inr metrics \<and>
     hierarchy_filter metrics (Some ''reduce-bid-btn'') [Str ''B''] [] [] = Inr res \<and>
     hierarchy_filter metrics (Some ''reduce-bid-btn'') [] [] [] = Inr res' \<and>
     length (rws (keywords_tbl (fst res))) = 1 \<and>
     length (rws (search_terms_tbl (fst res))) = 3 \<and>
     list_all (\<lambda>k. list_ex (\<lambda>c. cell_of c ''Campaign_1'' = cell_of k ''Campaign_1'')
                  (rws (campaigns_tbl (fst res)))) (rws (keywords_tbl (fst res))) \<and>
     list_all (\<lambda>k. cell_of k ''Campaign_1'' = Str ''B'') (rws (keywords_tbl (fst res))) \<and>
     list_all (\<lambda>s. cell_of s ''Campaign'' = Str ''B'') (rws (search_terms_tbl (fst res))) \<and>
     length (rws (search_terms_tbl (fst res'))) = 5 \<and>
     list_all (\<lambda>s. list_ex (\<lambda>k. cell_of k ''Keyword'' = cell_of s ''Keyword'')
                  (rws (keywords_tbl (fst res')))) (rws (search_terms_tbl (fst res')))"
proof -
  from sv_reduce_bid_campaign_B obtain metrics res where
    m: "server_calculate_metrics sv_data (3 / 10) = Inr metrics"
    and h: "hierarchy_filter metrics (Some ''reduce-bid-btn'') [Str ''B''] [] [] = Inr res"
    and f: "map (\<lambda>r. cell_of r ''Keyword'') (rws (search_terms_tbl (fst res))) = [Str ''shoes'', Str ''hat'', Str ''hat'']"
      "map (\<lambda>r. cell_of r ''Campaign_1'') (rws (keywords_tbl (fst res))) = [Str ''B'']"
      "map (\<lambda>r. cell_of r ''Campaign_1'') (rws (campaigns_tbl metrics)) = [Str ''A'', Str ''B'']"
    unfolding bindE_eq_Inr by auto
  from sv_reduce_bid m obtain res' where
    h': "hierarchy_filter metrics (Some ''reduce-bid-btn'') [] [] [] = Inr res'"
    and f': "map (\<lambda>r. cell_of r ''Keyword'') (rws (search_terms_tbl (fst res'))) =
               [Str ''shoes'', Str ''hat'', Str ''shoes'', Str ''hat'', Str ''shoes'']"
      "map (\<lambda>r. cell_of r ''Keyword'') (rws (keywords_tbl metrics)) = [Str ''shoes'', Str ''shoes'', Str ''hat'']"
    unfolding bindE_eq_Inr by auto
  note t = hierarchy_filter_consistency[OF h] and t' = hierarchy_filter_consistency[OF h']
  have ne: "[Str ''B''] \<noteq> []" by simp
  have len: "length (rws (keywords_tbl (fst res))) = 1" "length (rws (search_terms_tbl (fst res))) = 3"
    "length (rws (search_terms_tbl (fst res'))) = 5"
    using arg_cong[OF f(1), of length] arg_cong[OF f(2), of length] arg_cong[OF f'(1), of length]
    by simp_all
  have a: "list_all (\<lambda>k. list_ex (\<lambda>c. cell_of c ''Campaign_1'' = cell_of k ''Campaign_1'')
                  (rws (campaigns_tbl (fst res)))) (rws (keywords_tbl (fst res)))"
    unfolding list_all_iff list_ex_iff
  proof
    fix k assume k: "k \<in> set (rws (keywords_tbl (fst res)))"
    from in_column[OF k, of "''Campaign_1''"] have "cell_of k ''Campaign_1'' = Str ''B''"
      unfolding f(2) by simp
    moreover have "Str ''B'' \<in> set (map (\<lambda>r. cell_of r ''Campaign_1'') (rws (campaigns_tbl metrics)))"
      unfolding f(3) by simp
    ultimately obtain c where c: "c \<in> set (rws (campaigns_tbl metrics))"
      "cell_of c ''Campaign_1'' = cell_of k ''Campaign_1''"
      using column_ex by metis
    with t k have "c \<in> set (rws (campaigns_tbl (fst res)))" by blast
    with c show "\<exists>c\<in>set (rws (campaigns_tbl (fst res))). cell_of c ''Campaign_1'' = cell_of k ''Campaign_1''"
      by blast
  qed
  have b: "list_all (\<lambda>k. cell_of k ''Campaign_1'' = Str ''B'') (rws (keywords_tbl (fst res)))"
    "list_all (\<lambda>s. cell_of s ''Campaign'' = Str ''B'') (rws (search_terms_tbl (fst res)))"
    using t ne unfolding list_all_iff by auto
  have c: "list_all (\<lambda>s. list_ex (\<lambda>k. cell_of k ''Keyword'' = cell_of s ''Keyword'')
                  (rws (keywords_tbl (fst res')))) (rws (search_terms_tbl (fst res')))"
    unfolding list_all_iff list_ex_iff
  proof
    fix s assume s: "s \<in> set (rws (search_terms_tbl (fst res')))"
    from in_column[OF s, of "''Keyword''"]
    have "cell_of s ''Keyword'' \<in> set (map (\<lambda>r. cell_of r ''Keyword'') (rws (keywords_tbl metrics)))"
      unfolding f' by auto
    then obtain k0 where k0: "k0 \<in> set (rws (keywords_tbl metrics))"
      "cell_of k0 ''Keyword'' = cell_of s ''Keyword''"
      using column_ex by metis
    with t' s show "\<exists>k\<in>set (rws (keywords_tbl (fst res'))). cell_of k ''Keyword'' = cell_of s ''Keyword''"
      by blast
  qed
  from m h h' len a b c show ?thesis by blast
qed

text \<open>
  C1 as stated fails: the selected campaigns cut the keywords and the search terms
  independently (lines 383--386). With the Reduce Bid button and campaign B selected, the result
  keeps the search term of campaign B that targets \<open>shoes\<close>, while its only keyword is
  \<open>hat\<close>.
\<close>

theorem hierarchy_filter_consistency_counterexample:
  "bindE (server_calculate_metrics sv_data (3 / 10)) (\<lambda>metrics.
   bindE (hierarchy_filter metrics (Some ''reduce-bid-btn'') [Str ''B''] [] []) (\<lambda>res.
     Inr (map (\<lambda>r. cell_of r ''Keyword'') (rws (search_terms_tbl (fst res))),
          map (\<lambda>r. cell_of r ''Campaign'') (rws (search_terms_tbl (fst res))),
          map (\<lambda>r. cell_of r ''Keyword'') (rws (keywords_tbl (fst res))),
          map (\<lambda>r. cell_of r ''Campaign_1'') (rws (keywords_tbl (fst res)))))) =
   Inr ([Str ''shoes'', Str ''hat'', Str ''hat''], [Str ''B'', Str ''B'', Str ''B''],
        [Str ''hat''], [Str ''B''])"
proof -
  from sv_reduce_bid_campaign_B obtain metrics res where
    m: "server_calculate_metrics sv_data (3 / 10) = Inr metrics"
    and h: "hierarchy_filter metrics (Some ''reduce-bid-btn'') [Str ''B''] [] [] = Inr res"
    and f: "map (\<lambda>r. cell_of r ''Keyword'') (rws (search_terms_tbl (fst res))) = [Str ''shoes'', Str ''hat'', Str ''hat'']"
      "map (\<lambda>r. cell_of r ''Keyword'') (rws (keywords_tbl (fst res))) = [Str ''hat'']"
      "map (\<lambda>r. cell_of r ''Campaign_1'') (rws (keywords_tbl (fst res))) = [Str ''B'']"
      "map (\<lambda>r. cell_of r ''Campaign'') (rws (search_terms_tbl (fst res))) = [Str ''B'', Str ''B'', Str ''B'']"
    unfolding bindE_eq_Inr by auto
  show ?thesis by (simp add: m h f)
qed




end
